theory Spec2Isabelle
  imports Main "HOL-Library.AList" "HOL-Library.Char_ord" "HOL-Library.List_Lexorder"
begin

section \<open>JavaScript values\<close>

text \<open>
  The compiler of \<^verbatim>\<open>lib/plugins/aws/package/compile/functions.js\<close> works on
  dynamically typed property bags. A value is one of JavaScript's primitives, an array or
  an object; an object is the list of its own properties in insertion order. Numbers are
  the integers (the configuration holds sizes, counts and seconds).
  Reading a property of a value that is not an object gives \<open>JUndef\<close>; the places where
  the source would raise a \<open>TypeError\<close> on an input it can receive are written out as
  errors in the functions below.
\<close>

datatype jv =
    JUndef
  | JNull
  | JBool bool
  | JNum int
  | JStr string
  | JArr "jv list"
  | JObj "(string \<times> jv) list"

type_synonym props = "(string \<times> jv) list"

fun truthy :: "jv \<Rightarrow> bool" where
  "truthy JUndef = False"
| "truthy JNull = False"
| "truthy (JBool b) = b"
| "truthy (JNum n) = (n \<noteq> 0)"
| "truthy (JStr s) = (s \<noteq> [])"
| "truthy (JArr xs) = True"
| "truthy (JObj al) = True"

definition js_or :: "jv \<Rightarrow> jv \<Rightarrow> jv" where
  "js_or a b = (if truthy a then a else b)"

definition js_and :: "jv \<Rightarrow> jv \<Rightarrow> jv" where
  "js_and a b = (if truthy a then b else a)"

text \<open>\<open>x == null\<close> holds of \<open>null\<close> and \<open>undefined\<close>.\<close>

definition nullish :: "jv \<Rightarrow> bool" where
  "nullish v = (v = JUndef \<or> v = JNull)"

definition lookup :: "props \<Rightarrow> string \<Rightarrow> jv" where
  "lookup al k = (case map_of al k of None \<Rightarrow> JUndef | Some v \<Rightarrow> v)"

fun getp :: "jv \<Rightarrow> string \<Rightarrow> jv" where
  "getp (JObj al) k = lookup al k"
| "getp v k = JUndef"

fun setp :: "jv \<Rightarrow> string \<Rightarrow> jv \<Rightarrow> jv" where
  "setp (JObj al) k v = JObj (AList.update k v al)"
| "setp x k v = x"

fun delp :: "jv \<Rightarrow> string \<Rightarrow> jv" where
  "delp (JObj al) k = JObj (AList.delete k al)"
| "delp x k = x"

text \<open>\<open>k in o\<close> for an object: the key is an own property, whatever its value.\<close>

fun hasp :: "jv \<Rightarrow> string \<Rightarrow> bool" where
  "hasp (JObj al) k = (k \<in> set (map fst al))"
| "hasp v k = False"

fun elems :: "jv \<Rightarrow> jv list" where
  "elems (JArr xs) = xs"
| "elems v = []"

fun idx :: "jv \<Rightarrow> nat \<Rightarrow> jv" where
  "idx (JArr xs) i = (if i < length xs then xs ! i else JUndef)"
| "idx v i = JUndef"

fun setIdx :: "jv \<Rightarrow> nat \<Rightarrow> jv \<Rightarrow> jv" where
  "setIdx (JArr xs) i v = (if i < length xs then JArr (xs[i := v]) else JArr xs)"
| "setIdx x i v = x"

text \<open>\<open>typeof x === 'string'\<close>, \<open>typeof x === 'object'\<close>, \<open>typeof x === 'boolean'\<close> and
  lodash's \<open>_.isObject\<close>.\<close>

fun is_string :: "jv \<Rightarrow> bool" where
  "is_string (JStr s) = True"
| "is_string v = False"

fun typeof_object :: "jv \<Rightarrow> bool" where
  "typeof_object JNull = True"
| "typeof_object (JArr xs) = True"
| "typeof_object (JObj al) = True"
| "typeof_object v = False"

fun is_boolean :: "jv \<Rightarrow> bool" where
  "is_boolean (JBool b) = True"
| "is_boolean v = False"

fun isObject :: "jv \<Rightarrow> bool" where
  "isObject (JArr xs) = True"
| "isObject (JObj al) = True"
| "isObject v = False"

text \<open>Enumerating the own properties of a value (\<open>Object.entries\<close>, \<open>Object.assign\<close>)
  visits the keys that spell an array index first (a decimal numeral without a leading
  zero, at most 4294967294), in ascending numeric order, and then the other keys in
  insertion order. An array has its elements under their indices, a string its
  characters; any other value that is not an object has no own property.\<close>

definition isDigit :: "char \<Rightarrow> bool" where
  "isDigit c = (c \<in> set ''0123456789'')"

definition isIndexKey :: "string \<Rightarrow> bool" where
  "isIndexKey k =
     (k \<noteq> [] \<and> list_all isDigit k \<and> (k = ''0'' \<or> hd k \<noteq> CHR ''0'')
      \<and> (length k < 10 \<or> (length k = 10 \<and> k \<le> ''4294967294'')))"

definition indexLess :: "string \<Rightarrow> string \<Rightarrow> bool" where
  "indexLess a b = (length a < length b \<or> (length a = length b \<and> a < b))"

fun insertIndex :: "string \<times> jv \<Rightarrow> props \<Rightarrow> props" where
  "insertIndex x [] = [x]"
| "insertIndex x (y # ys) =
     (if indexLess (fst x) (fst y) then x # y # ys else y # insertIndex x ys)"

definition ownProperties :: "props \<Rightarrow> props" where
  "ownProperties al =
     foldr insertIndex (filter (\<lambda>kv. isIndexKey (fst kv)) al) []
     @ filter (\<lambda>kv. \<not> isIndexKey (fst kv)) al"

fun digits :: "nat \<Rightarrow> nat \<Rightarrow> string" where
  "digits 0 n = []"
| "digits (Suc fuel) n =
     (if n < 10 then [char_of (48 + n)] else digits fuel (n div 10) @ [char_of (48 + n mod 10)])"

definition show_nat :: "nat \<Rightarrow> string" where
  "show_nat n = digits (Suc n) n"

definition show_int :: "int \<Rightarrow> string" where
  "show_int i = (if i < 0 then CHR ''-'' # show_nat (nat (- i)) else show_nat (nat i))"

fun entries :: "jv \<Rightarrow> props" where
  "entries (JObj al) = ownProperties al"
| "entries (JArr xs) = zip (map show_nat [0..<length xs]) xs"
| "entries (JStr s) = zip (map show_nat [0..<length s]) (map (\<lambda>c. JStr [c]) s)"
| "entries v = []"

text \<open>\<open>Object.assign({}, a, b)\<close> writes the own properties of the sources onto the
  target in that order.\<close>

definition assignAll :: "props \<Rightarrow> props \<Rightarrow> props" where
  "assignAll target src = foldl (\<lambda>acc kv. AList.update (fst kv) (snd kv) acc) target src"

definition Object_assign :: "props \<Rightarrow> jv \<Rightarrow> props" where
  "Object_assign target src = assignAll target (entries src)"

text \<open>\<open>xs.concat(v)\<close> spreads an array argument and appends any other value.\<close>

fun concat_js :: "jv list \<Rightarrow> jv \<Rightarrow> jv list" where
  "concat_js xs (JArr ys) = xs @ ys"
| "concat_js xs v = xs @ [v]"

text \<open>\<open>Array.from\<close> and lodash's \<open>_.uniq\<close> read their argument as a sequence: an array
  gives its elements, a string its characters, anything else nothing.\<close>

fun arrayLike :: "jv \<Rightarrow> jv list" where
  "arrayLike (JArr xs) = xs"
| "arrayLike (JStr s) = map (\<lambda>c. JStr [c]) s"
| "arrayLike v = []"

definition Array_from :: "jv \<Rightarrow> jv" where
  "Array_from v = JArr (arrayLike v)"

text \<open>lodash's \<open>_.uniq\<close> keeps the first occurrence of every element and compares with
  \<open>SameValueZero\<close>: two primitives are the same when they are the same value, an array or
  an object is the same only as itself. The elements of a list are values of their own
  (no two of them are one object), so an element that is an array or an object is never
  dropped.\<close>

definition sameValueZero :: "jv \<Rightarrow> jv \<Rightarrow> bool" where
  "sameValueZero a b = (a = b \<and> \<not> isObject a)"

fun uniq :: "jv list \<Rightarrow> jv list" where
  "uniq [] = []"
| "uniq (x # xs) = x # filter (\<lambda>y. \<not> sameValueZero y x) (uniq xs)"

definition uniq_js :: "jv \<Rightarrow> jv" where
  "uniq_js v = JArr (uniq (arrayLike v))"

text \<open>lodash's \<open>_.isEqual\<close> compares deeply: primitives by value, arrays element by
  element, objects by their sets of keys and the values under each key, whatever the
  order of the keys (an object holds no key twice). \<open>_.unionWith(a, b, eq)\<close> walks the
  concatenation and keeps an element when no element kept so far compares equal to it.\<close>

function isEqual :: "jv \<Rightarrow> jv \<Rightarrow> bool" where
  "isEqual (JArr xs) w =
     (case w of
        JArr ys \<Rightarrow> length xs = length ys
                   \<and> list_all (\<lambda>p. isEqual (fst p) (snd p)) (zip xs ys)
      | _ \<Rightarrow> False)"
| "isEqual (JObj a) w =
     (case w of
        JObj b \<Rightarrow> length a = length b
                  \<and> list_all (\<lambda>kv. fst kv \<in> set (map fst b)
                                    \<and> isEqual (snd kv) (lookup b (fst kv))) a
      | _ \<Rightarrow> False)"
| "isEqual JUndef w = (w = JUndef)"
| "isEqual JNull w = (w = JNull)"
| "isEqual (JBool b) w = (w = JBool b)"
| "isEqual (JNum n) w = (w = JNum n)"
| "isEqual (JStr s) w = (w = JStr s)"
  by pat_completeness auto

termination isEqual
proof (relation "measure (\<lambda>p. size (fst p))")
  show "wf (measure (\<lambda>p. size (fst p)))" by simp
next
  fix xs w ys and p :: "jv \<times> jv"
  assume "p \<in> set (zip xs ys)"
  then have "(fst p, snd p) \<in> set (zip xs ys)" by simp
  then have "fst p \<in> set xs" by (rule set_zip_leftD)
  then have "size (fst p) < Suc (size_list size xs)"
    by (simp add: less_Suc_eq_le size_list_estimation')
  then show "((fst p, snd p), (JArr xs, w)) \<in> measure (\<lambda>p. size (fst p))" by simp
next
  fix a w b and kv :: "string \<times> jv"
  assume m: "kv \<in> set a"
  have "size (snd kv) \<le> size_prod (\<lambda>x. 0) size kv" by (cases kv) simp
  with m have "size (snd kv) \<le> size_list (size_prod (\<lambda>x. 0) size) a"
    by (rule size_list_estimation')
  then show "((snd kv, lookup b (fst kv)), (JObj a, w)) \<in> measure (\<lambda>p. size (fst p))" by simp
qed

fun uniqWith :: "('a \<Rightarrow> 'a \<Rightarrow> bool) \<Rightarrow> 'a list \<Rightarrow> 'a list \<Rightarrow> 'a list" where
  "uniqWith eq seen [] = seen"
| "uniqWith eq seen (x # xs) =
     (if list_ex (\<lambda>y. eq y x) seen then uniqWith eq seen xs
      else uniqWith eq (seen @ [x]) xs)"

definition unionWith_isEqual :: "jv list \<Rightarrow> jv list \<Rightarrow> jv list" where
  "unionWith_isEqual a b = uniqWith isEqual [] (a @ b)"

text \<open>String predicates: \<open>s.startsWith(p)\<close> and \<open>s.includes(p)\<close>.\<close>

definition startsWith :: "string \<Rightarrow> string \<Rightarrow> bool" where
  "startsWith s p = (take (length p) s = p)"

definition includes_str :: "string \<Rightarrow> string \<Rightarrow> bool" where
  "includes_str s p = list_ex (\<lambda>i. take (length p) (drop i s) = p) [0..<Suc (length s)]"

text \<open>\<open>String(v)\<close>, as a template literal and a computed property key apply it: an
  array renders as its elements joined by commas, \<open>null\<close> and \<open>undefined\<close> among them as
  the empty string.\<close>

fun js_String :: "jv \<Rightarrow> string" and joinElems :: "jv list \<Rightarrow> string" where
  "js_String JUndef = ''undefined''"
| "js_String JNull = ''null''"
| "js_String (JBool b) = (if b then ''true'' else ''false'')"
| "js_String (JNum n) = show_int n"
| "js_String (JStr s) = s"
| "js_String (JArr xs) = joinElems xs"
| "js_String (JObj al) = ''[object Object]''"
| "joinElems [] = []"
| "joinElems [x] = (if x = JUndef \<or> x = JNull then [] else js_String x)"
| "joinElems (x # y # ys) =
     (if x = JUndef \<or> x = JNull then [] else js_String x) @ '','' @ joinElems (y # ys)"

definition dq :: string where
  "dq = [CHR 0x22]"

section \<open>Errors\<close>

text \<open>
  \<open>ServerlessError message code\<close> is the error class the compiler throws; \<open>TypeError\<close>
  is the runtime's error on a property read of \<open>undefined\<close> or a call of a missing method;
  \<open>Rejected\<close> is a collaborator's promise that rejects (an unreadable artifact).
\<close>

datatype error =
    ServerlessError string string
  | TypeError
  | Rejected

fun bind :: "error + 'a \<Rightarrow> ('a \<Rightarrow> error + 'b) \<Rightarrow> error + 'b" where
  "bind (Inl e) f = Inl e"
| "bind (Inr x) f = f x"

section \<open>Collaborators\<close>

text \<open>
  The compiler calls into the provider object (\<^verbatim>\<open>this.provider\<close>), its naming
  helpers (\<^verbatim>\<open>this.provider.naming\<close>), two utilities of the framework and the
  runtime's \<^verbatim>\<open>path\<close>, \<^verbatim>\<open>crypto\<close> and \<^verbatim>\<open>JSON\<close> modules. None of them is
  part of the compiled file, so each is a parameter of the model. A collaborator that
  reads a file can fail: it returns \<open>None\<close> where its promise rejects.
  \<open>lessThanNumber v n\<close> is the language's \<open>v < n\<close> for an operand \<open>v\<close> that is not a
  number: the runtime converts it to a number first.
\<close>

record naming =
  getLambdaLogicalId :: "string \<Rightarrow> string"
  getLambdaVersionLogicalId :: "string \<Rightarrow> string \<Rightarrow> string"
  getLambdaVersionOutputLogicalId :: "string \<Rightarrow> string"
  getLambdaProvisionedConcurrencyAliasLogicalId :: "string \<Rightarrow> string"
  getLambdaProvisionedConcurrencyAliasName :: string
  getLambdaSnapStartAliasLogicalId :: "string \<Rightarrow> string"
  getLambdaSnapStartEnabledAliasName :: string
  getLogGroupLogicalId :: "string \<Rightarrow> string"
  getLambdaFunctionUrlLogicalId :: "string \<Rightarrow> string"
  getLambdaFunctionUrlOutputLogicalId :: "string \<Rightarrow> string"
  getLambdaFnUrlPermissionLogicalId :: "string \<Rightarrow> string"
  getLambdaEventConfigLogicalId :: "string \<Rightarrow> string"
  getServiceArtifactName :: string
  getFunctionArtifactName :: "string \<Rightarrow> string"

record provider_api =
  resolveImageUriAndSha :: "string \<Rightarrow> (jv \<times> jv) option"
  resolveFunctionRuntimeManagement :: "jv \<Rightarrow> jv"
  getRuntime :: "jv \<Rightarrow> jv"
  getCustomExecutionRole :: "jv \<Rightarrow> jv"
  resolveLayerArtifactName :: "jv \<Rightarrow> string"
  resolveFunctionArn :: "string \<Rightarrow> jv"
  resolveLambdaTarget :: "string \<Rightarrow> jv \<Rightarrow> jv"

record runtime_api =
  getHashForFilePath :: "jv \<Rightarrow> string option"
  readFileChunks :: "jv \<Rightarrow> string list option"
  path_join :: "jv list \<Rightarrow> jv"
  path_sep :: char
  localeCompare :: "string \<Rightarrow> string \<Rightarrow> int"
  deepSortObjectByKey :: "jv \<Rightarrow> jv"
  JSON_stringify :: "jv \<Rightarrow> string"
  sha256_base64 :: "string \<Rightarrow> string"
  lessThanNumber :: "jv \<Rightarrow> int \<Rightarrow> bool"

record env =
  nm :: naming
  pv :: provider_api
  rt :: runtime_api

section \<open>State\<close>

text \<open>
  What a compilation reads and mutates: the service's function definitions
  (\<^verbatim>\<open>serverless.service.functions\<close>, in declaration order), the provider defaults
  (\<^verbatim>\<open>serverless.service.provider\<close>), the package settings, the CLI options, the two
  sections of \<^verbatim>\<open>compiledCloudFormationTemplate\<close>, and the cache of the memoized
  \<^verbatim>\<open>ensureTargetExecutionPermission\<close>.

  lodash's \<^verbatim>\<open>_.memoize\<close> keys its cache by the first argument: a string by its
  value, an object by its identity. \<open>destAddr s name slot\<close> is the identity (the heap
  address) of the object stored at \<^verbatim>\<open>functions[name].destinations[slot]\<close>; two slots
  hold the same object exactly when their addresses are equal.
\<close>

datatype memo_key = KStr string | KRef nat | KOther jv

record state =
  service_functions :: props
  provider :: jv
  package :: jv
  serviceArtifact :: jv
  serviceDir :: jv
  options :: jv
  Resources :: props
  Outputs :: props
  memo :: "memo_key list"
  destAddr :: "string \<Rightarrow> string \<Rightarrow> nat"

text \<open>\<^verbatim>\<open>serverless.service.getFunction(name)\<close> throws for a name that is not declared,
  \<^verbatim>\<open>getAllFunctions()\<close> lists the declared names.\<close>

definition getFunction :: "state \<Rightarrow> string \<Rightarrow> error + jv" where
  "getFunction s name =
     (case map_of (service_functions s) name of
        None \<Rightarrow> Inl (ServerlessError
                 (''Function '' @ dq @ name @ dq @ '' doesn't exist in this Service'')
                 ''FUNCTION_MISSING_IN_SERVICE'')
      | Some f \<Rightarrow> Inr f)"

definition getAllFunctions :: "state \<Rightarrow> string list" where
  "getAllFunctions s = map fst (service_functions s)"

definition putFunction :: "string \<Rightarrow> jv \<Rightarrow> state \<Rightarrow> state" where
  "putFunction name f s = s\<lparr>service_functions := AList.update name f (service_functions s)\<rparr>"

section \<open>Resource templates and the execution-permission document\<close>

definition cfLambdaFunctionTemplate :: jv where
  "cfLambdaFunctionTemplate =
     JObj [(''Type'', JStr ''AWS::Lambda::Function''),
           (''Properties'', JObj [(''Code'', JObj [])])]"

definition cfLambdaVersionTemplate :: jv where
  "cfLambdaVersionTemplate =
     JObj [(''Type'', JStr ''AWS::Lambda::Version''),
           (''DeletionPolicy'', JStr ''Retain''),
           (''Properties'', JObj [(''FunctionName'', JStr ''FunctionName''),
                                  (''CodeSha256'', JStr ''CodeSha256'')])]"

definition cfOutputLatestVersionTemplate :: jv where
  "cfOutputLatestVersionTemplate =
     JObj [(''Description'', JStr ''Current Lambda function version''),
           (''Value'', JStr ''Value'')]"

definition getProp :: "jv \<Rightarrow> string \<Rightarrow> jv" where
  "getProp r k = getp (getp r ''Properties'') k"

definition setProp :: "jv \<Rightarrow> string \<Rightarrow> jv \<Rightarrow> jv" where
  "setProp r k v = setp r ''Properties'' (setp (getp r ''Properties'') k v)"

definition delProp :: "jv \<Rightarrow> string \<Rightarrow> jv" where
  "delProp r k = setp r ''Properties'' (delp (getp r ''Properties'') k)"

definition setCode :: "jv \<Rightarrow> string \<Rightarrow> jv \<Rightarrow> jv" where
  "setCode r k v = setProp r ''Code'' (setp (getProp r ''Code'') k v)"

text \<open>\<open>(r.DependsOn || [])\<close>\<close>

definition dependsOnOrEmpty :: "jv \<Rightarrow> jv list" where
  "dependsOnOrEmpty r = elems (js_or (getp r ''DependsOn'') (JArr []))"

text \<open>
  The default execution role is the resource \<^verbatim>\<open>IamRoleLambdaExecution\<close>; its
  statements live at \<^verbatim>\<open>Properties.Policies[0].PolicyDocument.Statement\<close>.
  \<open>pushStatement\<close> is \<^verbatim>\<open>Statement.push(stmt)\<close>; \<open>unionStatement\<close> is the assignment
  \<^verbatim>\<open>Statement = _.unionWith(Statement, [stmt], _.isEqual)\<close>.
\<close>

definition iamRoleLambdaExecution :: "props \<Rightarrow> jv" where
  "iamRoleLambdaExecution R = lookup R ''IamRoleLambdaExecution''"

definition policyDocument :: "props \<Rightarrow> jv" where
  "policyDocument R =
     getp (idx (getp (getp (iamRoleLambdaExecution R) ''Properties'') ''Policies'') 0)
       ''PolicyDocument''"

definition getStatement :: "props \<Rightarrow> jv" where
  "getStatement R = getp (policyDocument R) ''Statement''"

definition setStatement :: "jv \<Rightarrow> props \<Rightarrow> props" where
  "setStatement v R =
     (let role = iamRoleLambdaExecution R;
          ps = getp role ''Properties'';
          pols = getp ps ''Policies'';
          p0 = idx pols 0;
          doc = getp p0 ''PolicyDocument''
      in AList.update ''IamRoleLambdaExecution''
           (setp role ''Properties''
              (setp ps ''Policies''
                 (setIdx pols 0 (setp p0 ''PolicyDocument'' (setp doc ''Statement'' v)))))
           R)"

definition pushStatement :: "jv \<Rightarrow> props \<Rightarrow> error + props" where
  "pushStatement stmt R =
     (case getStatement R of
        JArr xs \<Rightarrow> Inr (setStatement (JArr (xs @ [stmt])) R)
      | _ \<Rightarrow> Inl TypeError)"

definition unionStatement :: "jv \<Rightarrow> props \<Rightarrow> error + props" where
  "unionStatement stmt R =
     (case policyDocument R of
        JObj d \<Rightarrow>
          Inr (setStatement (JArr (unionWith_isEqual (elems (getStatement R)) [stmt])) R)
      | _ \<Rightarrow> Inl TypeError)"

definition allowStatement :: "jv \<Rightarrow> jv \<Rightarrow> jv" where
  "allowStatement action resource =
     JObj [(''Effect'', JStr ''Allow''), (''Action'', action), (''Resource'', resource)]"

section \<open>compileFunction, block by block\<close>

text \<open>
  The local variables of one \<^verbatim>\<open>compileFunction(functionName)\<close> call, together with
  the shared state it mutates. \<open>functionObject\<close> is the function's definition, which the
  call updates in place; it is written back into the service when the call reaches
  \<^verbatim>\<open>compileFunctionUrl\<close>, the first reader of the stored definition.
\<close>

record frame =
  st :: state
  functionObject :: jv
  functionResource :: jv
  functionImageUri :: jv
  functionImageSha :: jv
  artifactFilePath :: jv

text \<open>Lines 155-166: exactly one of \<^verbatim>\<open>handler\<close> and \<^verbatim>\<open>image\<close>.\<close>

definition neitherError :: "string \<Rightarrow> error" where
  "neitherError functionName =
     ServerlessError
       (''Either '' @ dq @ ''handler'' @ dq @ '' or '' @ dq @ ''image'' @ dq @
        '' property needs to be set on function '' @ dq @ functionName @ dq)
       ''FUNCTION_NEITHER_HANDLER_NOR_IMAGE_DEFINED_ERROR''"

definition bothError :: "string \<Rightarrow> error" where
  "bothError functionName =
     ServerlessError
       (''Either '' @ dq @ ''handler'' @ dq @ '' or '' @ dq @ ''image'' @ dq @
        '' property (not both) needs to be set on function '' @ dq @ functionName @ dq @ ''.'')
       ''FUNCTION_BOTH_HANDLER_AND_IMAGE_DEFINED_ERROR''"

definition checkHandlerImage :: "string \<Rightarrow> frame \<Rightarrow> error + frame" where
  "checkHandlerImage functionName f =
     (let fo = functionObject f in
      if \<not> truthy (getp fo ''handler'') \<and> \<not> truthy (getp fo ''image'')
      then Inl (neitherError functionName)
      else if truthy (getp fo ''handler'') \<and> truthy (getp fo ''image'')
      then Inl (bothError functionName)
      else Inr f)"

text \<open>Lines 171-193: the image's URI and digest, and its \<^verbatim>\<open>ImageConfig\<close>.\<close>

definition imageConfigOf :: "jv \<Rightarrow> props" where
  "imageConfigOf img =
     (let c0 = [];
          c1 = (if truthy (getp img ''command'')
                then AList.update ''Command'' (getp img ''command'') c0 else c0);
          c2 = (if truthy (getp img ''entryPoint'')
                then AList.update ''EntryPoint'' (getp img ''entryPoint'') c1 else c1);
          c3 = (if truthy (getp img ''workingDirectory'')
                then AList.update ''WorkingDirectory'' (getp img ''workingDirectory'') c2
                else c2)
      in c3)"

definition resolveImage :: "env \<Rightarrow> string \<Rightarrow> frame \<Rightarrow> error + frame" where
  "resolveImage e functionName f =
     (let img = getp (functionObject f) ''image'' in
      if truthy img then
        (case resolveImageUriAndSha (pv e) functionName of
           None \<Rightarrow> Inl Rejected
         | Some us \<Rightarrow>
             Inr (f\<lparr>functionImageUri := fst us,
                    functionImageSha := snd us,
                    functionResource :=
                      (if isObject img \<and> imageConfigOf img \<noteq> []
                       then setProp (functionResource f) ''ImageConfig''
                              (JObj (imageConfigOf img))
                       else functionResource f)\<rparr>))
      else Inr f)"

text \<open>Lines 196-200: memory and timeout, function over provider over the defaults.\<close>

definition resolveMemoryTimeout :: "frame \<Rightarrow> frame" where
  "resolveMemoryTimeout f =
     (let fo = functionObject f;
          p = provider (st f);
          fo1 = setp fo ''memory''
                  (js_or (js_or (getp fo ''memorySize'') (getp p ''memorySize'')) (JNum 1024));
          fo2 = (if \<not> truthy (getp fo1 ''timeout'')
                 then setp fo1 ''timeout'' (js_or (getp p ''timeout'') (JNum 6))
                 else fo1)
      in f\<lparr>functionObject := fo2\<rparr>)"

text \<open>Lines 204-250: the handler path (artifact, runtime management, runtime, handler and
  code location) or the image path.\<close>

definition runtimeManagementMap :: "jv \<Rightarrow> jv" where
  "runtimeManagementMap mode =
     (if mode = JStr ''auto'' then JStr ''Auto''
      else if mode = JStr ''onFunctionUpdate'' then JStr ''FunctionUpdate''
      else if mode = JStr ''manual'' then JStr ''Manual''
      else JUndef)"

definition resolveArtifactFilePath :: "env \<Rightarrow> string \<Rightarrow> frame \<Rightarrow> jv" where
  "resolveArtifactFilePath e functionName f =
     (let fo = functionObject f;
          s = st f;
          fnArtifact = getp (getp fo ''package'') ''artifact'';
          path0 = js_or fnArtifact (getp (package s) ''artifact'')
      in if \<not> truthy path0 \<or> (truthy (serviceArtifact s) \<and> \<not> truthy fnArtifact)
         then path_join (rt e)
                [serviceDir s, JStr ''.serverless'',
                 JStr (if truthy (getp (package s) ''individually'')
                          \<or> truthy (getp (getp fo ''package'') ''individually'')
                       then getFunctionArtifactName (nm e) functionName
                       else getServiceArtifactName (nm e))]
         else path0)"

definition lastSegment :: "char \<Rightarrow> string \<Rightarrow> string" where
  "lastSegment sep p = rev (takeWhile (\<lambda>c. c \<noteq> sep) (rev p))"

definition compileRuntimeManagement :: "env \<Rightarrow> jv \<Rightarrow> jv \<Rightarrow> jv" where
  "compileRuntimeManagement e fo fr =
     (let runtimeManagement = resolveFunctionRuntimeManagement (pv e) (getp fo ''runtimeManagement'');
          mode = getp runtimeManagement ''mode''
      in if mode \<noteq> JStr ''auto'' then
           (let cfg = JObj [(''UpdateRuntimeOn'', runtimeManagementMap mode)];
                cfg' = (if mode = JStr ''manual''
                        then setp cfg ''RuntimeVersionArn'' (getp runtimeManagement ''arn'')
                        else cfg)
            in setProp fr ''RuntimeManagementConfig'' cfg')
         else fr)"

definition compileHandlerOrImage :: "env \<Rightarrow> string \<Rightarrow> frame \<Rightarrow> error + frame" where
  "compileHandlerOrImage e functionName f =
     (let fo = functionObject f; s = st f; fr = functionResource f in
      if truthy (getp fo ''handler'') then
        (let path = resolveArtifactFilePath e functionName f;
             fr1 = compileRuntimeManagement e fo fr;
             fo1 = setp fo ''runtime'' (getRuntime (pv e) (getp fo ''runtime''));
             fr2 = setProp fr1 ''Handler'' (getp fo1 ''handler'');
             fr3 = setCode fr2 ''S3Bucket''
                     (if truthy (getp (package s) ''deploymentBucket'')
                      then getp (package s) ''deploymentBucket''
                      else JObj [(''Ref'', JStr ''ServerlessDeploymentBucket'')])
         in case path of
              JStr p \<Rightarrow>
                Inr (f\<lparr>artifactFilePath := path,
                       functionObject := fo1,
                       functionResource :=
                         setProp
                           (setCode fr3 ''S3Key''
                              (JStr (js_String (getp (package s) ''artifactDirectoryName'') @ ''/''
                                     @ lastSegment (path_sep (rt e)) p)))
                           ''Runtime'' (getp fo1 ''runtime'')\<rparr>)
            | _ \<Rightarrow> Inl TypeError)
      else
        Inr (f\<lparr>functionResource :=
                 setProp (setCode fr ''ImageUri'' (functionImageUri f))
                   ''PackageType'' (JStr ''Image'')\<rparr>))"

text \<open>Lines 251-271: name, memory, timeout, architecture, description, condition and the
  explicit dependencies.\<close>

definition compileBasics :: "frame \<Rightarrow> frame" where
  "compileBasics f =
     (let fo = functionObject f;
          p = provider (st f);
          r1 = setProp (functionResource f) ''FunctionName'' (getp fo ''name'');
          r2 = setProp r1 ''MemorySize'' (getp fo ''memory'');
          r3 = setProp r2 ''Timeout'' (getp fo ''timeout'');
          functionArchitecture = js_or (getp fo ''architecture'') (getp p ''architecture'');
          r4 = (if truthy functionArchitecture
                then setProp r3 ''Architectures'' (JArr [functionArchitecture]) else r3);
          r5 = (if truthy (getp fo ''description'')
                then setProp r4 ''Description'' (getp fo ''description'') else r4);
          r6 = (if truthy (getp fo ''condition'')
                then setp r5 ''Condition'' (getp fo ''condition'') else r5);
          r7 = (if truthy (getp fo ''dependsOn'')
                then setp r6 ''DependsOn''
                       (JArr (concat_js (dependsOnOrEmpty r6) (getp fo ''dependsOn'')))
                else r6)
      in f\<lparr>functionResource := r7\<rparr>)"

text \<open>Lines 273-279: tags, the provider's overridden by the function's.\<close>

definition tagList :: "props \<Rightarrow> jv list" where
  "tagList tags = map (\<lambda>kv. JObj [(''Key'', JStr (fst kv)), (''Value'', snd kv)]) tags"

definition compileTags :: "frame \<Rightarrow> frame" where
  "compileTags f =
     (let fo = functionObject f; p = provider (st f) in
      if truthy (getp fo ''tags'') \<or> truthy (getp p ''tags'') then
        f\<lparr>functionResource :=
            setProp (functionResource f) ''Tags''
              (JArr (tagList (Object_assign (Object_assign [] (getp p ''tags'')) (getp fo ''tags''))))\<rparr>
      else f)"

text \<open>Lines 281-285.\<close>

definition compileEphemeralStorage :: "frame \<Rightarrow> frame" where
  "compileEphemeralStorage f =
     (let fo = functionObject f in
      if truthy (getp fo ''ephemeralStorageSize'') then
        f\<lparr>functionResource :=
            setProp (functionResource f) ''EphemeralStorage''
              (JObj [(''Size'', getp fo ''ephemeralStorageSize'')])\<rparr>
      else f)"

text \<open>Lines 287-309: the dead-letter target; a string target also gets a publish
  statement, pushed onto the default role when the template has it.\<close>

definition withResources :: "frame \<Rightarrow> props \<Rightarrow> frame" where
  "withResources f R = f\<lparr>st := (st f)\<lparr>Resources := R\<rparr>\<rparr>"

definition compileOnError :: "frame \<Rightarrow> error + frame" where
  "compileOnError f =
     (let arn = getp (functionObject f) ''onError'' in
      if truthy arn then
        (let f1 = f\<lparr>functionResource :=
                     setProp (functionResource f) ''DeadLetterConfig''
                       (JObj [(''TargetArn'', arn)])\<rparr>
         in if is_string arn \<and> truthy (iamRoleLambdaExecution (Resources (st f))) then
              bind (pushStatement
                      (allowStatement (JArr [JStr ''sns:Publish'']) (JArr [arn]))
                      (Resources (st f)))
                (\<lambda>R. Inr (withResources f1 R))
            else Inr f1)
      else Inr f)"

text \<open>Lines 311-339: the KMS key, the function's over the provider's.\<close>

definition compileKms :: "frame \<Rightarrow> error + frame" where
  "compileKms f =
     (let pk = getp (provider (st f)) ''kmsKeyArn'';
          fk = getp (functionObject f) ''kmsKeyArn'';
          k0 = (if truthy pk then pk else JUndef);
          kmsKeyArn = (if truthy fk then fk else k0)
      in if truthy kmsKeyArn then
           (let f1 = f\<lparr>functionResource :=
                        setProp (functionResource f) ''KmsKeyArn'' kmsKeyArn\<rparr>
            in if is_string kmsKeyArn \<and> truthy (iamRoleLambdaExecution (Resources (st f))) then
                 bind (unionStatement
                         (allowStatement (JArr [JStr ''kms:Decrypt'']) (JArr [kmsKeyArn]))
                         (Resources (st f)))
                   (\<lambda>R. Inr (withResources f1 R))
               else Inr f1)
         else Inr f)"

text \<open>Lines 341-372: tracing.\<close>

definition compileTracing :: "frame \<Rightarrow> error + frame" where
  "compileTracing f =
     (let p = provider (st f);
          tracing = js_or (getp (functionObject f) ''tracing'')
                      (js_and (getp p ''tracing'') (getp (getp p ''tracing'') ''lambda''))
      in if truthy tracing then
           (let mode = (if is_boolean tracing then JStr ''Active'' else tracing);
                f1 = f\<lparr>functionResource :=
                        setProp (functionResource f) ''TracingConfig'' (JObj [(''Mode'', mode)])\<rparr>
            in if truthy (iamRoleLambdaExecution (Resources (st f))) then
                 bind (unionStatement
                         (allowStatement
                            (JArr [JStr ''xray:PutTraceSegments'', JStr ''xray:PutTelemetryRecords''])
                            (JArr [JStr ''*'']))
                         (Resources (st f)))
                   (\<lambda>R. Inr (withResources f1 R))
               else Inr f1)
         else Inr f)"

text \<open>Lines 374-381: environment variables.\<close>

definition compileEnvironment :: "frame \<Rightarrow> frame" where
  "compileEnvironment f =
     (let fo = functionObject f; p = provider (st f) in
      if truthy (getp fo ''environment'') \<or> truthy (getp p ''environment'') then
        f\<lparr>functionResource :=
            setProp (functionResource f) ''Environment''
              (JObj [(''Variables'',
                      JObj (Object_assign (Object_assign [] (getp p ''environment''))
                              (getp fo ''environment'')))])\<rparr>
      else f)"

text \<open>Lines 79-101 and 383-384: the execution role. \<^verbatim>\<open>'Fn::GetAtt' in role\<close> raises a
  \<open>TypeError\<close> for a role that is neither a string nor an object.\<close>

definition getAtt :: "jv \<Rightarrow> string \<Rightarrow> jv" where
  "getAtt a b = JObj [(''Fn::GetAtt'', JArr [a, JStr b])]"

definition compileRole :: "jv \<Rightarrow> jv \<Rightarrow> error + jv" where
  "compileRole newFunction role =
     (case role of
        JStr r \<Rightarrow>
          if startsWith r ''arn:'' then Inr (setProp newFunction ''Role'' role)
          else if r = ''IamRoleLambdaExecution''
          then Inr (setProp newFunction ''Role'' (getAtt role ''Arn''))
          else
            (let c = setProp newFunction ''Role'' (getAtt role ''Arn'')
             in Inr (setp c ''DependsOn'' (JArr (concat_js (dependsOnOrEmpty c) role))))
      | JObj al \<Rightarrow>
          if hasp role ''Fn::GetAtt'' then
            (let c = setProp newFunction ''Role'' role
             in Inr (setp c ''DependsOn''
                       (JArr (concat_js (dependsOnOrEmpty c) (idx (getp role ''Fn::GetAtt'') 0)))))
          else Inr (setProp newFunction ''Role'' role)
      | JArr xs \<Rightarrow> Inr (setProp newFunction ''Role'' role)
      | _ \<Rightarrow> Inl TypeError)"

definition compileRoleOf :: "env \<Rightarrow> frame \<Rightarrow> error + frame" where
  "compileRoleOf e f =
     bind (compileRole (functionResource f)
             (js_or (getCustomExecutionRole (pv e) (functionObject f))
                (JStr ''IamRoleLambdaExecution'')))
       (\<lambda>r. Inr (f\<lparr>functionResource := r\<rparr>))"

text \<open>Lines 386-407: the VPC configuration; an unset \<^verbatim>\<open>vpc\<close> of the function or of
  the provider is replaced by an empty object in place.\<close>

definition compileVpc :: "frame \<Rightarrow> frame" where
  "compileVpc f =
     (let fo = functionObject f; s = st f in
      if getp fo ''vpc'' \<noteq> JNull \<and> getp fo ''vpc'' \<noteq> JBool False then
        (let fo1 = (if \<not> truthy (getp fo ''vpc'') then setp fo ''vpc'' (JObj []) else fo);
             p1 = (if \<not> truthy (getp (provider s) ''vpc'')
                   then setp (provider s) ''vpc'' (JObj []) else provider s);
             fv = getp fo1 ''vpc'';
             pvpc = getp p1 ''vpc'';
             vpcConfig =
               JObj [(''Ipv6AllowedForDualStack'',
                        js_or (getp fv ''ipv6AllowedForDualStack'') (getp pvpc ''ipv6AllowedForDualStack'')),
                     (''SecurityGroupIds'',
                        js_or (getp fv ''securityGroupIds'') (getp pvpc ''securityGroupIds'')),
                     (''SubnetIds'', js_or (getp fv ''subnetIds'') (getp pvpc ''subnetIds''))];
             r1 = setProp (functionResource f) ''VpcConfig'' vpcConfig;
             r2 = (if \<not> truthy (getp vpcConfig ''SecurityGroupIds'')
                      \<or> \<not> truthy (getp vpcConfig ''SubnetIds'')
                   then delProp r1 ''VpcConfig'' else r1)
         in f\<lparr>st := s\<lparr>provider := p1\<rparr>, functionObject := fo1, functionResource := r2\<rparr>)
      else f)"

text \<open>Lines 409-440: a file system needs the VPC configuration.\<close>

definition fileSystemError :: "string \<Rightarrow> error" where
  "fileSystemError functionName =
     ServerlessError
       (''Function '' @ dq @ functionName @ dq @ '': when using fileSystemConfig, '' @
        ''ensure that function has vpc configured '' @ ''on function or provider level'')
       ''LAMBDA_FILE_SYSTEM_CONFIG_MISSING_VPC''"

definition compileFileSystem :: "string \<Rightarrow> frame \<Rightarrow> error + frame" where
  "compileFileSystem functionName f =
     (let fileSystemConfig = getp (functionObject f) ''fileSystemConfig'' in
      if truthy fileSystemConfig then
        if \<not> truthy (getProp (functionResource f) ''VpcConfig'')
        then Inl (fileSystemError functionName)
        else
          bind (if truthy (iamRoleLambdaExecution (Resources (st f)))
                then pushStatement
                       (allowStatement
                          (JArr [JStr ''elasticfilesystem:ClientMount'',
                                 JStr ''elasticfilesystem:ClientWrite''])
                          (JArr [getp fileSystemConfig ''arn'']))
                       (Resources (st f))
                else Inr (Resources (st f)))
            (\<lambda>R. Inr ((withResources f R)\<lparr>functionResource :=
                          setProp (functionResource f) ''FileSystemConfigs''
                            (JArr [JObj [(''Arn'', getp fileSystemConfig ''arn''),
                                         (''LocalMountPath'',
                                          getp fileSystemConfig ''localMountPath'')]])\<rparr>))
      else Inr f)"

text \<open>Lines 442-444: reserved concurrency, zero included.\<close>

definition compileReservedConcurrency :: "frame \<Rightarrow> frame" where
  "compileReservedConcurrency f =
     (let rc = getp (functionObject f) ''reservedConcurrency'' in
      if truthy rc \<or> rc = JNum 0 then
        f\<lparr>functionResource :=
            setProp (functionResource f) ''ReservedConcurrentExecutions'' rc\<rparr>
      else f)"

text \<open>Lines 446-450: the log group comes first among the dependencies.\<close>

definition compileLogsDependency :: "env \<Rightarrow> string \<Rightarrow> frame \<Rightarrow> frame" where
  "compileLogsDependency e functionName f =
     (if \<not> truthy (getp (functionObject f) ''disableLogs'') then
        f\<lparr>functionResource :=
            setp (functionResource f) ''DependsOn''
              (JArr (JStr (getLogGroupLogicalId (nm e) functionName)
                     # dependsOnOrEmpty (functionResource f)))\<rparr>
      else f)"

text \<open>Lines 452-457: layers, the function's or a copy of the provider's.\<close>

definition compileLayers :: "frame \<Rightarrow> frame" where
  "compileLayers f =
     (if truthy (getp (functionObject f) ''layers'') then
        f\<lparr>functionResource :=
            setProp (functionResource f) ''Layers'' (getp (functionObject f) ''layers'')\<rparr>
      else if truthy (getp (provider (st f)) ''layers'') then
        f\<lparr>functionResource :=
            setProp (functionResource f) ''Layers''
              (Array_from (getp (provider (st f)) ''layers''))\<rparr>
      else f)"

text \<open>Lines 459-464: the compute resource enters the resource graph.\<close>

definition insertFunctionResource :: "env \<Rightarrow> string \<Rightarrow> frame \<Rightarrow> frame" where
  "insertFunctionResource e functionName f =
     withResources f
       (AList.update (getLambdaLogicalId (nm e) functionName) (functionResource f)
          (Resources (st f)))"

section \<open>The version and hash engine\<close>

text \<open>Lines 909-929: the layers of the function that are resources of this template.\<close>

definition layerConfigurationOf :: "props \<Rightarrow> jv \<Rightarrow> jv list" where
  "layerConfigurationOf R potentialLocalLayerObject =
     (let r = getp potentialLocalLayerObject ''Ref'' in
      if truthy r then
        (let configuration = lookup R (js_String r) in
         if \<not> truthy configuration then []
         else [JObj [(''name'', getp configuration ''_serverlessLayerName''),
                     (''ref'', r),
                     (''properties'', getp configuration ''Properties'')]])
      else [])"

definition extractLayerConfigurationsFromFunction :: "jv \<Rightarrow> props \<Rightarrow> jv list" where
  "extractLayerConfigurationsFromFunction functionProperties R =
     (if \<not> truthy (getp functionProperties ''Layers'') then []
      else concat (map (layerConfigurationOf R) (elems (getp functionProperties ''Layers''))))"

text \<open>Lines 138-146 and 891-907: a hash object is the list of the chunks written to it.
  The legacy algorithm streams the file's bytes, the current one writes the file's hash.\<close>

definition js_lt :: "env \<Rightarrow> jv \<Rightarrow> int \<Rightarrow> bool" where
  "js_lt e v n = (case v of JNum m \<Rightarrow> m < n | _ \<Rightarrow> lessThanNumber (rt e) v n)"

definition legacyHashing :: "env \<Rightarrow> state \<Rightarrow> bool" where
  "legacyHashing e s =
     (js_lt e (getp (provider s) ''lambdaHashingVersion'') 20201221
      \<and> \<not> truthy (getp (options s) ''enforce-hash-update''))"

definition addFileToHash :: "env \<Rightarrow> state \<Rightarrow> jv \<Rightarrow> string list \<Rightarrow> error + string list" where
  "addFileToHash e s filePath hash =
     (if legacyHashing e s then
        (case readFileChunks (rt e) filePath of
           None \<Rightarrow> Inl Rejected
         | Some chunks \<Rightarrow> Inr (hash @ chunks))
      else
        (case getHashForFilePath (rt e) filePath of
           None \<Rightarrow> Inl Rejected
         | Some filePathHash \<Rightarrow> Inr (hash @ [filePathHash])))"

fun addFilesToHash :: "env \<Rightarrow> state \<Rightarrow> jv list \<Rightarrow> string list \<Rightarrow> error + string list" where
  "addFilesToHash e s [] hash = Inr hash"
| "addFilesToHash e s (p # ps) hash =
     bind (addFileToHash e s p hash) (addFilesToHash e s ps)"

text \<open>Lines 493-500: the code digest of the version, and the artifact's share of the
  version hash.\<close>

definition hashFunctionCode :: "env \<Rightarrow> frame \<Rightarrow> error + (jv \<times> string list)" where
  "hashFunctionCode e f =
     (if truthy (functionImageSha f) then Inr (functionImageSha f, [])
      else
        (case getHashForFilePath (rt e) (artifactFilePath f) of
           None \<Rightarrow> Inl Rejected
         | Some fileHash \<Rightarrow>
             bind (addFileToHash e (st f) (artifactFilePath f) [])
               (\<lambda>h. Inr (JStr fileHash, h))))"

text \<open>Lines 502-510: the layers' artifacts, in the order of their sorted paths.\<close>

definition layerArtifactPaths :: "env \<Rightarrow> jv list \<Rightarrow> jv list" where
  "layerArtifactPaths e layerConfigurations =
     map JStr (sort (map (\<lambda>layer. resolveLayerArtifactName (pv e) (getp layer ''name''))
                       layerConfigurations))"

text \<open>Lines 513-515: \<^verbatim>\<open>delete layerConfig.properties.Content.S3Key\<close>.\<close>

definition stripS3Key :: "jv \<Rightarrow> error + jv" where
  "stripS3Key layerConfig =
     (let ps = getp layerConfig ''properties''; c = getp ps ''Content'' in
      if nullish ps \<or> nullish c then Inl TypeError
      else Inr (setp layerConfig ''properties'' (setp ps ''Content'' (delp c ''S3Key''))))"

fun stripS3Keys :: "jv list \<Rightarrow> error + jv list" where
  "stripS3Keys [] = Inr []"
| "stripS3Keys (l # ls) =
     bind (stripS3Key l) (\<lambda>l'. bind (stripS3Keys ls) (\<lambda>ls'. Inr (l' # ls')))"

text \<open>Lines 517-522: the canonical snapshot of the function's properties.\<close>

definition functionPropertiesSnapshot :: "jv \<Rightarrow> jv \<Rightarrow> jv" where
  "functionPropertiesSnapshot fo functionResourceProperties =
     (let p0 = functionResourceProperties;
          p1 = (if \<not> truthy (getp fo ''image'') then delp p0 ''Code'' else p0);
          p2 = delp p1 ''ReservedConcurrentExecutions'';
          p3 = delp p2 ''Tags''
      in p3)"

text \<open>Lines 524-543: the serialised snapshot. \<^verbatim>\<open>sort(byKey)\<close> is a stable sort by
  \<^verbatim>\<open>localeCompare\<close> of the keys, \<^verbatim>\<open>_.fromPairs\<close> builds the object of the pairs.\<close>

fun insortByKey :: "(string \<Rightarrow> string \<Rightarrow> int) \<Rightarrow> string \<times> jv \<Rightarrow> props \<Rightarrow> props" where
  "insortByKey cmp x [] = [x]"
| "insortByKey cmp x (y # ys) =
     (if cmp (fst x) (fst y) \<le> 0 then x # y # ys else y # insortByKey cmp x ys)"

definition sortByKey :: "(string \<Rightarrow> string \<Rightarrow> int) \<Rightarrow> props \<Rightarrow> props" where
  "sortByKey cmp al = foldr (insortByKey cmp) al []"

definition fromPairs :: "props \<Rightarrow> jv" where
  "fromPairs pairs = JObj (assignAll [] pairs)"

definition sortedLayerConfigurations :: "env \<Rightarrow> jv list \<Rightarrow> jv" where
  "sortedLayerConfigurations e layerConfigurations =
     JObj (foldl (\<lambda>acc layer.
                    AList.update (js_String (getp layer ''name''))
                      (fromPairs (sortByKey (localeCompare (rt e))
                                    (entries (getp layer ''properties''))))
                      acc)
             [] layerConfigurations)"

definition serializeSnapshot :: "env \<Rightarrow> state \<Rightarrow> jv \<Rightarrow> jv list \<Rightarrow> string" where
  "serializeSnapshot e s functionProperties layerConfigurations =
     (if legacyHashing e s then
        JSON_stringify (rt e)
          (fromPairs (sortByKey (localeCompare (rt e))
             (entries (setp functionProperties ''layerConfigurations''
                         (sortedLayerConfigurations e layerConfigurations)))))
      else
        JSON_stringify (rt e)
          (deepSortObjectByKey (rt e)
             (setp functionProperties ''layerConfigurations'' (JArr layerConfigurations))))"

text \<open>Lines 485-546: the code digest and the version digest of a function whose compute
  resource is \<open>functionResource f\<close> and whose template is \<open>Resources (st f)\<close>.\<close>

definition computeVersionDigest :: "env \<Rightarrow> frame \<Rightarrow> error + (jv \<times> string)" where
  "computeVersionDigest e f =
     (let layerConfigurations =
            extractLayerConfigurationsFromFunction (getp (functionResource f) ''Properties'')
              (Resources (st f))
      in bind (hashFunctionCode e f) (\<lambda>cv.
         bind (addFilesToHash e (st f) (layerArtifactPaths e layerConfigurations) (snd cv)) (\<lambda>h.
         bind (stripS3Keys layerConfigurations) (\<lambda>lcs.
           Inr (fst cv,
                sha256_base64 (rt e)
                  (concat (h @ [serializeSnapshot e (st f)
                                  (functionPropertiesSnapshot (functionObject f)
                                     (getp (functionResource f) ''Properties''))
                                  lcs])))))))"

text \<open>Lines 466-633: whether a version is minted, the version resource, its output and
  the alias of provisioned concurrency or of SnapStart.

  The compute resource and the version resource are objects that the template holds by
  reference, so a later write to either shows in the template as long as the template
  still holds it under its id: the version resource always does where it is written to
  (lines 585 and 610), the compute resource does at line 482, and at line 612 unless the
  version's id is the function's own.\<close>

definition shouldVersionFunction :: "frame \<Rightarrow> jv" where
  "shouldVersionFunction f =
     (if \<not> nullish (getp (functionObject f) ''versionFunction'')
      then getp (functionObject f) ''versionFunction''
      else getp (provider (st f)) ''versionFunctions'')"

definition mintsVersion :: "frame \<Rightarrow> bool" where
  "mintsVersion f =
     (truthy (shouldVersionFunction f)
      \<or> truthy (getp (functionObject f) ''provisionedConcurrency'')
      \<or> truthy (getp (functionObject f) ''snapStart''))"

definition conflictError :: "string \<Rightarrow> error" where
  "conflictError functionName =
     ServerlessError
       (''Functions with enabled SnapStart does not support provisioned concurrency. '' @
        ''Please remove at least one of the settings on function '' @ dq @ functionName @ dq @ ''.'')
       ''FUNCTION_BOTH_PROVISIONED_CONCURRENCY_AND_SNAPSTART_ENABLED_ERROR''"

definition refTo :: "string \<Rightarrow> jv" where
  "refTo i = JObj [(''Ref'', JStr i)]"

definition enforceHashUpdate :: "env \<Rightarrow> string \<Rightarrow> frame \<Rightarrow> frame" where
  "enforceHashUpdate e functionName f =
     (if truthy (getp (options (st f)) ''enforce-hash-update'') then
        (let r = setProp (functionResource f) ''Description''
                   (JStr ''temporary-description-to-enforce-hash-update'')
         in (withResources f
               (AList.update (getLambdaLogicalId (nm e) functionName) r (Resources (st f))))
            \<lparr>functionResource := r\<rparr>)
      else f)"

definition versionResourceOf :: "env \<Rightarrow> string \<Rightarrow> jv \<Rightarrow> jv \<Rightarrow> jv" where
  "versionResourceOf e functionName fo codeSha256 =
     (let v1 = setProp cfLambdaVersionTemplate ''CodeSha256'' codeSha256;
          v2 = setProp v1 ''FunctionName'' (refTo (getLambdaLogicalId (nm e) functionName))
      in if truthy (getp fo ''description'')
         then setProp v2 ''Description'' (getp fo ''description'') else v2)"

definition aliasResource :: "string \<Rightarrow> string \<Rightarrow> string \<Rightarrow> props \<Rightarrow> jv" where
  "aliasResource functionLogicalId versionLogicalId aliasName extra =
     JObj [(''Type'', JStr ''AWS::Lambda::Alias''),
           (''Properties'',
            JObj ([(''FunctionName'', refTo functionLogicalId),
                   (''FunctionVersion'', getAtt (JStr versionLogicalId) ''Version''),
                   (''Name'', JStr aliasName)] @ extra)),
           (''DependsOn'', JStr functionLogicalId)]"

definition targetAliasOf :: "string \<Rightarrow> string \<Rightarrow> jv" where
  "targetAliasOf aliasName aliasLogicalId =
     JObj [(''name'', JStr aliasName), (''logicalId'', JStr aliasLogicalId)]"

text \<open>Lines 548-575: the version resource and its output enter the template.\<close>

definition insertVersion :: "env \<Rightarrow> string \<Rightarrow> jv \<Rightarrow> string \<Rightarrow> frame \<Rightarrow> frame" where
  "insertVersion e functionName versionResource versionLogicalId f =
     (let s = st f in
      f\<lparr>functionObject := setp (functionObject f) ''versionLogicalId'' (JStr versionLogicalId),
        st := s\<lparr>Resources := AList.update versionLogicalId versionResource (Resources s),
                Outputs := AList.update (getLambdaVersionOutputLogicalId (nm e) functionName)
                             (setp cfOutputLatestVersionTemplate ''Value'' (refTo versionLogicalId))
                             (Outputs s)\<rparr>\<rparr>)"

text \<open>Lines 584-607: the alias of provisioned concurrency.\<close>

definition compileProvisionedConcurrency ::
  "env \<Rightarrow> string \<Rightarrow> jv \<Rightarrow> jv \<Rightarrow> string \<Rightarrow> frame \<Rightarrow> frame" where
  "compileProvisionedConcurrency e functionName svf versionResource versionLogicalId f =
     (let fo = functionObject f; R = Resources (st f) in
      if truthy (getp fo ''provisionedConcurrency'') then
        (let R1 = (if \<not> truthy svf
                   then AList.update versionLogicalId (delp versionResource ''DeletionPolicy'') R
                   else R);
             aliasLogicalId = getLambdaProvisionedConcurrencyAliasLogicalId (nm e) functionName;
             aliasName = getLambdaProvisionedConcurrencyAliasName (nm e)
         in (withResources f
               (AList.update aliasLogicalId
                  (aliasResource (getLambdaLogicalId (nm e) functionName) versionLogicalId
                     aliasName
                     [(''ProvisionedConcurrencyConfig'',
                       JObj [(''ProvisionedConcurrentExecutions'',
                              getp fo ''provisionedConcurrency'')])])
                  R1))
            \<lparr>functionObject := setp fo ''targetAlias'' (targetAliasOf aliasName aliasLogicalId)\<rparr>)
      else f)"

text \<open>Lines 609-632: SnapStart and its alias.\<close>

definition compileSnapStart ::
  "env \<Rightarrow> string \<Rightarrow> jv \<Rightarrow> jv \<Rightarrow> string \<Rightarrow> frame \<Rightarrow> frame" where
  "compileSnapStart e functionName svf versionResource versionLogicalId f =
     (let fo = functionObject f; R = Resources (st f);
          functionLogicalId = getLambdaLogicalId (nm e) functionName in
      if truthy (getp fo ''snapStart'') then
        (let R1 = (if \<not> truthy svf
                   then AList.update versionLogicalId (delp versionResource ''DeletionPolicy'') R
                   else R);
             r = setProp (functionResource f) ''SnapStart''
                   (JObj [(''ApplyOn'', JStr ''PublishedVersions'')]);
             R2 = (if versionLogicalId = functionLogicalId then R1
                   else AList.update functionLogicalId r R1);
             aliasLogicalId = getLambdaSnapStartAliasLogicalId (nm e) functionName;
             aliasName = getLambdaSnapStartEnabledAliasName (nm e)
         in (withResources f
               (AList.update aliasLogicalId
                  (aliasResource functionLogicalId versionLogicalId aliasName [])
                  R2))
            \<lparr>functionObject := setp fo ''targetAlias'' (targetAliasOf aliasName aliasLogicalId),
              functionResource := r\<rparr>)
      else f)"

definition compileVersion :: "env \<Rightarrow> string \<Rightarrow> frame \<Rightarrow> error + frame" where
  "compileVersion e functionName f =
     (if mintsVersion f then
        (let svf = shouldVersionFunction f;
             f1 = enforceHashUpdate e functionName f
         in bind (computeVersionDigest e f1) (\<lambda>cd.
              (let versionResource = versionResourceOf e functionName (functionObject f1) (fst cd);
                   versionLogicalId = getLambdaVersionLogicalId (nm e) functionName (snd cd);
                   f2 = insertVersion e functionName versionResource versionLogicalId f1
               in if truthy (getp (functionObject f2) ''provisionedConcurrency'')
                     \<and> truthy (getp (functionObject f2) ''snapStart'')
                  then Inl (conflictError functionName)
                  else Inr (compileSnapStart e functionName svf versionResource versionLogicalId
                              (compileProvisionedConcurrency e functionName svf versionResource
                                 versionLogicalId f2)))))
      else Inr f)"

section \<open>The function URL\<close>

text \<open>Lines 15-26 and 652-680: the CORS policy, field by field over the default.\<close>

definition defaultCors :: props where
  "defaultCors =
     [(''allowedOrigins'', JArr [JStr ''*'']),
      (''allowedHeaders'',
       JArr [JStr ''Content-Type'', JStr ''X-Amz-Date'', JStr ''Authorization'',
             JStr ''X-Api-Key'', JStr ''X-Amz-Security-Token'', JStr ''X-Amzn-Trace-Id'']),
      (''allowedMethods'', JArr [JStr ''*''])]"

definition overrideCorsList :: "jv \<Rightarrow> string \<Rightarrow> props \<Rightarrow> props" where
  "overrideCorsList urlCors field cors =
     (if truthy (getp urlCors field) then AList.update field (uniq_js (getp urlCors field)) cors
      else if getp urlCors field = JNull then AList.delete field cors
      else cors)"

definition compileCors :: "jv \<Rightarrow> props" where
  "compileCors urlCors =
     (let c0 = Object_assign [] (JObj defaultCors);
          c1 = overrideCorsList urlCors ''allowedOrigins'' c0;
          c2 = overrideCorsList urlCors ''allowedHeaders'' c1;
          c3 = overrideCorsList urlCors ''allowedMethods'' c2;
          c4 = (if truthy (getp urlCors ''allowCredentials'')
                then AList.update ''allowCredentials'' (JBool True) c3 else c3);
          c5 = (if truthy (getp urlCors ''exposedResponseHeaders'')
                then AList.update ''exposedResponseHeaders''
                       (uniq_js (getp urlCors ''exposedResponseHeaders'')) c4
                else c4)
      in AList.update ''maxAge'' (getp urlCors ''maxAge'') c5)"

text \<open>Lines 691-700: the \<^verbatim>\<open>Cors\<close> property of the URL resource.\<close>

definition corsProperty :: "props \<Rightarrow> jv" where
  "corsProperty cors =
     JObj [(''AllowCredentials'', lookup cors ''allowCredentials''),
           (''AllowHeaders'',
            js_and (lookup cors ''allowedHeaders'') (Array_from (lookup cors ''allowedHeaders''))),
           (''AllowMethods'',
            js_and (lookup cors ''allowedMethods'') (Array_from (lookup cors ''allowedMethods''))),
           (''AllowOrigins'',
            js_and (lookup cors ''allowedOrigins'') (Array_from (lookup cors ''allowedOrigins''))),
           (''ExposeHeaders'',
            js_and (lookup cors ''exposedResponseHeaders'')
              (Array_from (lookup cors ''exposedResponseHeaders''))),
           (''MaxAge'', lookup cors ''maxAge'')]"

text \<open>Lines 682-704: the URL resource of a function whose definition is \<open>fo\<close>.\<close>

definition urlResourceOf :: "env \<Rightarrow> string \<Rightarrow> jv \<Rightarrow> jv" where
  "urlResourceOf e functionName fo =
     (let url = getp fo ''url'';
          auth = (if getp url ''authorizer'' = JStr ''aws_iam'' then ''AWS_IAM'' else ''NONE'');
          r0 = JObj [(''Type'', JStr ''AWS::Lambda::Url''),
                     (''Properties'',
                      JObj [(''AuthType'', JStr auth),
                            (''TargetFunctionArn'', resolveLambdaTarget (pv e) functionName fo)]),
                     (''DependsOn'', getp (getp fo ''targetAlias'') ''logicalId'')];
          r1 = (if truthy (getp url ''cors'')
                then setProp r0 ''Cors'' (corsProperty (compileCors (getp url ''cors'')))
                else r0)
      in if getp url ''invokeMode'' = JStr ''RESPONSE_STREAM''
         then setProp r1 ''InvokeMode'' (getp url ''invokeMode'') else r1)"

text \<open>Lines 715-726: the permission that opens a URL without authorizer to everyone.\<close>

definition urlPermissionResourceOf :: "env \<Rightarrow> string \<Rightarrow> jv \<Rightarrow> jv" where
  "urlPermissionResourceOf e functionName fo =
     JObj [(''Type'', JStr ''AWS::Lambda::Permission''),
           (''Properties'',
            JObj [(''FunctionName'', resolveLambdaTarget (pv e) functionName fo),
                  (''Action'', JStr ''lambda:InvokeFunctionUrl''),
                  (''Principal'', JStr ''*''),
                  (''FunctionUrlAuthType'', JStr ''NONE'')]),
           (''DependsOn'', getp (getp fo ''targetAlias'') ''logicalId'')]"

text \<open>Lines 639-727.\<close>

definition compileFunctionUrl :: "env \<Rightarrow> string \<Rightarrow> state \<Rightarrow> error + state" where
  "compileFunctionUrl e functionName s =
     bind (getFunction s functionName) (\<lambda>fo.
       (let url = getp fo ''url'' in
        if \<not> truthy url then Inr s
        else
          (let logicalId = getLambdaFunctionUrlLogicalId (nm e) functionName;
               R1 = AList.update logicalId (urlResourceOf e functionName fo) (Resources s);
               O1 = AList.update (getLambdaFunctionUrlOutputLogicalId (nm e) functionName)
                      (JObj [(''Description'', JStr ''Lambda Function URL''),
                             (''Value'', getAtt (JStr logicalId) ''FunctionUrl'')])
                      (Outputs s);
               R2 = (if getp url ''authorizer'' \<noteq> JStr ''aws_iam'' then
                       AList.update (getLambdaFnUrlPermissionLogicalId (nm e) functionName)
                         (urlPermissionResourceOf e functionName fo) R1
                     else R1)
           in Inr (s\<lparr>Resources := R2, Outputs := O1\<rparr>))))"

section \<open>Destinations\<close>

text \<open>Lines 788-795.\<close>

definition getDestinationsArn :: "env \<Rightarrow> jv \<Rightarrow> error + jv" where
  "getDestinationsArn e destinationsProperty =
     (if typeof_object destinationsProperty then Inr (getp destinationsProperty ''arn'')
      else case destinationsProperty of
             JStr d \<Rightarrow> Inr (if startsWith d ''arn:'' then JStr d else resolveFunctionArn (pv e) d)
           | _ \<Rightarrow> Inl TypeError)"

text \<open>Lines 803-827: the action a destination needs, by its declared type or by the
  shape of its ARN.\<close>

definition unsupportedDestinationError :: "jv \<Rightarrow> error" where
  "unsupportedDestinationError destinationsProperty =
     ServerlessError (''Unsupported destination target '' @ js_String destinationsProperty)
       ''UNSUPPORTED_DESTINATION_TARGET''"

definition destinationAction :: "jv \<Rightarrow> error + string" where
  "destinationAction destinationsProperty =
     (let t = getp destinationsProperty ''type'' in
      if typeof_object destinationsProperty \<and> t = JStr ''function'' then Inr ''lambda:InvokeFunction''
      else if typeof_object destinationsProperty \<and> t = JStr ''sqs'' then Inr ''sqs:SendMessage''
      else if typeof_object destinationsProperty \<and> t = JStr ''sns'' then Inr ''sns:Publish''
      else if typeof_object destinationsProperty \<and> t = JStr ''eventBus'' then Inr ''events:PutEvents''
      else case destinationsProperty of
             JStr d \<Rightarrow>
               if \<not> startsWith d ''arn:'' \<or> includes_str d '':function:''
               then Inr ''lambda:InvokeFunction''
               else if includes_str d '':sqs:'' then Inr ''sqs:SendMessage''
               else if includes_str d '':sns:'' then Inr ''sns:Publish''
               else if includes_str d '':event-bus/'' then Inr ''events:PutEvents''
               else Inl (unsupportedDestinationError destinationsProperty)
           | _ \<Rightarrow> Inl (unsupportedDestinationError destinationsProperty))"

text \<open>Lines 829-843: the resource the statement names.\<close>

definition destinationResourceArn :: "state \<Rightarrow> jv \<Rightarrow> error + jv" where
  "destinationResourceArn s destinationsProperty =
     (if typeof_object destinationsProperty then Inr (getp destinationsProperty ''arn'')
      else case destinationsProperty of
             JStr d \<Rightarrow>
               if startsWith d ''arn:'' then Inr (JStr d)
               else bind (getFunction s d) (\<lambda>target.
                      Inr (JObj [(''Fn::Sub'',
                                  JStr (''arn:${AWS::Partition}:lambda:${AWS::Region}:''
                                        @ ''${AWS::AccountId}:function:''
                                        @ js_String (getp target ''name'')))]))
           | _ \<Rightarrow> Inl TypeError)"

text \<open>Lines 798-845, the function before it is memoized: one statement is pushed onto the
  default role's statements. The statement list is read first, and reading it fails when
  the template has no default role.\<close>

definition ensureTargetExecutionPermission_body :: "jv \<Rightarrow> state \<Rightarrow> error + state" where
  "ensureTargetExecutionPermission_body destinationsProperty s =
     (case policyDocument (Resources s) of
        JObj doc \<Rightarrow>
          bind (destinationAction destinationsProperty) (\<lambda>action.
          bind (destinationResourceArn s destinationsProperty) (\<lambda>ResourceArn.
          bind (pushStatement (allowStatement (JStr action) ResourceArn) (Resources s)) (\<lambda>R.
            Inr (s\<lparr>Resources := R\<rparr>))))
      | _ \<Rightarrow> Inl TypeError)"

text \<open>Line 43: \<^verbatim>\<open>_.memoize\<close> keys the cache by the first argument. A call whose key is
  cached returns the cached result and does nothing; otherwise the function runs, and its
  key is cached when it returns (not when it throws). \<open>addr\<close> is the identity of the
  argument when it is an object.\<close>

definition memoKey :: "jv \<Rightarrow> nat \<Rightarrow> memo_key" where
  "memoKey destinationsProperty addr =
     (case destinationsProperty of
        JStr d \<Rightarrow> KStr d
      | JObj al \<Rightarrow> KRef addr
      | JArr xs \<Rightarrow> KRef addr
      | v \<Rightarrow> KOther v)"

definition ensureTargetExecutionPermission :: "jv \<Rightarrow> nat \<Rightarrow> state \<Rightarrow> error + state" where
  "ensureTargetExecutionPermission destinationsProperty addr s =
     (let key = memoKey destinationsProperty addr in
      if key \<in> set (memo s) then Inr s
      else bind (ensureTargetExecutionPermission_body destinationsProperty s)
             (\<lambda>s'. Inr (s'\<lparr>memo := memo s' @ [key]\<rparr>)))"

text \<open>Lines 743-761: one destination slot (\<^verbatim>\<open>onSuccess\<close> or \<^verbatim>\<open>onFailure\<close>).\<close>

definition compileDestination ::
  "env \<Rightarrow> string \<Rightarrow> jv \<Rightarrow> string \<Rightarrow> string \<Rightarrow> props \<times> state \<Rightarrow> error + props \<times> state" where
  "compileDestination e functionName fo slot configKey cs =
     (let d = getp (getp fo ''destinations'') slot; s = snd cs in
      if truthy d then
        bind (getDestinationsArn e d) (\<lambda>arn.
        bind (if \<not> truthy (getCustomExecutionRole (pv e) fo)
              then ensureTargetExecutionPermission d (destAddr s functionName slot) s
              else Inr s) (\<lambda>s'.
          Inr (AList.update configKey (JObj [(''Destination'', arn)]) (fst cs), s')))
      else Inr cs)"

text \<open>Lines 767-783: the event-invoke-config resource of a function whose definition is
  \<open>fo\<close> and whose destination configuration is \<open>destinationConfig\<close>.\<close>

definition eventInvokeConfigResourceOf :: "env \<Rightarrow> string \<Rightarrow> jv \<Rightarrow> props \<Rightarrow> jv" where
  "eventInvokeConfigResourceOf e functionName fo destinationConfig =
     (let maximumEventAge = getp fo ''maximumEventAge'';
          maximumRetryAttempts = getp fo ''maximumRetryAttempts'';
          r0 = JObj [(''Type'', JStr ''AWS::Lambda::EventInvokeConfig''),
                     (''Properties'',
                      JObj [(''FunctionName'', refTo (getLambdaLogicalId (nm e) functionName)),
                            (''DestinationConfig'', JObj destinationConfig),
                            (''Qualifier'',
                             (if truthy (getp fo ''targetAlias'')
                              then getp (getp fo ''targetAlias'') ''name''
                              else JStr ''$LATEST''))]),
                     (''DependsOn'', getp (getp fo ''targetAlias'') ''logicalId'')];
          r1 = (if truthy maximumEventAge
                then setProp r0 ''MaximumEventAgeInSeconds'' maximumEventAge else r0)
      in if \<not> nullish maximumRetryAttempts
         then setProp r1 ''MaximumRetryAttempts'' maximumRetryAttempts else r1)"

text \<open>Lines 739-762: the destinations of the function, on-success first.\<close>

definition compileDestinations :: "env \<Rightarrow> string \<Rightarrow> jv \<Rightarrow> state \<Rightarrow> error + props \<times> state" where
  "compileDestinations e functionName fo s =
     (if truthy (getp fo ''destinations'')
      then bind (compileDestination e functionName fo ''onSuccess'' ''OnSuccess'' ([], s))
             (compileDestination e functionName fo ''onFailure'' ''OnFailure'')
      else Inr ([], s))"

text \<open>Lines 729-786.\<close>

definition compileFunctionEventInvokeConfig :: "env \<Rightarrow> string \<Rightarrow> state \<Rightarrow> error + state" where
  "compileFunctionEventInvokeConfig e functionName s =
     bind (getFunction s functionName) (\<lambda>fo.
       if \<not> truthy (getp fo ''destinations'') \<and> \<not> truthy (getp fo ''maximumEventAge'')
          \<and> nullish (getp fo ''maximumRetryAttempts'')
       then Inr s
       else
         bind (compileDestinations e functionName fo s) (\<lambda>cs.
           Inr ((snd cs)\<lparr>Resources :=
                   AList.update (getLambdaEventConfigLogicalId (nm e) functionName)
                     (eventInvokeConfigResourceOf e functionName fo (fst cs))
                     (Resources (snd cs))\<rparr>)))"

section \<open>compileFunction and the constructor\<close>

text \<open>Lines 148-637. The frame starts from the stored definition, with
  \<^verbatim>\<open>functionObject.package\<close> defaulted to an empty object.\<close>

definition initialFrame :: "state \<Rightarrow> jv \<Rightarrow> frame" where
  "initialFrame s fo =
     \<lparr>st = s,
      functionObject = setp fo ''package'' (js_or (getp fo ''package'') (JObj [])),
      functionResource = cfLambdaFunctionTemplate,
      functionImageUri = JUndef,
      functionImageSha = JUndef,
      artifactFilePath = JUndef\<rparr>"

text \<open>Lines 148-464: the compute resource, built and inserted.\<close>

definition compileFunctionResource :: "env \<Rightarrow> string \<Rightarrow> frame \<Rightarrow> error + frame" where
  "compileFunctionResource e functionName f0 =
     bind (checkHandlerImage functionName f0) (\<lambda>f1.
     bind (resolveImage e functionName f1) (\<lambda>f2.
     bind (compileHandlerOrImage e functionName (resolveMemoryTimeout f2)) (\<lambda>f3.
     bind (compileOnError (compileEphemeralStorage (compileTags (compileBasics f3)))) (\<lambda>f4.
     bind (compileKms f4) (\<lambda>f5.
     bind (compileTracing f5) (\<lambda>f6.
     bind (compileRoleOf e (compileEnvironment f6)) (\<lambda>f7.
     bind (compileFileSystem functionName (compileVpc f7)) (\<lambda>f8.
       Inr (insertFunctionResource e functionName
              (compileLayers
                 (compileLogsDependency e functionName
                    (compileReservedConcurrency f8))))))))))))"

definition compileFunction :: "env \<Rightarrow> string \<Rightarrow> state \<Rightarrow> error + state" where
  "compileFunction e functionName s =
     bind (getFunction s functionName) (\<lambda>fo.
     bind (compileFunctionResource e functionName (initialFrame s fo)) (\<lambda>f.
     bind (compileVersion e functionName f) (\<lambda>f'.
     bind (compileFunctionUrl e functionName
             (putFunction functionName (functionObject f') (st f')))
       (compileFunctionEventInvokeConfig e functionName))))"

text \<open>Lines 34-49: the constructor memoizes \<^verbatim>\<open>ensureTargetExecutionPermission\<close> with an
  empty cache and switches versioning on for an AWS service that does not say.\<close>

definition constructor :: "state \<Rightarrow> state" where
  "constructor s =
     (let s1 = s\<lparr>memo := []\<rparr> in
      if getp (provider s1) ''name'' = JStr ''aws''
         \<and> nullish (getp (provider s1) ''versionFunctions'')
      then s1\<lparr>provider := setp (provider s1) ''versionFunctions'' (JBool True)\<rparr>
      else s1)"

section \<open>A concrete environment\<close>

text \<open>
  An instance of the collaborators, for evaluating the compiler on concrete services: the
  naming scheme appends a suffix to the function's name, a file's hash and content are
  derived from its path, keys are ordered by their character codes, and the digest of a
  string is the string itself (so no two inputs collide).
\<close>

fun show_jv :: "jv \<Rightarrow> string"
  and show_list :: "jv list \<Rightarrow> string"
  and show_props :: "props \<Rightarrow> string" where
  "show_jv JUndef = ''undefined''"
| "show_jv JNull = ''null''"
| "show_jv (JBool b) = (if b then ''true'' else ''false'')"
| "show_jv (JNum n) = show_int n"
| "show_jv (JStr s) = dq @ s @ dq"
| "show_jv (JArr xs) = ''['' @ show_list xs @ '']''"
| "show_jv (JObj al) = ''{'' @ show_props al @ ''}''"
| "show_list [] = []"
| "show_list (x # xs) = show_jv x @ '','' @ show_list xs"
| "show_props [] = []"
| "show_props (kv # al) = dq @ fst kv @ dq @ '':'' @ show_jv (snd kv) @ '','' @ show_props al"

definition exampleNaming :: naming where
  "exampleNaming =
     \<lparr>getLambdaLogicalId = (\<lambda>n. n @ ''LambdaFunction''),
      getLambdaVersionLogicalId = (\<lambda>n d. n @ ''LambdaVersion'' @ d),
      getLambdaVersionOutputLogicalId = (\<lambda>n. n @ ''LambdaFunctionQualifiedArn''),
      getLambdaProvisionedConcurrencyAliasLogicalId = (\<lambda>n. n @ ''ProvConcLambdaAlias''),
      getLambdaProvisionedConcurrencyAliasName = ''provisioned'',
      getLambdaSnapStartAliasLogicalId = (\<lambda>n. n @ ''SnapStartLambdaAlias''),
      getLambdaSnapStartEnabledAliasName = ''snapstart'',
      getLogGroupLogicalId = (\<lambda>n. n @ ''LogGroup''),
      getLambdaFunctionUrlLogicalId = (\<lambda>n. n @ ''LambdaFunctionUrl''),
      getLambdaFunctionUrlOutputLogicalId = (\<lambda>n. n @ ''LambdaFunctionUrl''),
      getLambdaFnUrlPermissionLogicalId = (\<lambda>n. n @ ''LambdaPermissionFnUrl''),
      getLambdaEventConfigLogicalId = (\<lambda>n. n @ ''LambdaEvConf''),
      getServiceArtifactName = ''service.zip'',
      getFunctionArtifactName = (\<lambda>n. n @ ''.zip'')\<rparr>"

definition exampleProvider :: provider_api where
  "exampleProvider =
     \<lparr>resolveImageUriAndSha = (\<lambda>n. Some (JStr (''uri/'' @ n), JStr (''sha/'' @ n))),
      resolveFunctionRuntimeManagement = (\<lambda>v. JObj [(''mode'', JStr ''auto'')]),
      getRuntime = (\<lambda>r. js_or r (JStr ''nodejs14.x'')),
      getCustomExecutionRole = (\<lambda>fo. getp fo ''role''),
      resolveLayerArtifactName = (\<lambda>v. js_String v @ ''.zip''),
      resolveFunctionArn = (\<lambda>d. getAtt (JStr (d @ ''LambdaFunction'')) ''Arn''),
      resolveLambdaTarget = (\<lambda>n fo. getAtt (JStr (n @ ''LambdaFunction'')) ''Arn'')\<rparr>"

text \<open>The example runtime reads files as their names, serialises with \<open>show_jv\<close>, hashes
  with the identity, and compares the operands the examples use: a string of decimal
  digits as the number it spells (the empty string as 0), \<open>null\<close> and \<open>false\<close> as 0, \<open>true\<close> as 1, and \<open>undefined\<close>
  (\<open>NaN\<close>) as less than nothing.\<close>

definition digitValue :: "char \<Rightarrow> int" where
  "digitValue c = int (length (takeWhile (\<lambda>d. d \<noteq> c) ''0123456789''))"

definition decimalLess :: "string \<Rightarrow> int \<Rightarrow> bool" where
  "decimalLess s n = (foldl (\<lambda>acc c. acc * 10 + digitValue c) 0 s < n)"

definition exampleRuntime :: runtime_api where
  "exampleRuntime =
     \<lparr>getHashForFilePath = (\<lambda>p. Some (''#'' @ js_String p)),
      readFileChunks = (\<lambda>p. Some [js_String p]),
      path_join = (\<lambda>ps. JStr (concat (map (\<lambda>p. ''/'' @ js_String p) ps))),
      path_sep = CHR ''/'',
      localeCompare = (\<lambda>a b. if a < b then - 1 else if a = b then 0 else 1),
      deepSortObjectByKey = (\<lambda>v. v),
      JSON_stringify = show_jv,
      sha256_base64 = (\<lambda>x. x),
      lessThanNumber = (\<lambda>v n. case v of JStr s \<Rightarrow> list_all isDigit s \<and> decimalLess s n
                                  | JNull \<Rightarrow> 0 < n
                                  | JBool b \<Rightarrow> (if b then 1 else 0) < n
                                  | _ \<Rightarrow> False)\<rparr>"

definition exampleEnv :: env where
  "exampleEnv = \<lparr>nm = exampleNaming, pv = exampleProvider, rt = exampleRuntime\<rparr>"

text \<open>A template that holds the default execution role with no statement yet, and a
  service with no function (so no destination object either).\<close>

definition defaultRole :: jv where
  "defaultRole =
     JObj [(''Type'', JStr ''AWS::IAM::Role''),
           (''Properties'',
            JObj [(''Policies'',
                   JArr [JObj [(''PolicyDocument'',
                                JObj [(''Version'', JStr ''2012-10-17''),
                                      (''Statement'', JArr [])])]])])]"

definition emptyService :: state where
  "emptyService =
     \<lparr>service_functions = [],
      provider = JObj [(''name'', JStr ''aws'')],
      package = JObj [(''artifactDirectoryName'', JStr ''serverless/svc/dev/1'')],
      serviceArtifact = JUndef,
      serviceDir = JStr ''/svc'',
      options = JObj [],
      Resources = [(''IamRoleLambdaExecution'', defaultRole)],
      Outputs = [],
      memo = [],
      destAddr = (\<lambda>n slot. 0)\<rparr>"

definition serviceOf :: "props \<Rightarrow> state" where
  "serviceOf fs = constructor (emptyService\<lparr>service_functions := fs\<rparr>)"

section \<open>Notions used in the statements\<close>

text \<open>The stable code and the message of an error.\<close>

definition errorCode :: "error \<Rightarrow> string" where
  "errorCode err = (case err of ServerlessError m c \<Rightarrow> c | TypeError \<Rightarrow> ''TypeError'' | Rejected \<Rightarrow> ''Rejected'')"

definition handlerImageCodes :: "string set" where
  "handlerImageCodes = {''FUNCTION_NEITHER_HANDLER_NOR_IMAGE_DEFINED_ERROR'', ''FUNCTION_BOTH_HANDLER_AND_IMAGE_DEFINED_ERROR''}"

definition laterError :: "error \<Rightarrow> bool" where
  "laterError err = (errorCode err \<notin> handlerImageCodes)"

definition errorMessage :: "error \<Rightarrow> string" where
  "errorMessage err = (case err of ServerlessError m c \<Rightarrow> m | TypeError \<Rightarrow> [] | Rejected \<Rightarrow> [])"

definition validationService :: state where
  "validationService =
     serviceOf
       [(''both'', JObj [(''handler'', JStr ''index.handler''), (''image'', JStr ''img'')]),
        (''none'', JObj [(''name'', JStr ''svc-dev-none'')]),
        (''one'', JObj [(''handler'', JStr ''index.handler'')])]"

text \<open>A CORS field that has a default, against the compiled property: a truthy value
  (a list, empty or not) replaces the default by its de-duplicated elements, \<open>null\<close>
  leaves the property \<open>undefined\<close>, and anything else (an absent field above all) keeps
  the default.\<close>

definition overrides :: "jv \<Rightarrow> jv \<Rightarrow> jv \<Rightarrow> bool" where
  "overrides given dflt compiled =
     (if truthy given then compiled = JArr (uniq (arrayLike given))
      else if given = JNull then compiled = JUndef
      else compiled = dflt)"

text \<open>The keys that lines 692-699 write into the \<^verbatim>\<open>Cors\<close> property.\<close>

definition corsKeys :: "string list" where
  "corsKeys = [''AllowCredentials'', ''AllowHeaders'', ''AllowMethods'', ''AllowOrigins'',
               ''ExposeHeaders'', ''MaxAge'']"

text \<open>A function URL that nulls the origins, repeats a header, leaves the methods alone,
  allows credentials, exposes a header named twice and sets a maximal age.\<close>

definition corsDefinition :: jv where
  "corsDefinition =
     JObj [(''handler'', JStr ''index.handler''),
           (''url'',
            JObj [(''cors'',
                   JObj [(''allowedOrigins'', JNull),
                         (''allowedHeaders'', JArr [JStr ''X-A'', JStr ''X-B'', JStr ''X-A'']),
                         (''allowCredentials'', JBool True),
                         (''exposedResponseHeaders'', JArr [JStr ''X-C'', JStr ''X-C'']),
                         (''maxAge'', JNum 60)])])]"

definition corsService :: state where
  "corsService = serviceOf [(''web'', corsDefinition)]"



text \<open>What the blocks that build the compute resource leave alone: every property of
  the function's definition but the four they resolve, every provider default but the
  VPC, the rest of the service, every resource but the default role, whose statements
  alone change, and the type of the compute resource.\<close>

fun isObj :: "jv \<Rightarrow> bool" where
  "isObj (JObj al) = True"
| "isObj v = False"

definition hasProp :: "jv \<Rightarrow> string \<Rightarrow> bool" where
  "hasProp r k = hasp (getp r ''Properties'') k"

definition resolvedKeys :: "string set" where
  "resolvedKeys = {''memory'', ''timeout'', ''runtime'', ''vpc''}"

definition preservesDefinition :: "jv \<Rightarrow> jv \<Rightarrow> bool" where
  "preservesDefinition fo fo' = (\<forall>k. k \<notin> resolvedKeys \<longrightarrow> getp fo' k = getp fo k)"

definition preservesResource :: "jv \<Rightarrow> jv \<Rightarrow> bool" where
  "preservesResource r r' =
     (getp r' ''Type'' = getp r ''Type''
      \<and> (isObj (getp r ''Properties'') \<longrightarrow> isObj (getp r' ''Properties'')))"

definition preservesTemplate :: "props \<Rightarrow> props \<Rightarrow> bool" where
  "preservesTemplate R R' =
     ((\<forall>k. k \<noteq> ''IamRoleLambdaExecution'' \<longrightarrow> lookup R' k = lookup R k)
      \<and> getp (lookup R' ''IamRoleLambdaExecution'') ''Type''
          = getp (lookup R ''IamRoleLambdaExecution'') ''Type'')"

definition preservesService :: "state \<Rightarrow> state \<Rightarrow> bool" where
  "preservesService s s' =
     ((\<forall>k. k \<noteq> ''vpc'' \<longrightarrow> getp (provider s') k = getp (provider s) k)
      \<and> service_functions s' = service_functions s
      \<and> package s' = package s
      \<and> serviceArtifact s' = serviceArtifact s
      \<and> serviceDir s' = serviceDir s
      \<and> options s' = options s
      \<and> Outputs s' = Outputs s
      \<and> memo s' = memo s
      \<and> destAddr s' = destAddr s
      \<and> preservesTemplate (Resources s) (Resources s'))"

definition evolves :: "frame \<Rightarrow> frame \<Rightarrow> bool" where
  "evolves f f' =
     (preservesDefinition (functionObject f) (functionObject f')
      \<and> preservesService (st f) (st f')
      \<and> preservesResource (functionResource f) (functionResource f'))"

text \<open>A step on the compute resource that does not touch its reserved-concurrency
  property.\<close>

definition keepsReserved :: "jv \<Rightarrow> jv \<Rightarrow> bool" where
  "keepsReserved r r' =
     (getProp r' ''ReservedConcurrentExecutions'' = getProp r ''ReservedConcurrentExecutions''
      \<and> hasProp r' ''ReservedConcurrentExecutions'' = hasProp r ''ReservedConcurrentExecutions'')"

text \<open>The logical ids that one function's compilation writes to are pairwise distinct,
  none is the default role's, and no version id is one of them: the contract of the
  naming collaborator.\<close>

definition fixedIds :: "env \<Rightarrow> string \<Rightarrow> string list" where
  "fixedIds e n =
     [getLambdaLogicalId (nm e) n,
      getLambdaProvisionedConcurrencyAliasLogicalId (nm e) n,
      getLambdaSnapStartAliasLogicalId (nm e) n,
      getLambdaFunctionUrlLogicalId (nm e) n,
      getLambdaFnUrlPermissionLogicalId (nm e) n,
      getLambdaEventConfigLogicalId (nm e) n,
      ''IamRoleLambdaExecution'']"

definition distinctIds :: "env \<Rightarrow> string \<Rightarrow> bool" where
  "distinctIds e n =
     (distinct (fixedIds e n)
      \<and> (\<forall>d. getLambdaVersionLogicalId (nm e) n d \<notin> set (fixedIds e n)))"

text \<open>The ids of the version resources of a template.\<close>

definition versionIds :: "props \<Rightarrow> string set" where
  "versionIds R = {k. getp (lookup R k) ''Type'' = JStr ''AWS::Lambda::Version''}"

text \<open>The version resource as the template holds it when \<^verbatim>\<open>compileFunction\<close> returns.\<close>

definition finalVersionResource :: "env \<Rightarrow> string \<Rightarrow> frame \<Rightarrow> jv \<Rightarrow> jv" where
  "finalVersionResource e n f codeSha256 =
     (let vr = versionResourceOf e n (functionObject f) codeSha256 in
      if (truthy (getp (functionObject f) ''provisionedConcurrency'')
          \<or> truthy (getp (functionObject f) ''snapStart''))
         \<and> \<not> truthy (shouldVersionFunction f)
      then delp vr ''DeletionPolicy'' else vr)"

text \<open>Lines 466-475 on the function's definition and the provider defaults: whether
  versioning is enabled, and whether a version is minted.\<close>

definition versioningEnabled :: "jv \<Rightarrow> jv \<Rightarrow> jv" where
  "versioningEnabled fo providerDefaults =
     (if \<not> nullish (getp fo ''versionFunction'') then getp fo ''versionFunction''
      else getp providerDefaults ''versionFunctions'')"

definition versionCondition :: "jv \<Rightarrow> jv \<Rightarrow> bool" where
  "versionCondition fo providerDefaults =
     (truthy (versioningEnabled fo providerDefaults)
      \<or> truthy (getp fo ''provisionedConcurrency'')
      \<or> truthy (getp fo ''snapStart''))"

text \<open>A service with two functions: \<open>hello\<close> reserves no concurrency, switches
  versioning off and asks for provisioned concurrency; \<open>plain\<close> only switches versioning
  off.\<close>

definition helloDefinition :: jv where
  "helloDefinition =
     JObj [(''handler'', JStr ''index.handler''),
           (''name'', JStr ''svc-dev-hello''),
           (''reservedConcurrency'', JNum 0),
           (''versionFunction'', JBool False),
           (''provisionedConcurrency'', JNum 1)]"

definition plainDefinition :: jv where
  "plainDefinition =
     JObj [(''handler'', JStr ''index.handler''),
           (''name'', JStr ''svc-dev-plain''),
           (''versionFunction'', JBool False)]"

definition helloService :: state where
  "helloService = serviceOf [(''hello'', helloDefinition), (''plain'', plainDefinition)]"

text \<open>A function that asks for provisioned concurrency and for SnapStart.\<close>

definition snapDefinition :: jv where
  "snapDefinition =
     JObj [(''handler'', JStr ''index.handler''),
           (''name'', JStr ''svc-dev-snap''),
           (''provisionedConcurrency'', JNum 1),
           (''snapStart'', JBool True)]"

definition conflictService :: state where
  "conflictService = serviceOf [(''snap'', snapDefinition)]"

section \<open>Basic facts about property bags and results\<close>

lemma lookup_update [simp]:
  "lookup (AList.update k v al) k' = (if k' = k then v else lookup al k')"
  by (simp add: lookup_def update_conv')

lemma lookup_delete [simp]:
  "lookup (AList.delete k al) k' = (if k' = k then JUndef else lookup al k')"
  by (simp add: lookup_def delete_conv')

lemma getp_setp_other [simp]: "k' \<noteq> k \<Longrightarrow> getp (setp x k v) k' = getp x k'"
  by (cases x) auto

lemma getp_setp_obj [simp]: "getp (setp (JObj al) k v) k' = (if k' = k then v else lookup al k')"
  by simp

lemma getp_delp [simp]: "getp (delp x k) k' = (if k' = k then JUndef else getp x k')"
  by (cases x) auto

lemma delp_setp_same [simp]: "delp (setp x k v) k = delp x k"
  by (cases x) (auto simp: delete_update_same)

lemma delp_setp_other: "k \<noteq> k' \<Longrightarrow> delp (setp x k v) k' = setp (delp x k') k v"
  by (cases x) (auto simp: delete_update)

lemma delp_delp: "delp (delp x k) k' = delp (delp x k') k"
  by (cases x) (auto simp: delete_twist)

lemma bind_Inr_iff: "bind m g = Inr y \<longleftrightarrow> (\<exists>x. m = Inr x \<and> g x = Inr y)"
  by (cases m) auto

lemma bind_Inl_iff: "bind m g = Inl err \<longleftrightarrow> m = Inl err \<or> (\<exists>x. m = Inr x \<and> g x = Inl err)"
  by (cases m) auto

section \<open>Errors of the stages\<close>

lemma laterError_simps [simp]:
  "laterError TypeError" "laterError Rejected"
  "laterError (fileSystemError n)" "laterError (conflictError n)"
  "laterError (unsupportedDestinationError d)"
  by (simp_all add: laterError_def errorCode_def handlerImageCodes_def fileSystemError_def
      conflictError_def unsupportedDestinationError_def)

lemma pushStatement_err: "pushStatement x R = Inl err \<Longrightarrow> err = TypeError"
  by (auto simp: pushStatement_def split: jv.splits)

lemma unionStatement_err: "unionStatement x R = Inl err \<Longrightarrow> err = TypeError"
  by (auto simp: unionStatement_def split: jv.splits)

lemma getFunction_err: "getFunction s n = Inl err \<Longrightarrow> laterError err"
  by (auto simp: getFunction_def laterError_def errorCode_def handlerImageCodes_def split: option.splits)

lemma resolveImage_err: "resolveImage e n f = Inl err \<Longrightarrow> laterError err"
  by (auto simp: resolveImage_def Let_def split: if_splits option.splits)

lemma compileHandlerOrImage_err: "compileHandlerOrImage e n f = Inl err \<Longrightarrow> laterError err"
  by (auto simp: compileHandlerOrImage_def Let_def split: if_splits jv.splits)

lemma compileOnError_err: "compileOnError f = Inl err \<Longrightarrow> laterError err"
  by (auto simp: compileOnError_def Let_def bind_Inl_iff split: if_splits dest!: pushStatement_err)

lemma compileKms_err: "compileKms f = Inl err \<Longrightarrow> laterError err"
  by (auto simp: compileKms_def Let_def bind_Inl_iff split: if_splits dest!: unionStatement_err)

lemma compileTracing_err: "compileTracing f = Inl err \<Longrightarrow> laterError err"
  by (auto simp: compileTracing_def Let_def bind_Inl_iff split: if_splits dest!: unionStatement_err)

lemma compileRoleOf_err: "compileRoleOf e f = Inl err \<Longrightarrow> laterError err"
  by (auto simp: compileRoleOf_def compileRole_def Let_def bind_Inl_iff split: if_splits jv.splits)

lemma compileFileSystem_err: "compileFileSystem n f = Inl err \<Longrightarrow> laterError err"
  by (auto simp: compileFileSystem_def Let_def bind_Inl_iff split: if_splits dest!: pushStatement_err)

lemma addFileToHash_err: "addFileToHash e s p h = Inl err \<Longrightarrow> err = Rejected"
  by (auto simp: addFileToHash_def split: if_splits option.splits)

lemma addFilesToHash_err: "addFilesToHash e s ps h = Inl err \<Longrightarrow> err = Rejected"
  by (induction ps arbitrary: h) (auto simp: bind_Inl_iff dest: addFileToHash_err)

lemma stripS3Keys_err: "stripS3Keys ls = Inl err \<Longrightarrow> err = TypeError"
  by (induction ls arbitrary: err)
     (auto simp: bind_Inl_iff stripS3Key_def Let_def split: if_splits)

lemma hashFunctionCode_err: "hashFunctionCode e f = Inl err \<Longrightarrow> err = Rejected"
  by (auto simp: hashFunctionCode_def bind_Inl_iff split: if_splits option.splits dest: addFileToHash_err)

lemma computeVersionDigest_err: "computeVersionDigest e f = Inl err \<Longrightarrow> laterError err"
  by (auto simp: computeVersionDigest_def Let_def bind_Inl_iff
      dest!: hashFunctionCode_err addFilesToHash_err stripS3Keys_err)

lemma compileVersion_err: "compileVersion e n f = Inl err \<Longrightarrow> laterError err"
  by (auto simp: compileVersion_def Let_def bind_Inl_iff split: if_splits
      dest!: computeVersionDigest_err)

lemma compileFunctionUrl_err: "compileFunctionUrl e n s = Inl err \<Longrightarrow> laterError err"
  by (auto simp: compileFunctionUrl_def Let_def bind_Inl_iff split: if_splits
      dest!: getFunction_err)

lemma destinationAction_err: "destinationAction d = Inl err \<Longrightarrow> laterError err"
  by (auto simp: destinationAction_def Let_def split: if_splits jv.splits)

lemma destinationResourceArn_err: "destinationResourceArn s d = Inl err \<Longrightarrow> laterError err"
  by (auto simp: destinationResourceArn_def bind_Inl_iff split: if_splits jv.splits
      dest!: getFunction_err)

lemma ensureTargetExecutionPermission_body_err:
  "ensureTargetExecutionPermission_body d s = Inl err \<Longrightarrow> laterError err"
  by (auto simp: ensureTargetExecutionPermission_body_def bind_Inl_iff split: jv.splits
      dest!: destinationAction_err destinationResourceArn_err pushStatement_err)

lemma ensureTargetExecutionPermission_err:
  "ensureTargetExecutionPermission d a s = Inl err \<Longrightarrow> laterError err"
  by (auto simp: ensureTargetExecutionPermission_def Let_def bind_Inl_iff split: if_splits
      dest!: ensureTargetExecutionPermission_body_err)

lemma getDestinationsArn_err: "getDestinationsArn e d = Inl err \<Longrightarrow> laterError err"
  by (auto simp: getDestinationsArn_def split: if_splits jv.splits)

lemma compileDestination_err:
  "compileDestination e n fo slot key cs = Inl err \<Longrightarrow> laterError err"
  by (auto simp: compileDestination_def Let_def bind_Inl_iff split: if_splits
      dest!: getDestinationsArn_err ensureTargetExecutionPermission_err)

lemma compileDestinations_err: "compileDestinations e n fo s = Inl err \<Longrightarrow> laterError err"
  by (auto simp: compileDestinations_def bind_Inl_iff split: if_splits
      dest!: compileDestination_err)

lemma compileFunctionEventInvokeConfig_err:
  "compileFunctionEventInvokeConfig e n s = Inl err \<Longrightarrow> laterError err"
  by (auto simp: compileFunctionEventInvokeConfig_def bind_Inl_iff split: if_splits
      dest!: getFunction_err compileDestinations_err)

lemma afterCheck_err:
  assumes "checkHandlerImage n f0 = Inr f1"
      and "compileFunctionResource e n f0 = Inl err"
  shows "laterError err"
  using assms
  by (auto simp: compileFunctionResource_def bind_Inl_iff
      dest!: resolveImage_err compileHandlerOrImage_err compileOnError_err compileKms_err
        compileTracing_err compileRoleOf_err compileFileSystem_err)

lemma includes_str_mid: "includes_str (a @ n @ b) n"
proof -
  have "length a \<in> set [0..<Suc (length (a @ n @ b))]" by simp
  moreover have "take (length n) (drop (length a) (a @ n @ b)) = n" by simp
  ultimately show ?thesis unfolding includes_str_def list_ex_iff by blast
qed

lemma initialFrame_getp:
  "k \<noteq> ''package'' \<Longrightarrow> getp (functionObject (initialFrame s fo)) k = getp fo k"
  by (simp add: initialFrame_def)

lemma validationService_functions:
  "getFunction validationService ''both''
     = Inr (JObj [(''handler'', JStr ''index.handler''), (''image'', JStr ''img'')])"
  "getFunction validationService ''none'' = Inr (JObj [(''name'', JStr ''svc-dev-none'')])"
  "getFunction validationService ''one'' = Inr (JObj [(''handler'', JStr ''index.handler'')])"
  by (simp_all add: validationService_def serviceOf_def constructor_def emptyService_def
      getFunction_def Let_def lookup_def nullish_def)

lemma set_uniq [simp]: "set (uniq xs) = set xs"
  by (induction xs) (auto simp: sameValueZero_def)

lemma uniq_objects: "filter isObject (uniq xs) = filter isObject xs"
proof (induction xs)
  case Nil
  show ?case by simp
next
  case (Cons x xs)
  have "filter isObject (filter (\<lambda>y. \<not> sameValueZero y x) (uniq xs)) = filter isObject (uniq xs)"
    unfolding filter_filter by (rule filter_cong) (auto simp: sameValueZero_def)
  with Cons show ?case by simp
qed

lemma uniq_primitives: "distinct (filter (\<lambda>x. \<not> isObject x) (uniq xs))"
proof (induction xs)
  case Nil
  show ?case by simp
next
  case (Cons x xs)
  let ?F = "filter (\<lambda>y. \<not> isObject y) (filter (\<lambda>y. \<not> sameValueZero y x) (uniq xs))"
  have e: "?F = filter (\<lambda>y. \<not> sameValueZero y x) (filter (\<lambda>y. \<not> isObject y) (uniq xs))"
    by (simp add: conj_commute)
  have d: "distinct ?F" unfolding e using Cons by (rule distinct_filter)
  have n: "\<not> isObject x \<Longrightarrow> x \<notin> set ?F" by (auto simp: sameValueZero_def)
  from d n show ?case by simp
qed

lemma default_cors_copy: "Object_assign [] (JObj defaultCors) = defaultCors"
  by (simp add: Object_assign_def assignAll_def defaultCors_def ownProperties_def
      isIndexKey_def isDigit_def)

lemma compileCors_allowedOrigins:
  "lookup (compileCors c) ''allowedOrigins'' =
     (if truthy (getp c ''allowedOrigins'') then uniq_js (getp c ''allowedOrigins'')
      else if getp c ''allowedOrigins'' = JNull then JUndef
      else JArr [JStr ''*''])"
  by (simp add: compileCors_def overrideCorsList_def default_cors_copy Let_def)
     (simp add: defaultCors_def lookup_def)

lemma compileCors_allowedHeaders:
  "lookup (compileCors c) ''allowedHeaders'' =
     (if truthy (getp c ''allowedHeaders'') then uniq_js (getp c ''allowedHeaders'')
      else if getp c ''allowedHeaders'' = JNull then JUndef
      else lookup defaultCors ''allowedHeaders'')"
  by (simp add: compileCors_def overrideCorsList_def default_cors_copy Let_def)

lemma compileCors_allowedMethods:
  "lookup (compileCors c) ''allowedMethods'' =
     (if truthy (getp c ''allowedMethods'') then uniq_js (getp c ''allowedMethods'')
      else if getp c ''allowedMethods'' = JNull then JUndef
      else JArr [JStr ''*''])"
  by (simp add: compileCors_def overrideCorsList_def default_cors_copy Let_def)
     (simp add: defaultCors_def lookup_def)

lemma compileCors_allowCredentials:
  "lookup (compileCors c) ''allowCredentials'' =
     (if truthy (getp c ''allowCredentials'') then JBool True else JUndef)"
  by (simp add: compileCors_def overrideCorsList_def default_cors_copy Let_def)
     (simp add: defaultCors_def lookup_def)

lemma compileCors_exposedResponseHeaders:
  "lookup (compileCors c) ''exposedResponseHeaders'' =
     (if truthy (getp c ''exposedResponseHeaders'')
      then uniq_js (getp c ''exposedResponseHeaders'') else JUndef)"
  by (simp add: compileCors_def overrideCorsList_def default_cors_copy Let_def)
     (simp add: defaultCors_def lookup_def)

lemma compileCors_maxAge:
  "lookup (compileCors c) ''maxAge'' = getp c ''maxAge''"
  by (simp add: compileCors_def Let_def)

lemma js_and_Array_from_uniq [simp]:
  "js_and (uniq_js v) (Array_from (uniq_js v)) = JArr (uniq (arrayLike v))"
  by (simp add: js_and_def uniq_js_def Array_from_def)

lemma corsProperty_overrides:
  "overrides (getp c ''allowedOrigins'') (JArr [JStr ''*''])
     (getp (corsProperty (compileCors c)) ''AllowOrigins'')"
  "overrides (getp c ''allowedHeaders'') (lookup defaultCors ''allowedHeaders'')
     (getp (corsProperty (compileCors c)) ''AllowHeaders'')"
  "overrides (getp c ''allowedMethods'') (JArr [JStr ''*''])
     (getp (corsProperty (compileCors c)) ''AllowMethods'')"
  by (simp_all add: overrides_def corsProperty_def lookup_def [of "(_ # _)"]
      compileCors_allowedOrigins compileCors_allowedHeaders compileCors_allowedMethods)
     (simp_all add: js_and_def Array_from_def defaultCors_def lookup_def)

lemma corsProperty_others:
  "getp (corsProperty (compileCors c)) ''AllowCredentials''
     = (if truthy (getp c ''allowCredentials'') then JBool True else JUndef)"
  "getp (corsProperty (compileCors c)) ''ExposeHeaders''
     = (if truthy (getp c ''exposedResponseHeaders'')
        then JArr (uniq (arrayLike (getp c ''exposedResponseHeaders''))) else JUndef)"
  "getp (corsProperty (compileCors c)) ''MaxAge'' = getp c ''maxAge''"
  by (simp_all add: corsProperty_def lookup_def [of "(_ # _)"]
      compileCors_allowCredentials compileCors_exposedResponseHeaders compileCors_maxAge)
     (simp_all add: js_and_def)

lemma corsProperty_keys: "list_all (hasp (corsProperty cors)) corsKeys"
  by (simp add: corsProperty_def corsKeys_def)

lemma urlResourceOf_Cors:
  "truthy (getp (getp fo ''url'') ''cors'') \<Longrightarrow>
   getProp (urlResourceOf e n fo) ''Cors'' = corsProperty (compileCors (getp (getp fo ''url'') ''cors''))"
  by (simp add: urlResourceOf_def Let_def getProp_def setProp_def lookup_def [of "(_ # _)"])

lemma compileFunctionUrl_resource:
  assumes "getFunction s n = Inr fo" and "truthy (getp fo ''url'')"
      and "getLambdaFnUrlPermissionLogicalId (nm e) n \<noteq> getLambdaFunctionUrlLogicalId (nm e) n"
  shows "\<exists>s'. compileFunctionUrl e n s = Inr s'
            \<and> lookup (Resources s') (getLambdaFunctionUrlLogicalId (nm e) n) = urlResourceOf e n fo"
  using assms by (simp add: compileFunctionUrl_def Let_def)

lemma corsService_web: "getFunction corsService ''web'' = Inr corsDefinition"
  by (simp add: corsService_def serviceOf_def constructor_def emptyService_def
      getFunction_def Let_def lookup_def nullish_def)

lemma bind_weak_cong: "m = m' \<Longrightarrow> bind m g = bind m' g"
  by simp

lemmas model_defs = js_or_def js_and_def nullish_def lookup_def isDigit_def isIndexKey_def indexLess_def ownProperties_def assignAll_def Object_assign_def sameValueZero_def digitValue_def decimalLess_def Array_from_def uniq_js_def unionWith_isEqual_def startsWith_def includes_str_def show_nat_def show_int_def dq_def js_lt_def getFunction_def getAllFunctions_def putFunction_def cfLambdaFunctionTemplate_def cfLambdaVersionTemplate_def cfOutputLatestVersionTemplate_def getProp_def setProp_def delProp_def setCode_def dependsOnOrEmpty_def iamRoleLambdaExecution_def policyDocument_def getStatement_def setStatement_def pushStatement_def unionStatement_def allowStatement_def neitherError_def bothError_def checkHandlerImage_def imageConfigOf_def resolveImage_def resolveMemoryTimeout_def runtimeManagementMap_def resolveArtifactFilePath_def lastSegment_def compileRuntimeManagement_def compileHandlerOrImage_def compileBasics_def tagList_def compileTags_def compileEphemeralStorage_def withResources_def compileOnError_def compileKms_def compileTracing_def compileEnvironment_def getAtt_def compileRole_def compileRoleOf_def compileVpc_def fileSystemError_def compileFileSystem_def compileReservedConcurrency_def compileLogsDependency_def compileLayers_def insertFunctionResource_def layerConfigurationOf_def extractLayerConfigurationsFromFunction_def legacyHashing_def addFileToHash_def hashFunctionCode_def layerArtifactPaths_def stripS3Key_def functionPropertiesSnapshot_def sortByKey_def fromPairs_def sortedLayerConfigurations_def serializeSnapshot_def computeVersionDigest_def shouldVersionFunction_def mintsVersion_def conflictError_def refTo_def enforceHashUpdate_def versionResourceOf_def aliasResource_def targetAliasOf_def insertVersion_def compileProvisionedConcurrency_def compileSnapStart_def compileVersion_def defaultCors_def overrideCorsList_def compileCors_def corsProperty_def urlResourceOf_def urlPermissionResourceOf_def compileFunctionUrl_def getDestinationsArn_def unsupportedDestinationError_def destinationAction_def destinationResourceArn_def ensureTargetExecutionPermission_body_def memoKey_def ensureTargetExecutionPermission_def compileDestination_def eventInvokeConfigResourceOf_def compileDestinations_def compileFunctionEventInvokeConfig_def initialFrame_def compileFunctionResource_def compileFunction_def constructor_def exampleNaming_def exampleProvider_def exampleRuntime_def exampleEnv_def defaultRole_def emptyService_def serviceOf_def




lemma isObj_setp [simp]: "isObj (setp x k v) = isObj x"
  by (cases x) auto

lemma isObj_delp [simp]: "isObj (delp x k) = isObj x"
  by (cases x) auto

lemma hasp_setp_other [simp]: "k' \<noteq> k \<Longrightarrow> hasp (setp x k v) k' = hasp x k'"
  by (cases x) (auto simp: update_keys)

lemma hasp_delp_other [simp]: "k' \<noteq> k \<Longrightarrow> hasp (delp x k) k' = hasp x k'"
  by (cases x) (auto simp: delete_keys)

lemma getp_setp_same: "isObj x \<Longrightarrow> getp (setp x k v) k = v"
  by (cases x) auto

lemma hasp_setp_same: "isObj x \<Longrightarrow> hasp (setp x k v) k"
  by (cases x) (auto simp: update_keys)

lemma getp_Properties_setProp:
  "getp (setProp r k v) ''Properties''
     = (if isObj r then setp (getp r ''Properties'') k v else JUndef)"
  by (cases r) (auto simp: setProp_def)

lemma getp_Properties_delProp:
  "getp (delProp r k) ''Properties''
     = (if isObj r then delp (getp r ''Properties'') k else JUndef)"
  by (cases r) (auto simp: delProp_def)

lemma getp_setProp_other [simp]: "k \<noteq> ''Properties'' \<Longrightarrow> getp (setProp r p v) k = getp r k"
  by (simp add: setProp_def)

lemma getp_delProp_other [simp]: "k \<noteq> ''Properties'' \<Longrightarrow> getp (delProp r p) k = getp r k"
  by (simp add: delProp_def)

lemma isObj_setProp [simp]: "isObj (setProp r k v) = isObj r"
  by (simp add: setProp_def)

lemma isObj_delProp [simp]: "isObj (delProp r k) = isObj r"
  by (simp add: delProp_def)

lemma isObj_setCode [simp]: "isObj (setCode r k v) = isObj r"
  by (simp add: setCode_def)

lemma getProp_setProp_other [simp]: "k' \<noteq> k \<Longrightarrow> getProp (setProp r k v) k' = getProp r k'"
  by (cases r) (auto simp: getProp_def setProp_def)

lemma getProp_delProp_other [simp]: "k' \<noteq> k \<Longrightarrow> getProp (delProp r k) k' = getProp r k'"
  by (cases r) (auto simp: getProp_def delProp_def)

lemma getProp_setp_other [simp]: "k \<noteq> ''Properties'' \<Longrightarrow> getProp (setp r k v) k' = getProp r k'"
  by (simp add: getProp_def)

lemma hasProp_setProp_other [simp]: "k' \<noteq> k \<Longrightarrow> hasProp (setProp r k v) k' = hasProp r k'"
  by (cases r) (auto simp: hasProp_def setProp_def)

lemma hasProp_delProp_other [simp]: "k' \<noteq> k \<Longrightarrow> hasProp (delProp r k) k' = hasProp r k'"
  by (cases r) (auto simp: hasProp_def delProp_def)

lemma hasProp_setp_other [simp]: "k \<noteq> ''Properties'' \<Longrightarrow> hasProp (setp r k v) k' = hasProp r k'"
  by (simp add: hasProp_def)

lemma getProp_setCode_other [simp]: "k' \<noteq> ''Code'' \<Longrightarrow> getProp (setCode r k v) k' = getProp r k'"
  by (simp add: setCode_def)

lemma hasProp_setCode_other [simp]: "k' \<noteq> ''Code'' \<Longrightarrow> hasProp (setCode r k v) k' = hasProp r k'"
  by (simp add: setCode_def)

lemma getp_setCode_other [simp]: "k \<noteq> ''Properties'' \<Longrightarrow> getp (setCode r p v) k = getp r k"
  by (simp add: setCode_def)

lemma isObj_getp_imp: "isObj (getp r k) \<Longrightarrow> isObj r"
  by (cases r) auto

lemma isObj_Properties_setProp [simp]:
  "isObj (getp (setProp r k v) ''Properties'') = isObj (getp r ''Properties'')"
  by (cases r) (auto simp: setProp_def)

lemma isObj_Properties_delProp [simp]:
  "isObj (getp (delProp r k) ''Properties'') = isObj (getp r ''Properties'')"
  by (cases r) (auto simp: delProp_def)

lemma isObj_Properties_setCode [simp]:
  "isObj (getp (setCode r k v) ''Properties'') = isObj (getp r ''Properties'')"
  by (simp add: setCode_def)

lemma lookup_setStatement_other [simp]:
  "k \<noteq> ''IamRoleLambdaExecution'' \<Longrightarrow> lookup (setStatement v R) k = lookup R k"
  by (simp add: setStatement_def Let_def)

lemma Type_setStatement [simp]:
  "getp (lookup (setStatement v R) ''IamRoleLambdaExecution'') ''Type''
     = getp (lookup R ''IamRoleLambdaExecution'') ''Type''"
  by (simp add: setStatement_def Let_def iamRoleLambdaExecution_def)

lemma pushStatement_effect:
  "pushStatement x R = Inr R' \<Longrightarrow>
   (\<forall>k. k \<noteq> ''IamRoleLambdaExecution'' \<longrightarrow> lookup R' k = lookup R k)
   \<and> getp (lookup R' ''IamRoleLambdaExecution'') ''Type''
       = getp (lookup R ''IamRoleLambdaExecution'') ''Type''"
  by (auto simp: pushStatement_def split: jv.splits)

lemma unionStatement_effect:
  "unionStatement x R = Inr R' \<Longrightarrow>
   (\<forall>k. k \<noteq> ''IamRoleLambdaExecution'' \<longrightarrow> lookup R' k = lookup R k)
   \<and> getp (lookup R' ''IamRoleLambdaExecution'') ''Type''
       = getp (lookup R ''IamRoleLambdaExecution'') ''Type''"
  by (auto simp: unionStatement_def split: jv.splits)

lemma preservesDefinition_refl [simp]: "preservesDefinition fo fo"
  by (simp add: preservesDefinition_def)

lemma preservesDefinition_setp [simp]:
  assumes "k \<in> resolvedKeys"
  shows "preservesDefinition fo (setp fo' k v) = preservesDefinition fo fo'"
proof -
  have "getp (setp fo' k v) j = getp fo' j" if "j \<notin> resolvedKeys" for j
    using that assms by (intro getp_setp_other) auto
  then show ?thesis by (simp add: preservesDefinition_def)
qed

lemma preservesDefinition_trans:
  "preservesDefinition a b \<Longrightarrow> preservesDefinition b c \<Longrightarrow> preservesDefinition a c"
  by (simp add: preservesDefinition_def)

lemma preservesResource_refl [simp]: "preservesResource r r"
  by (simp add: preservesResource_def)

lemma preservesResource_trans:
  "preservesResource a b \<Longrightarrow> preservesResource b c \<Longrightarrow> preservesResource a c"
  by (simp add: preservesResource_def)

lemma preservesResource_setProp [simp]:
  "preservesResource r (setProp r' k v) = preservesResource r r'"
  by (simp add: preservesResource_def)

lemma preservesResource_delProp [simp]:
  "preservesResource r (delProp r' k) = preservesResource r r'"
  by (simp add: preservesResource_def)

lemma preservesResource_setCode [simp]:
  "preservesResource r (setCode r' k v) = preservesResource r r'"
  by (simp add: preservesResource_def)

lemma preservesResource_setp [simp]:
  "k \<noteq> ''Type'' \<Longrightarrow> k \<noteq> ''Properties'' \<Longrightarrow>
   preservesResource r (setp r' k v) = preservesResource r r'"
  by (simp add: preservesResource_def)

lemma keepsReserved_refl [simp]: "keepsReserved r r"
  by (simp add: keepsReserved_def)

lemma keepsReserved_trans: "keepsReserved a b \<Longrightarrow> keepsReserved b c \<Longrightarrow> keepsReserved a c"
  by (simp add: keepsReserved_def)

lemma keepsReserved_setProp [simp]:
  "k \<noteq> ''ReservedConcurrentExecutions'' \<Longrightarrow>
   keepsReserved r (setProp r' k v) = keepsReserved r r'"
  by (simp add: keepsReserved_def)

lemma keepsReserved_delProp [simp]:
  "k \<noteq> ''ReservedConcurrentExecutions'' \<Longrightarrow>
   keepsReserved r (delProp r' k) = keepsReserved r r'"
  by (simp add: keepsReserved_def)

lemma keepsReserved_setCode [simp]: "keepsReserved r (setCode r' k v) = keepsReserved r r'"
  by (simp add: keepsReserved_def)

lemma keepsReserved_setp [simp]:
  "k \<noteq> ''Properties'' \<Longrightarrow> keepsReserved r (setp r' k v) = keepsReserved r r'"
  by (simp add: keepsReserved_def)

lemma preservesTemplate_refl [simp]: "preservesTemplate R R"
  by (simp add: preservesTemplate_def)

lemma preservesTemplate_trans:
  "preservesTemplate a b \<Longrightarrow> preservesTemplate b c \<Longrightarrow> preservesTemplate a c"
  by (simp add: preservesTemplate_def)

lemma preservesTemplate_setStatement [simp]: "preservesTemplate R (setStatement v R)"
  by (simp add: preservesTemplate_def)

lemma pushStatement_preserves: "pushStatement x R = Inr R' \<Longrightarrow> preservesTemplate R R'"
  by (auto simp: pushStatement_def split: jv.splits)

lemma unionStatement_preserves: "unionStatement x R = Inr R' \<Longrightarrow> preservesTemplate R R'"
  by (auto simp: unionStatement_def split: jv.splits)

lemma preservesService_refl [simp]: "preservesService s s"
  by (simp add: preservesService_def)

lemma preservesService_trans:
  "preservesService a b \<Longrightarrow> preservesService b c \<Longrightarrow> preservesService a c"
  unfolding preservesService_def using preservesTemplate_trans by auto

lemma preservesService_Resources [simp]:
  "preservesService s (s\<lparr>Resources := R\<rparr>) = preservesTemplate (Resources s) R"
  by (simp add: preservesService_def)

lemma evolves_refl [simp]: "evolves f f"
  by (simp add: evolves_def)

lemma evolves_trans: "evolves f g \<Longrightarrow> evolves g h \<Longrightarrow> evolves f h"
  unfolding evolves_def
  using preservesDefinition_trans preservesService_trans preservesResource_trans by blast

lemma evolves_resource [simp]:
  "evolves f (f\<lparr>functionResource := r\<rparr>) = preservesResource (functionResource f) r"
  by (simp add: evolves_def)

lemma evolves_withResources:
  "evolves f ((withResources f R)\<lparr>functionResource := r\<rparr>)
     = (preservesTemplate (Resources (st f)) R \<and> preservesResource (functionResource f) r)"
  by (simp add: evolves_def withResources_def)

lemma st_withResources [simp]: "st (withResources f R) = (st f)\<lparr>Resources := R\<rparr>"
  by (simp add: withResources_def)

lemma withResources_simps [simp]:
  "functionObject (withResources f R) = functionObject f"
  "functionResource (withResources f R) = functionResource f"
  "functionImageUri (withResources f R) = functionImageUri f"
  "functionImageSha (withResources f R) = functionImageSha f"
  "artifactFilePath (withResources f R) = artifactFilePath f"
  "Resources (st (withResources f R)) = R"
  "provider (st (withResources f R)) = provider (st f)"
  "package (st (withResources f R)) = package (st f)"
  "service_functions (st (withResources f R)) = service_functions (st f)"
  "serviceArtifact (st (withResources f R)) = serviceArtifact (st f)"
  "serviceDir (st (withResources f R)) = serviceDir (st f)"
  "options (st (withResources f R)) = options (st f)"
  "Outputs (st (withResources f R)) = Outputs (st f)"
  "memo (st (withResources f R)) = memo (st f)"
  "destAddr (st (withResources f R)) = destAddr (st f)"
  by (simp_all add: withResources_def)

lemma resolveImage_evolves:
  assumes "resolveImage e n f = Inr f'"
  shows "evolves f f'" and "keepsReserved (functionResource f) (functionResource f')"
  using assms
  by (auto simp: resolveImage_def Let_def evolves_def split: if_splits option.splits)

lemma resolveMemoryTimeout_evolves:
  "evolves f (resolveMemoryTimeout f)"
  "functionResource (resolveMemoryTimeout f) = functionResource f"
  by (simp_all add: resolveMemoryTimeout_def Let_def evolves_def resolvedKeys_def)

lemma compileRuntimeManagement_keeps [simp]:
  "preservesResource r (compileRuntimeManagement e fo r') = preservesResource r r'"
  "keepsReserved r (compileRuntimeManagement e fo r') = keepsReserved r r'"
  by (simp_all add: compileRuntimeManagement_def Let_def)

lemma compileHandlerOrImage_evolves:
  assumes "compileHandlerOrImage e n f = Inr f'"
  shows "evolves f f'" and "keepsReserved (functionResource f) (functionResource f')"
  using assms
  by (auto simp: compileHandlerOrImage_def Let_def evolves_def resolvedKeys_def
      split: if_splits jv.splits)

lemma compileBasics_evolves:
  "evolves f (compileBasics f)"
  "keepsReserved (functionResource f) (functionResource (compileBasics f))"
  by (simp_all add: compileBasics_def Let_def)

lemma compileTags_evolves:
  "evolves f (compileTags f)"
  "keepsReserved (functionResource f) (functionResource (compileTags f))"
  by (simp_all add: compileTags_def Let_def)

lemma compileEphemeralStorage_evolves:
  "evolves f (compileEphemeralStorage f)"
  "keepsReserved (functionResource f) (functionResource (compileEphemeralStorage f))"
  by (simp_all add: compileEphemeralStorage_def Let_def)

lemma compileOnError_evolves:
  assumes "compileOnError f = Inr f'"
  shows "evolves f f'" and "keepsReserved (functionResource f) (functionResource f')"
  using assms
  by (auto simp: compileOnError_def Let_def evolves_def bind_Inr_iff
      split: if_splits dest!: pushStatement_preserves)

lemma compileKms_evolves:
  assumes "compileKms f = Inr f'"
  shows "evolves f f'" and "keepsReserved (functionResource f) (functionResource f')"
  using assms
  by (auto simp: compileKms_def Let_def evolves_def bind_Inr_iff
      split: if_splits dest!: unionStatement_preserves)

lemma compileTracing_evolves:
  assumes "compileTracing f = Inr f'"
  shows "evolves f f'" and "keepsReserved (functionResource f) (functionResource f')"
  using assms
  by (auto simp: compileTracing_def Let_def evolves_def bind_Inr_iff
      split: if_splits dest!: unionStatement_preserves)

lemma compileEnvironment_evolves:
  "evolves f (compileEnvironment f)"
  "keepsReserved (functionResource f) (functionResource (compileEnvironment f))"
  by (simp_all add: compileEnvironment_def Let_def)

lemma compileRole_keeps:
  assumes "compileRole r role = Inr r'"
  shows "preservesResource r r'" and "keepsReserved r r'"
  using assms
  by (auto simp: compileRole_def Let_def split: jv.splits if_splits)

lemma compileRoleOf_evolves:
  assumes "compileRoleOf e f = Inr f'"
  shows "evolves f f'" and "keepsReserved (functionResource f) (functionResource f')"
  using assms
  by (auto simp: compileRoleOf_def bind_Inr_iff dest: compileRole_keeps)

lemma compileVpc_evolves:
  "evolves f (compileVpc f)"
  "keepsReserved (functionResource f) (functionResource (compileVpc f))"
  by (simp_all add: compileVpc_def Let_def evolves_def resolvedKeys_def preservesService_def)

lemma compileFileSystem_evolves:
  assumes "compileFileSystem n f = Inr f'"
  shows "evolves f f'" and "keepsReserved (functionResource f) (functionResource f')"
  using assms
  by (auto simp: compileFileSystem_def Let_def evolves_def bind_Inr_iff
      split: if_splits dest!: pushStatement_preserves)

lemma compileReservedConcurrency_evolves:
  "evolves f (compileReservedConcurrency f)"
  by (simp add: compileReservedConcurrency_def Let_def)

lemma compileLogsDependency_evolves:
  "evolves f (compileLogsDependency e n f)"
  "keepsReserved (functionResource f) (functionResource (compileLogsDependency e n f))"
  by (simp_all add: compileLogsDependency_def Let_def)

lemma compileLayers_evolves:
  "evolves f (compileLayers f)"
  "keepsReserved (functionResource f) (functionResource (compileLayers f))"
  by (simp_all add: compileLayers_def Let_def)

lemma bind_InrE:
  assumes "bind m g = Inr y"
  obtains x where "m = Inr x" and "g x = Inr y"
  using assms by (cases m) auto

lemma compileFunctionResource_steps:
  assumes "compileFunctionResource e n f0 = Inr f"
  obtains f2 f3 f4 f5 f6 f7 f8 where
       "resolveImage e n f0 = Inr f2"
       "compileHandlerOrImage e n (resolveMemoryTimeout f2) = Inr f3"
       "compileOnError (compileEphemeralStorage (compileTags (compileBasics f3))) = Inr f4"
       "compileKms f4 = Inr f5" "compileTracing f5 = Inr f6"
       "compileRoleOf e (compileEnvironment f6) = Inr f7"
       "compileFileSystem n (compileVpc f7) = Inr f8"
       "f = insertFunctionResource e n
              (compileLayers (compileLogsDependency e n (compileReservedConcurrency f8)))"
proof -
  have c: "f1 = f0" if "checkHandlerImage n f0 = Inr f1" for f1
    using that by (simp add: checkHandlerImage_def Let_def split: if_splits)
  from assms obtain f1 f2 f3 f4 f5 f6 f7 f8 where
       "checkHandlerImage n f0 = Inr f1"
       "resolveImage e n f1 = Inr f2"
       "compileHandlerOrImage e n (resolveMemoryTimeout f2) = Inr f3"
       "compileOnError (compileEphemeralStorage (compileTags (compileBasics f3))) = Inr f4"
       "compileKms f4 = Inr f5" "compileTracing f5 = Inr f6"
       "compileRoleOf e (compileEnvironment f6) = Inr f7"
       "compileFileSystem n (compileVpc f7) = Inr f8"
       "insertFunctionResource e n
              (compileLayers (compileLogsDependency e n (compileReservedConcurrency f8))) = f"
    unfolding compileFunctionResource_def bind_Inr_iff sum.inject by blast
  then show ?thesis using c that by metis
qed

lemma compileFunctionResource_evolves:
  assumes "compileFunctionResource e n f0 = Inr f"
  obtains g where "evolves f0 g"
    and "keepsReserved (functionResource f0) (functionResource g)"
    and "f = insertFunctionResource e n
               (compileLayers (compileLogsDependency e n (compileReservedConcurrency g)))"
proof -
  from assms obtain f2 f3 f4 f5 f6 f7 f8 where
    s: "resolveImage e n f0 = Inr f2"
       "compileHandlerOrImage e n (resolveMemoryTimeout f2) = Inr f3"
       "compileOnError (compileEphemeralStorage (compileTags (compileBasics f3))) = Inr f4"
       "compileKms f4 = Inr f5" "compileTracing f5 = Inr f6"
       "compileRoleOf e (compileEnvironment f6) = Inr f7"
       "compileFileSystem n (compileVpc f7) = Inr f8"
    and f: "f = insertFunctionResource e n
                  (compileLayers (compileLogsDependency e n (compileReservedConcurrency f8)))"
    by (rule compileFunctionResource_steps)
  have a2: "evolves f0 (resolveMemoryTimeout f2)"
    by (rule evolves_trans [OF resolveImage_evolves(1) [OF s(1)] resolveMemoryTimeout_evolves(1)])
  have a3: "evolves f0 f3"
    by (rule evolves_trans [OF a2 compileHandlerOrImage_evolves(1) [OF s(2)]])
  have a3': "evolves f0 (compileEphemeralStorage (compileTags (compileBasics f3)))"
    by (rule evolves_trans [OF evolves_trans [OF evolves_trans [OF a3 compileBasics_evolves(1)]
          compileTags_evolves(1)] compileEphemeralStorage_evolves(1)])
  have a6: "evolves f0 f6"
    by (rule evolves_trans [OF evolves_trans [OF evolves_trans [OF a3'
          compileOnError_evolves(1) [OF s(3)]] compileKms_evolves(1) [OF s(4)]]
          compileTracing_evolves(1) [OF s(5)]])
  have a8: "evolves f0 f8"
    by (rule evolves_trans [OF evolves_trans [OF evolves_trans [OF evolves_trans [OF a6
          compileEnvironment_evolves(1)] compileRoleOf_evolves(1) [OF s(6)]]
          compileVpc_evolves(1)] compileFileSystem_evolves(1) [OF s(7)]])
  have b2: "keepsReserved (functionResource f0) (functionResource (resolveMemoryTimeout f2))"
    using resolveImage_evolves(2) [OF s(1)] by (simp add: resolveMemoryTimeout_evolves(2))
  have b3: "keepsReserved (functionResource f0) (functionResource f3)"
    by (rule keepsReserved_trans [OF b2 compileHandlerOrImage_evolves(2) [OF s(2)]])
  have b3': "keepsReserved (functionResource f0)
               (functionResource (compileEphemeralStorage (compileTags (compileBasics f3))))"
    by (rule keepsReserved_trans [OF keepsReserved_trans [OF keepsReserved_trans
          [OF b3 compileBasics_evolves(2)] compileTags_evolves(2)]
          compileEphemeralStorage_evolves(2)])
  have b6: "keepsReserved (functionResource f0) (functionResource f6)"
    by (rule keepsReserved_trans [OF keepsReserved_trans [OF keepsReserved_trans [OF b3'
          compileOnError_evolves(2) [OF s(3)]] compileKms_evolves(2) [OF s(4)]]
          compileTracing_evolves(2) [OF s(5)]])
  have b8: "keepsReserved (functionResource f0) (functionResource f8)"
    by (rule keepsReserved_trans [OF keepsReserved_trans [OF keepsReserved_trans
          [OF keepsReserved_trans [OF b6 compileEnvironment_evolves(2)]
          compileRoleOf_evolves(2) [OF s(6)]] compileVpc_evolves(2)]
          compileFileSystem_evolves(2) [OF s(7)]])
  from a8 b8 f show ?thesis by (rule that)
qed

lemma getProp_setProp_same:
  "isObj (getp r ''Properties'') \<Longrightarrow> getProp (setProp r k v) k = v"
  by (cases r; cases "getp r ''Properties''") (auto simp: getProp_def setProp_def)

lemma hasProp_setProp_same:
  "isObj (getp r ''Properties'') \<Longrightarrow> hasProp (setProp r k v) k"
  by (cases r; cases "getp r ''Properties''") (auto simp: hasProp_def setProp_def update_keys)

lemma template_facts [simp]:
  "getp cfLambdaFunctionTemplate ''Type'' = JStr ''AWS::Lambda::Function''"
  "isObj (getp cfLambdaFunctionTemplate ''Properties'')"
  "getProp cfLambdaFunctionTemplate ''ReservedConcurrentExecutions'' = JUndef"
  "\<not> hasProp cfLambdaFunctionTemplate ''ReservedConcurrentExecutions''"
  by (simp_all add: cfLambdaFunctionTemplate_def getProp_def hasProp_def lookup_def)

lemma initialFrame_simps [simp]:
  "st (initialFrame s fo) = s"
  "functionResource (initialFrame s fo) = cfLambdaFunctionTemplate"
  by (simp_all add: initialFrame_def)

lemma evolves_initialFrame:
  assumes "evolves (initialFrame s fo) g"
  shows "\<forall>k. k \<notin> resolvedKeys \<and> k \<noteq> ''package'' \<longrightarrow> getp (functionObject g) k = getp fo k"
    and "preservesService s (st g)"
    and "getp (functionResource g) ''Type'' = JStr ''AWS::Lambda::Function''"
    and "isObj (getp (functionResource g) ''Properties'')"
  using assms
  by (simp_all add: evolves_def preservesDefinition_def preservesResource_def initialFrame_getp)

lemma compileReservedConcurrency_result:
  assumes "isObj (getp (functionResource g) ''Properties'')"
  shows "getProp (functionResource (compileReservedConcurrency g)) ''ReservedConcurrentExecutions''
           = (let rc = getp (functionObject g) ''reservedConcurrency'' in
              if truthy rc \<or> rc = JNum 0 then rc
              else getProp (functionResource g) ''ReservedConcurrentExecutions'')"
    and "hasProp (functionResource (compileReservedConcurrency g)) ''ReservedConcurrentExecutions''
           = (let rc = getp (functionObject g) ''reservedConcurrency'' in
              truthy rc \<or> rc = JNum 0
              \<or> hasProp (functionResource g) ''ReservedConcurrentExecutions'')"
  using assms
  by (simp_all add: compileReservedConcurrency_def Let_def getProp_setProp_same
      hasProp_setProp_same)

text \<open>The compute resource as \<^verbatim>\<open>compileFunction\<close> has built and inserted it at line 464.\<close>

lemma compileFunctionResource_result:
  assumes "compileFunctionResource e n (initialFrame s fo) = Inr f"
  shows "\<forall>k. k \<notin> resolvedKeys \<and> k \<noteq> ''package'' \<longrightarrow> getp (functionObject f) k = getp fo k"
    and "\<forall>k. k \<noteq> ''vpc'' \<longrightarrow> getp (provider (st f)) k = getp (provider s) k"
    and "service_functions (st f) = service_functions s"
    and "options (st f) = options s"
    and "memo (st f) = memo s"
    and "destAddr (st f) = destAddr s"
    and "Outputs (st f) = Outputs s"
    and "\<forall>k. k \<noteq> ''IamRoleLambdaExecution'' \<and> k \<noteq> getLambdaLogicalId (nm e) n
           \<longrightarrow> lookup (Resources (st f)) k = lookup (Resources s) k"
    and "getLambdaLogicalId (nm e) n \<noteq> ''IamRoleLambdaExecution'' \<longrightarrow>
           getp (lookup (Resources (st f)) ''IamRoleLambdaExecution'') ''Type''
             = getp (lookup (Resources s) ''IamRoleLambdaExecution'') ''Type''"
    and "lookup (Resources (st f)) (getLambdaLogicalId (nm e) n) = functionResource f"
    and "getp (functionResource f) ''Type'' = JStr ''AWS::Lambda::Function''"
    and "getProp (functionResource f) ''ReservedConcurrentExecutions''
           = (if truthy (getp fo ''reservedConcurrency'') \<or> getp fo ''reservedConcurrency'' = JNum 0
              then getp fo ''reservedConcurrency'' else JUndef)"
    and "hasProp (functionResource f) ''ReservedConcurrentExecutions''
           = (truthy (getp fo ''reservedConcurrency'') \<or> getp fo ''reservedConcurrency'' = JNum 0)"
proof -
  from assms obtain g where g: "evolves (initialFrame s fo) g"
    and k: "keepsReserved (functionResource (initialFrame s fo)) (functionResource g)"
    and f: "f = insertFunctionResource e n
               (compileLayers (compileLogsDependency e n (compileReservedConcurrency g)))"
    by (rule compileFunctionResource_evolves)
  let ?h = "compileReservedConcurrency g"
  let ?l = "compileLayers (compileLogsDependency e n ?h)"
  have gl: "evolves g ?l"
    by (rule evolves_trans [OF compileReservedConcurrency_evolves
          evolves_trans [OF compileLogsDependency_evolves(1) compileLayers_evolves(1)]])
  have l: "evolves (initialFrame s fo) ?l" by (rule evolves_trans [OF g gl])
  note L = evolves_initialFrame [OF l]
  note G = evolves_initialFrame [OF g]
  have kl: "keepsReserved (functionResource ?h) (functionResource ?l)"
    by (rule keepsReserved_trans [OF compileLogsDependency_evolves(2) compileLayers_evolves(2)])
  have rc: "getp (functionObject g) ''reservedConcurrency'' = getp fo ''reservedConcurrency''"
    using G(1) by (simp add: resolvedKeys_def)
  have fr: "functionResource f = functionResource ?l" "functionObject f = functionObject ?l"
    "st f = (st ?l)\<lparr>Resources := AList.update (getLambdaLogicalId (nm e) n) (functionResource ?l)
                                   (Resources (st ?l))\<rparr>"
    by (simp_all add: f insertFunctionResource_def)
  show "\<forall>k. k \<notin> resolvedKeys \<and> k \<noteq> ''package'' \<longrightarrow> getp (functionObject f) k = getp fo k"
    using L(1) fr by simp
  show "\<forall>k. k \<noteq> ''vpc'' \<longrightarrow> getp (provider (st f)) k = getp (provider s) k"
    "service_functions (st f) = service_functions s" "options (st f) = options s"
    "memo (st f) = memo s" "destAddr (st f) = destAddr s" "Outputs (st f) = Outputs s"
    using L(2) fr by (simp_all add: preservesService_def)
  show "\<forall>k. k \<noteq> ''IamRoleLambdaExecution'' \<and> k \<noteq> getLambdaLogicalId (nm e) n
           \<longrightarrow> lookup (Resources (st f)) k = lookup (Resources s) k"
    "getLambdaLogicalId (nm e) n \<noteq> ''IamRoleLambdaExecution'' \<longrightarrow>
           getp (lookup (Resources (st f)) ''IamRoleLambdaExecution'') ''Type''
             = getp (lookup (Resources s) ''IamRoleLambdaExecution'') ''Type''"
    using L(2) fr by (simp_all add: preservesService_def preservesTemplate_def)
  show "lookup (Resources (st f)) (getLambdaLogicalId (nm e) n) = functionResource f"
    using fr by simp
  show "getp (functionResource f) ''Type'' = JStr ''AWS::Lambda::Function''"
    using L(3) fr by simp
  show "getProp (functionResource f) ''ReservedConcurrentExecutions''
           = (if truthy (getp fo ''reservedConcurrency'') \<or> getp fo ''reservedConcurrency'' = JNum 0
              then getp fo ''reservedConcurrency'' else JUndef)"
    using compileReservedConcurrency_result(1) [OF G(4)] k kl rc fr
    by (simp add: keepsReserved_def Let_def)
  show "hasProp (functionResource f) ''ReservedConcurrentExecutions''
           = (truthy (getp fo ''reservedConcurrency'') \<or> getp fo ''reservedConcurrency'' = JNum 0)"
    using compileReservedConcurrency_result(2) [OF G(4)] k kl rc fr
    by (simp add: keepsReserved_def Let_def)
qed

lemma distinctIds_facts:
  assumes "distinctIds e n"
  shows "getLambdaVersionLogicalId (nm e) n d \<noteq> getLambdaLogicalId (nm e) n"
    and "getLambdaVersionLogicalId (nm e) n d \<noteq> getLambdaProvisionedConcurrencyAliasLogicalId (nm e) n"
    and "getLambdaVersionLogicalId (nm e) n d \<noteq> getLambdaSnapStartAliasLogicalId (nm e) n"
    and "getLambdaVersionLogicalId (nm e) n d \<noteq> getLambdaFunctionUrlLogicalId (nm e) n"
    and "getLambdaVersionLogicalId (nm e) n d \<noteq> getLambdaFnUrlPermissionLogicalId (nm e) n"
    and "getLambdaVersionLogicalId (nm e) n d \<noteq> getLambdaEventConfigLogicalId (nm e) n"
    and "getLambdaVersionLogicalId (nm e) n d \<noteq> ''IamRoleLambdaExecution''"
    and "getLambdaLogicalId (nm e) n \<noteq> getLambdaProvisionedConcurrencyAliasLogicalId (nm e) n"
    and "getLambdaLogicalId (nm e) n \<noteq> getLambdaSnapStartAliasLogicalId (nm e) n"
    and "getLambdaLogicalId (nm e) n \<noteq> getLambdaFunctionUrlLogicalId (nm e) n"
    and "getLambdaLogicalId (nm e) n \<noteq> getLambdaFnUrlPermissionLogicalId (nm e) n"
    and "getLambdaLogicalId (nm e) n \<noteq> getLambdaEventConfigLogicalId (nm e) n"
    and "getLambdaLogicalId (nm e) n \<noteq> ''IamRoleLambdaExecution''"
  using assms by (auto simp: distinctIds_def fixedIds_def)

lemma enforceHashUpdate_effect:
  "functionObject (enforceHashUpdate e n f) = functionObject f"
  "keepsReserved (functionResource f) (functionResource (enforceHashUpdate e n f))"
  "getp (functionResource (enforceHashUpdate e n f)) ''Type'' = getp (functionResource f) ''Type''"
  "lookup (Resources (st f)) (getLambdaLogicalId (nm e) n) = functionResource f \<Longrightarrow>
   lookup (Resources (st (enforceHashUpdate e n f))) (getLambdaLogicalId (nm e) n)
     = functionResource (enforceHashUpdate e n f)"
  "k \<noteq> getLambdaLogicalId (nm e) n \<Longrightarrow>
   lookup (Resources (st (enforceHashUpdate e n f))) k = lookup (Resources (st f)) k"
  "provider (st (enforceHashUpdate e n f)) = provider (st f)"
  "service_functions (st (enforceHashUpdate e n f)) = service_functions (st f)"
  "options (st (enforceHashUpdate e n f)) = options (st f)"
  "memo (st (enforceHashUpdate e n f)) = memo (st f)"
  "destAddr (st (enforceHashUpdate e n f)) = destAddr (st f)"
  by (simp_all add: enforceHashUpdate_def Let_def)

lemma shouldVersionFunction_enforce [simp]:
  "shouldVersionFunction (enforceHashUpdate e n f) = shouldVersionFunction f"
  by (simp add: shouldVersionFunction_def enforceHashUpdate_effect)

lemma compileVersion_unminted: "\<not> mintsVersion f \<Longrightarrow> compileVersion e n f = Inr f"
  by (simp add: compileVersion_def)

lemma compileVersion_minted:
  assumes m: "mintsVersion f" and c: "compileVersion e n f = Inr f'"
    and i: "lookup (Resources (st f)) (getLambdaLogicalId (nm e) n) = functionResource f"
    and d: "distinctIds e n"
  obtains codeSha digest where
    "computeVersionDigest e (enforceHashUpdate e n f) = Inr (codeSha, digest)"
    "\<not> (truthy (getp (functionObject f) ''provisionedConcurrency'')
        \<and> truthy (getp (functionObject f) ''snapStart''))"
    "lookup (Resources (st f')) (getLambdaVersionLogicalId (nm e) n digest)
       = finalVersionResource e n f codeSha"
    "lookup (Resources (st f')) (getLambdaLogicalId (nm e) n) = functionResource f'"
    "keepsReserved (functionResource f) (functionResource f')"
    "service_functions (st f') = service_functions (st f)"
    "memo (st f') = memo (st f)" "destAddr (st f') = destAddr (st f)"
proof -
  let ?f1 = "enforceHashUpdate e n f"
  from m c obtain cd where cd: "computeVersionDigest e ?f1 = Inr cd"
    and np: "\<not> (truthy (getp (functionObject f) ''provisionedConcurrency'')
        \<and> truthy (getp (functionObject f) ''snapStart''))"
    and f': "f' = compileSnapStart e n (shouldVersionFunction f)
                    (versionResourceOf e n (functionObject f) (fst cd))
                    (getLambdaVersionLogicalId (nm e) n (snd cd))
                    (compileProvisionedConcurrency e n (shouldVersionFunction f)
                       (versionResourceOf e n (functionObject f) (fst cd))
                       (getLambdaVersionLogicalId (nm e) n (snd cd))
                       (insertVersion e n (versionResourceOf e n (functionObject f) (fst cd))
                          (getLambdaVersionLogicalId (nm e) n (snd cd)) ?f1))"
    by (auto simp: compileVersion_def Let_def bind_Inr_iff enforceHashUpdate_effect(1)
        insertVersion_def split: if_splits)
  note D = distinctIds_facts [OF d]
  note E = enforceHashUpdate_effect
  have 1: "lookup (Resources (st f')) (getLambdaVersionLogicalId (nm e) n (snd cd))
       = finalVersionResource e n f (fst cd)"
    using np D
    by (simp add: f' compileSnapStart_def compileProvisionedConcurrency_def insertVersion_def
        Let_def finalVersionResource_def E)
  have 2: "lookup (Resources (st f')) (getLambdaLogicalId (nm e) n) = functionResource f'"
    using np D E(4) [OF i] D [symmetric]
    by (simp add: f' compileSnapStart_def compileProvisionedConcurrency_def insertVersion_def
        Let_def E)
  have 3: "keepsReserved (functionResource f) (functionResource f')"
    using E(2)
    by (simp add: f' compileSnapStart_def compileProvisionedConcurrency_def insertVersion_def
        Let_def)
  have 4: "service_functions (st f') = service_functions (st f)"
    "memo (st f') = memo (st f)" "destAddr (st f') = destAddr (st f)"
    by (simp_all add: f' compileSnapStart_def compileProvisionedConcurrency_def insertVersion_def
        Let_def E)
  from cd np 1 2 3 4 show ?thesis
    by (intro that [of "fst cd" "snd cd"]) simp_all
qed

lemma versionIds_update:
  "versionIds (AList.update k v R)
     = (if getp v ''Type'' = JStr ''AWS::Lambda::Version'' then insert k (versionIds R)
        else versionIds R - {k})"
  by (auto simp: versionIds_def)

lemma versionIds_preservesTemplate:
  assumes "preservesTemplate R R'"
  shows "versionIds R' = versionIds R"
proof -
  have "getp (lookup R' k) ''Type'' = getp (lookup R k) ''Type''" for k
    using assms by (cases "k = ''IamRoleLambdaExecution''") (simp_all add: preservesTemplate_def)
  then show ?thesis by (simp add: versionIds_def)
qed

lemma Type_simps [simp]:
  "getp (versionResourceOf e n fo c) ''Type'' = JStr ''AWS::Lambda::Version''"
  "getp (aliasResource a b c' x) ''Type'' = JStr ''AWS::Lambda::Alias''"
  "getp (urlResourceOf e n fo) ''Type'' = JStr ''AWS::Lambda::Url''"
  by (simp_all add: versionResourceOf_def cfLambdaVersionTemplate_def aliasResource_def
      urlResourceOf_def Let_def lookup_def setProp_def)

lemma Type_finalVersionResource [simp]:
  "getp (finalVersionResource e n f c) ''Type'' = JStr ''AWS::Lambda::Version''"
  by (simp add: finalVersionResource_def Let_def)

lemma Type_delp_DeletionPolicy [simp]:
  "getp (delp r ''DeletionPolicy'') ''Type'' = getp r ''Type''"
  by simp

lemma enforceHashUpdate_versionIds:
  "getp (functionResource f) ''Type'' = JStr ''AWS::Lambda::Function'' \<Longrightarrow>
   versionIds (Resources (st (enforceHashUpdate e n f))) \<subseteq> versionIds (Resources (st f))"
  by (auto simp: enforceHashUpdate_def Let_def versionIds_update)

lemma insertVersion_simps [simp]:
  "functionResource (insertVersion e n vr vid f) = functionResource f"
  "Resources (st (insertVersion e n vr vid f)) = AList.update vid vr (Resources (st f))"
  "getp (functionObject (insertVersion e n vr vid f)) ''provisionedConcurrency''
     = getp (functionObject f) ''provisionedConcurrency''"
  "getp (functionObject (insertVersion e n vr vid f)) ''snapStart''
     = getp (functionObject f) ''snapStart''"
  by (simp_all add: insertVersion_def Let_def)

lemma compileProvisionedConcurrency_versionIds:
  "getp vr ''Type'' = JStr ''AWS::Lambda::Version'' \<Longrightarrow>
   versionIds (Resources (st (compileProvisionedConcurrency e n svf vr vid f)))
     \<subseteq> insert vid (versionIds (Resources (st f)))"
  by (auto simp: compileProvisionedConcurrency_def Let_def versionIds_update split: if_splits)

lemma compileProvisionedConcurrency_resource [simp]:
  "functionResource (compileProvisionedConcurrency e n svf vr vid f) = functionResource f"
  by (simp add: compileProvisionedConcurrency_def Let_def)

lemma compileSnapStart_versionIds:
  "getp vr ''Type'' = JStr ''AWS::Lambda::Version'' \<Longrightarrow>
   getp (functionResource f) ''Type'' = JStr ''AWS::Lambda::Function'' \<Longrightarrow>
   versionIds (Resources (st (compileSnapStart e n svf vr vid f)))
     \<subseteq> insert vid (versionIds (Resources (st f)))"
  by (auto simp: compileSnapStart_def Let_def versionIds_update split: if_splits)

lemma compileVersion_versionIds:
  assumes c: "compileVersion e n f = Inr f'"
    and t: "getp (functionResource f) ''Type'' = JStr ''AWS::Lambda::Function''"
    and m: "mintsVersion f"
    and cd: "computeVersionDigest e (enforceHashUpdate e n f) = Inr cd"
  shows "versionIds (Resources (st f'))
           \<subseteq> insert (getLambdaVersionLogicalId (nm e) n (snd cd)) (versionIds (Resources (st f)))"
proof -
  let ?f1 = "enforceHashUpdate e n f"
  from m c cd have
    f': "f' = compileSnapStart e n (shouldVersionFunction f)
                    (versionResourceOf e n (functionObject f) (fst cd))
                    (getLambdaVersionLogicalId (nm e) n (snd cd))
                    (compileProvisionedConcurrency e n (shouldVersionFunction f)
                       (versionResourceOf e n (functionObject f) (fst cd))
                       (getLambdaVersionLogicalId (nm e) n (snd cd))
                       (insertVersion e n (versionResourceOf e n (functionObject f) (fst cd))
                          (getLambdaVersionLogicalId (nm e) n (snd cd)) ?f1))"
    by (auto simp: compileVersion_def Let_def bind_Inr_iff enforceHashUpdate_effect(1)
        split: if_splits)
  let ?vr = "versionResourceOf e n (functionObject f) (fst cd)"
  let ?vid = "getLambdaVersionLogicalId (nm e) n (snd cd)"
  let ?f2 = "insertVersion e n ?vr ?vid ?f1"
  let ?f3 = "compileProvisionedConcurrency e n (shouldVersionFunction f) ?vr ?vid ?f2"
  have t1: "getp (functionResource ?f1) ''Type'' = JStr ''AWS::Lambda::Function''"
    using t by (simp add: enforceHashUpdate_effect)
  have a: "versionIds (Resources (st ?f1)) \<subseteq> versionIds (Resources (st f))"
    by (rule enforceHashUpdate_versionIds [OF t])
  have b: "versionIds (Resources (st ?f2)) \<subseteq> insert ?vid (versionIds (Resources (st ?f1)))"
    by (auto simp: versionIds_update)
  have c3: "versionIds (Resources (st ?f3)) \<subseteq> insert ?vid (versionIds (Resources (st ?f2)))"
    by (rule compileProvisionedConcurrency_versionIds) simp
  have d: "versionIds (Resources (st f')) \<subseteq> insert ?vid (versionIds (Resources (st ?f3)))"
    unfolding f' by (rule compileSnapStart_versionIds) (simp_all add: t1)
  from a b c3 d show ?thesis
    by blast
qed

lemma getFunction_putFunction [simp]: "getFunction (putFunction n fo s) n = Inr fo"
  by (simp add: getFunction_def putFunction_def update_conv')

lemma putFunction_simps [simp]:
  "Resources (putFunction n fo s) = Resources s"
  "memo (putFunction n fo s) = memo s"
  "destAddr (putFunction n fo s) = destAddr s"
  "provider (putFunction n fo s) = provider s"
  by (simp_all add: putFunction_def)

lemma Type_more [simp]:
  "getp (urlPermissionResourceOf e n fo) ''Type'' = JStr ''AWS::Lambda::Permission''"
  "getp (eventInvokeConfigResourceOf e n fo dc) ''Type'' = JStr ''AWS::Lambda::EventInvokeConfig''"
  by (simp_all add: urlPermissionResourceOf_def eventInvokeConfigResourceOf_def Let_def
      lookup_def)

lemma compileFunctionUrl_effect:
  assumes "compileFunctionUrl e n s = Inr s'"
  shows "\<forall>k. k \<noteq> getLambdaFunctionUrlLogicalId (nm e) n
             \<and> k \<noteq> getLambdaFnUrlPermissionLogicalId (nm e) n
           \<longrightarrow> lookup (Resources s') k = lookup (Resources s) k"
    and "versionIds (Resources s') \<subseteq> versionIds (Resources s)"
    and "service_functions s' = service_functions s"
    and "memo s' = memo s" and "destAddr s' = destAddr s"
proof -
  from assms obtain fo where fo: "getFunction s n = Inr fo"
    by (auto simp: compileFunctionUrl_def bind_Inr_iff)
  have r: "s' = s \<or> s' = s\<lparr>Resources :=
             (if getp (getp fo ''url'') ''authorizer'' \<noteq> JStr ''aws_iam'' then
                AList.update (getLambdaFnUrlPermissionLogicalId (nm e) n)
                  (urlPermissionResourceOf e n fo)
                  (AList.update (getLambdaFunctionUrlLogicalId (nm e) n) (urlResourceOf e n fo)
                     (Resources s))
              else AList.update (getLambdaFunctionUrlLogicalId (nm e) n) (urlResourceOf e n fo)
                     (Resources s)),
           Outputs := AList.update (getLambdaFunctionUrlOutputLogicalId (nm e) n)
                      (JObj [(''Description'', JStr ''Lambda Function URL''),
                             (''Value'', getAtt (JStr (getLambdaFunctionUrlLogicalId (nm e) n))
                                ''FunctionUrl'')])
                      (Outputs s)\<rparr>"
    using assms fo by (simp add: compileFunctionUrl_def Let_def split: if_splits)
  from r show "\<forall>k. k \<noteq> getLambdaFunctionUrlLogicalId (nm e) n
             \<and> k \<noteq> getLambdaFnUrlPermissionLogicalId (nm e) n
           \<longrightarrow> lookup (Resources s') k = lookup (Resources s) k"
    by auto
  from r show "versionIds (Resources s') \<subseteq> versionIds (Resources s)"
    by (auto simp: versionIds_update split: if_splits)
  from r show "service_functions s' = service_functions s" "memo s' = memo s"
    "destAddr s' = destAddr s"
    by auto
qed

lemma ensureTargetExecutionPermission_preserves:
  assumes "ensureTargetExecutionPermission d a s = Inr s'"
  shows "preservesTemplate (Resources s) (Resources s')"
  using assms
  by (auto simp: ensureTargetExecutionPermission_def ensureTargetExecutionPermission_body_def
      Let_def bind_Inr_iff split: if_splits jv.splits dest!: pushStatement_preserves)

lemma compileDestination_preserves:
  assumes "compileDestination e n fo slot key cs = Inr cs'"
  shows "preservesTemplate (Resources (snd cs)) (Resources (snd cs'))"
  using assms
  by (auto simp: compileDestination_def Let_def bind_Inr_iff split: if_splits
      dest: ensureTargetExecutionPermission_preserves)

lemma compileDestinations_preserves:
  assumes "compileDestinations e n fo s = Inr cs"
  shows "preservesTemplate (Resources s) (Resources (snd cs))"
proof (cases "truthy (getp fo ''destinations'')")
  case True
  with assms obtain c1 where
    "compileDestination e n fo ''onSuccess'' ''OnSuccess'' ([], s) = Inr c1"
    "compileDestination e n fo ''onFailure'' ''OnFailure'' c1 = Inr cs"
    by (auto simp: compileDestinations_def bind_Inr_iff)
  from compileDestination_preserves [OF this(1)] compileDestination_preserves [OF this(2)]
  show ?thesis by (auto intro: preservesTemplate_trans)
next
  case False
  with assms show ?thesis by (auto simp: compileDestinations_def)
qed

lemma compileFunctionEventInvokeConfig_effect:
  assumes "compileFunctionEventInvokeConfig e n s = Inr s'"
  shows "\<forall>k. k \<noteq> ''IamRoleLambdaExecution'' \<and> k \<noteq> getLambdaEventConfigLogicalId (nm e) n
           \<longrightarrow> lookup (Resources s') k = lookup (Resources s) k"
    and "versionIds (Resources s') \<subseteq> versionIds (Resources s)"
proof -
  from assms obtain fo where fo: "getFunction s n = Inr fo"
    by (auto simp: compileFunctionEventInvokeConfig_def bind_Inr_iff)
  show "\<forall>k. k \<noteq> ''IamRoleLambdaExecution'' \<and> k \<noteq> getLambdaEventConfigLogicalId (nm e) n
           \<longrightarrow> lookup (Resources s') k = lookup (Resources s) k"
    and "versionIds (Resources s') \<subseteq> versionIds (Resources s)"
  proof -
    consider (same) "s' = s"
      | (cfg) cs where "compileDestinations e n fo s = Inr cs"
          "Resources s' = AList.update (getLambdaEventConfigLogicalId (nm e) n)
                         (eventInvokeConfigResourceOf e n fo (fst cs)) (Resources (snd cs))"
      using assms fo
      by (auto simp: compileFunctionEventInvokeConfig_def bind_Inr_iff split: if_splits)
    then have "(\<forall>k. k \<noteq> ''IamRoleLambdaExecution'' \<and> k \<noteq> getLambdaEventConfigLogicalId (nm e) n
           \<longrightarrow> lookup (Resources s') k = lookup (Resources s) k)
        \<and> versionIds (Resources s') \<subseteq> versionIds (Resources s)"
    proof cases
      case same
      then show ?thesis by simp
    next
      case cfg
      from compileDestinations_preserves [OF cfg(1)]
      have p: "preservesTemplate (Resources s) (Resources (snd cs))" .
      from p cfg(2) show ?thesis
        by (auto simp: preservesTemplate_def versionIds_update
            versionIds_preservesTemplate [OF p] split: if_splits)
    qed
    then show "\<forall>k. k \<noteq> ''IamRoleLambdaExecution'' \<and> k \<noteq> getLambdaEventConfigLogicalId (nm e) n
           \<longrightarrow> lookup (Resources s') k = lookup (Resources s) k"
      and "versionIds (Resources s') \<subseteq> versionIds (Resources s)"
      by blast+
  qed
qed

lemma compileFunction_stages:
  assumes "compileFunction e n s = Inr s'" and "getFunction s n = Inr fo"
  obtains f f' s1 where
    "compileFunctionResource e n (initialFrame s fo) = Inr f"
    "compileVersion e n f = Inr f'"
    "compileFunctionUrl e n (putFunction n (functionObject f') (st f')) = Inr s1"
    "compileFunctionEventInvokeConfig e n s1 = Inr s'"
  using assms unfolding compileFunction_def bind_Inr_iff by auto

lemma compileFunctionResource_versioning:
  assumes "compileFunctionResource e n (initialFrame s fo) = Inr f"
  shows "shouldVersionFunction f = versioningEnabled fo (provider s)"
    and "mintsVersion f = versionCondition fo (provider s)"
    and "getp (functionObject f) ''provisionedConcurrency'' = getp fo ''provisionedConcurrency''"
    and "getp (functionObject f) ''snapStart'' = getp fo ''snapStart''"
proof -
  note R = compileFunctionResource_result [OF assms]
  have k: "getp (functionObject f) ''versionFunction'' = getp fo ''versionFunction''"
    "getp (functionObject f) ''provisionedConcurrency'' = getp fo ''provisionedConcurrency''"
    "getp (functionObject f) ''snapStart'' = getp fo ''snapStart''"
    using R(1) by (simp_all add: resolvedKeys_def)
  have p: "getp (provider (st f)) ''versionFunctions'' = getp (provider s) ''versionFunctions''"
    using R(2) by simp
  show "shouldVersionFunction f = versioningEnabled fo (provider s)"
    by (simp add: shouldVersionFunction_def versioningEnabled_def k p)
  then show "mintsVersion f = versionCondition fo (provider s)"
    by (simp add: mintsVersion_def versionCondition_def k)
  show "getp (functionObject f) ''provisionedConcurrency'' = getp fo ''provisionedConcurrency''"
    "getp (functionObject f) ''snapStart'' = getp fo ''snapStart''"
    by (rule k)+
qed

lemma compileFunctionResource_versionIds:
  assumes "compileFunctionResource e n (initialFrame s fo) = Inr f"
    and "getLambdaLogicalId (nm e) n \<noteq> ''IamRoleLambdaExecution''"
  shows "versionIds (Resources (st f)) \<subseteq> versionIds (Resources s)"
proof
  fix k assume k: "k \<in> versionIds (Resources (st f))"
  note R = compileFunctionResource_result [OF assms(1)]
  show "k \<in> versionIds (Resources s)"
  proof (cases "k = getLambdaLogicalId (nm e) n")
    case True
    with k R(10) R(11) show ?thesis by (simp add: versionIds_def)
  next
    case False
    show ?thesis
    proof (cases "k = ''IamRoleLambdaExecution''")
      case True
      with k R(9) assms(2) show ?thesis by (simp add: versionIds_def)
    next
      case False
      with \<open>k \<noteq> getLambdaLogicalId (nm e) n\<close> k R(8) show ?thesis
        by (simp add: versionIds_def)
    qed
  qed
qed

text \<open>What the stages after the version engine leave of the template.\<close>

lemma compileFunction_final:
  assumes c: "compileFunction e n s = Inr s'" and g: "getFunction s n = Inr fo"
    and d: "distinctIds e n"
  obtains f f' where
    "compileFunctionResource e n (initialFrame s fo) = Inr f"
    "compileVersion e n f = Inr f'"
    "lookup (Resources s') (getLambdaLogicalId (nm e) n)
       = lookup (Resources (st f')) (getLambdaLogicalId (nm e) n)"
    "\<forall>digest. lookup (Resources s') (getLambdaVersionLogicalId (nm e) n digest)
       = lookup (Resources (st f')) (getLambdaVersionLogicalId (nm e) n digest)"
    "versionIds (Resources s') \<subseteq> versionIds (Resources (st f'))"
proof -
  from c g obtain f f' s1 where
    1: "compileFunctionResource e n (initialFrame s fo) = Inr f"
    and 2: "compileVersion e n f = Inr f'"
    and 3: "compileFunctionUrl e n (putFunction n (functionObject f') (st f')) = Inr s1"
    and 4: "compileFunctionEventInvokeConfig e n s1 = Inr s'"
    by (rule compileFunction_stages)
  note D = distinctIds_facts [OF d]
  note U = compileFunctionUrl_effect [OF 3]
  note V = compileFunctionEventInvokeConfig_effect [OF 4]
  have a: "lookup (Resources s') (getLambdaLogicalId (nm e) n)
       = lookup (Resources (st f')) (getLambdaLogicalId (nm e) n)"
    using U(1) V(1) D by simp
  have b: "\<forall>digest. lookup (Resources s') (getLambdaVersionLogicalId (nm e) n digest)
       = lookup (Resources (st f')) (getLambdaVersionLogicalId (nm e) n digest)"
    using U(1) V(1) D by simp
  have v: "versionIds (Resources s') \<subseteq> versionIds (Resources (st f'))"
    using U(2) V(2) by auto
  from 1 2 a b v show ?thesis by (rule that)
qed

lemma helloService_functions:
  "getFunction helloService ''hello'' = Inr helloDefinition"
  "getFunction helloService ''plain'' = Inr plainDefinition"
  by (simp_all add: helloService_def serviceOf_def constructor_def emptyService_def
      getFunction_def Let_def)

lemma helloService_fresh: "versionIds (Resources helloService) = {}"
  by (auto simp: helloService_def serviceOf_def constructor_def emptyService_def Let_def
      versionIds_def defaultRole_def lookup_def)

lemma exampleEnv_distinctIds:
  "distinctIds exampleEnv ''hello''" "distinctIds exampleEnv ''plain''"
  by (simp_all add: distinctIds_def fixedIds_def exampleEnv_def exampleNaming_def)

lemma hello_compiles: "\<exists>s'. compileFunction exampleEnv ''hello'' helloService = Inr s'"
  by (simp add: helloService_def helloDefinition_def plainDefinition_def model_defs Let_def
      cong: bind_weak_cong let_weak_cong)

lemma plain_compiles: "\<exists>s'. compileFunction exampleEnv ''plain'' helloService = Inr s'"
  by (simp add: helloService_def helloDefinition_def plainDefinition_def model_defs Let_def
      cong: bind_weak_cong let_weak_cong)

lemma DeletionPolicy_finalVersionResource:
  "getp (finalVersionResource e n f c) ''DeletionPolicy''
     = (if (truthy (getp (functionObject f) ''provisionedConcurrency'')
            \<or> truthy (getp (functionObject f) ''snapStart''))
           \<and> \<not> truthy (shouldVersionFunction f)
        then JUndef else JStr ''Retain'')"
  "hasp (finalVersionResource e n f c) ''DeletionPolicy''
     = (\<not> ((truthy (getp (functionObject f) ''provisionedConcurrency'')
            \<or> truthy (getp (functionObject f) ''snapStart''))
           \<and> \<not> truthy (shouldVersionFunction f)))"
  by (simp_all add: finalVersionResource_def versionResourceOf_def Let_def
      cfLambdaVersionTemplate_def setProp_def lookup_def delete_keys)

text \<open>The version resource of a function for which a version is minted, in the template
  that \<^verbatim>\<open>compileFunction\<close> returns.\<close>

lemma minted_version_resource:
  assumes g: "getFunction s n = Inr fo"
      and c: "compileFunction e n s = Inr s'"
      and d: "distinctIds e n"
      and v: "versionCondition fo (provider s)"
  shows "\<exists>digest.
           getp (lookup (Resources s') (getLambdaVersionLogicalId (nm e) n digest)) ''Type''
             = JStr ''AWS::Lambda::Version''
         \<and> versionIds (Resources s')
             \<subseteq> insert (getLambdaVersionLogicalId (nm e) n digest) (versionIds (Resources s))
         \<and> (truthy (versioningEnabled fo (provider s)) \<longrightarrow>
              getp (lookup (Resources s') (getLambdaVersionLogicalId (nm e) n digest))
                ''DeletionPolicy'' = JStr ''Retain'')
         \<and> (\<not> truthy (versioningEnabled fo (provider s)) \<longrightarrow>
              \<not> hasp (lookup (Resources s') (getLambdaVersionLogicalId (nm e) n digest))
                  ''DeletionPolicy'')"
proof -
  from c g d obtain f f' where
    1: "compileFunctionResource e n (initialFrame s fo) = Inr f"
    and 2: "compileVersion e n f = Inr f'"
    and 3: "lookup (Resources s') (getLambdaLogicalId (nm e) n)
       = lookup (Resources (st f')) (getLambdaLogicalId (nm e) n)"
    and 4: "\<forall>digest. lookup (Resources s') (getLambdaVersionLogicalId (nm e) n digest)
       = lookup (Resources (st f')) (getLambdaVersionLogicalId (nm e) n digest)"
    and 5: "versionIds (Resources s') \<subseteq> versionIds (Resources (st f'))"
    by (rule compileFunction_final)
  note R = compileFunctionResource_result [OF 1]
  note W = compileFunctionResource_versioning [OF 1]
  from v W have m: "mintsVersion f" by simp
  from m 2 R(10) d obtain codeSha digest where
    cd: "computeVersionDigest e (enforceHashUpdate e n f) = Inr (codeSha, digest)"
    and np: "\<not> (truthy (getp (functionObject f) ''provisionedConcurrency'')
        \<and> truthy (getp (functionObject f) ''snapStart''))"
    and 6: "lookup (Resources (st f')) (getLambdaVersionLogicalId (nm e) n digest)
       = finalVersionResource e n f codeSha"
    by (rule compileVersion_minted)
  from compileVersion_versionIds [OF 2 R(11) m cd] have
    7: "versionIds (Resources (st f'))
           \<subseteq> insert (getLambdaVersionLogicalId (nm e) n digest) (versionIds (Resources (st f)))"
    by simp
  have 9: "versionIds (Resources (st f)) \<subseteq> versionIds (Resources s)"
    by (rule compileFunctionResource_versionIds [OF 1 distinctIds_facts(13) [OF d]])
  from 5 7 9 have 10: "versionIds (Resources s')
             \<subseteq> insert (getLambdaVersionLogicalId (nm e) n digest) (versionIds (Resources s))"
    by blast
  from m W have pc: "\<not> truthy (versioningEnabled fo (provider s)) \<Longrightarrow>
      truthy (getp (functionObject f) ''provisionedConcurrency'')
      \<or> truthy (getp (functionObject f) ''snapStart'')"
    by (auto simp: mintsVersion_def)
  show ?thesis
    using 4 6 10 pc W(1)
    by (intro exI [of _ digest]) (auto simp: DeletionPolicy_finalVersionResource)
qed

lemma hello_versioning:
  "versionCondition helloDefinition (provider helloService)"
  "\<not> truthy (versioningEnabled helloDefinition (provider helloService))"
  by (simp_all add: versionCondition_def versioningEnabled_def helloDefinition_def nullish_def
      lookup_def)

lemma exampleEnv_versionId:
  "getLambdaVersionLogicalId (nm exampleEnv) n d = n @ ''LambdaVersion'' @ d"
  by (simp add: exampleEnv_def exampleNaming_def)

lemma constructor_default:
  assumes "getp (provider s0) ''name'' = JStr ''aws''"
      and "nullish (getp (provider s0) ''versionFunctions'')"
  shows "getp (provider (constructor s0)) ''versionFunctions'' = JBool True"
proof -
  from assms(1) obtain al where "provider s0 = JObj al" by (cases "provider s0") auto
  with assms show ?thesis by (simp add: constructor_def Let_def)
qed

lemma plain_versioning:
  "\<not> versionCondition plainDefinition (provider helloService)"
  by (simp add: versionCondition_def versioningEnabled_def plainDefinition_def nullish_def
      lookup_def)

lemma compileVersion_conflict:
  assumes "truthy (getp (functionObject f) ''provisionedConcurrency'')"
      and "truthy (getp (functionObject f) ''snapStart'')"
  shows "\<exists>err. compileVersion e n f = Inl err"
    and "computeVersionDigest e (enforceHashUpdate e n f) = Inr cd \<Longrightarrow>
         compileVersion e n f = Inl (conflictError n)"
proof -
  have m: "mintsVersion f" using assms by (simp add: mintsVersion_def)
  have r: "compileVersion e n f = Inl (conflictError n)"
    if "computeVersionDigest e (enforceHashUpdate e n f) = Inr cd" for cd
    using that m assms
    by (simp add: compileVersion_def Let_def enforceHashUpdate_effect(1) insertVersion_def)
  from r show "computeVersionDigest e (enforceHashUpdate e n f) = Inr cd \<Longrightarrow>
         compileVersion e n f = Inl (conflictError n)" .
  show "\<exists>err. compileVersion e n f = Inl err"
  proof (cases "computeVersionDigest e (enforceHashUpdate e n f)")
    case (Inl err)
    with m show ?thesis by (simp add: compileVersion_def Let_def)
  next
    case (Inr cd)
    from r [OF Inr] show ?thesis ..
  qed
qed

lemma conflictService_snap: "getFunction conflictService ''snap'' = Inr snapDefinition"
  by (simp add: conflictService_def serviceOf_def constructor_def emptyService_def
      getFunction_def Let_def lookup_def nullish_def)

lemma snap_builds:
  "\<exists>f cd. compileFunctionResource exampleEnv ''snap'' (initialFrame conflictService snapDefinition) = Inr f
         \<and> computeVersionDigest exampleEnv (enforceHashUpdate exampleEnv ''snap'' f) = Inr cd"
  by (simp add: conflictService_def snapDefinition_def model_defs Let_def
      cong: bind_weak_cong let_weak_cong)

section \<open>The claims\<close>

text \<open>
  C5. For every declared function, \<^verbatim>\<open>compileFunction\<close> fails with the error of code
  \<^verbatim>\<open>FUNCTION_NEITHER_HANDLER_NOR_IMAGE_DEFINED_ERROR\<close> when neither \<^verbatim>\<open>handler\<close> nor
  \<^verbatim>\<open>image\<close> is set, and with the error of code
  \<^verbatim>\<open>FUNCTION_BOTH_HANDLER_AND_IMAGE_DEFINED_ERROR\<close> when both are; the two codes differ
  and both messages carry the function's name. When exactly one of the two is set, no
  error of either code is raised, whatever else the compilation does. A property is set
  when its value is truthy, which is what the source tests.
\<close>

theorem handler_image_validation:
  assumes decl: "getFunction s functionName = Inr fo"
  shows "(\<not> truthy (getp fo ''handler'') \<and> \<not> truthy (getp fo ''image'')
            \<longrightarrow> compileFunction e functionName s = Inl (neitherError functionName))
       \<and> (truthy (getp fo ''handler'') \<and> truthy (getp fo ''image'')
            \<longrightarrow> compileFunction e functionName s = Inl (bothError functionName))
       \<and> (truthy (getp fo ''handler'') \<noteq> truthy (getp fo ''image'')
            \<longrightarrow> (\<forall>err. compileFunction e functionName s = Inl err
                        \<longrightarrow> errorCode err \<notin> handlerImageCodes))
       \<and> errorCode (neitherError functionName) \<in> handlerImageCodes
       \<and> errorCode (bothError functionName) \<in> handlerImageCodes
       \<and> errorCode (neitherError functionName) \<noteq> errorCode (bothError functionName)
       \<and> includes_str (errorMessage (neitherError functionName)) functionName
       \<and> includes_str (errorMessage (bothError functionName)) functionName"
proof -
  let ?f0 = "initialFrame s fo"
  have h: "getp (functionObject ?f0) ''handler'' = getp fo ''handler''"
    and i: "getp (functionObject ?f0) ''image'' = getp fo ''image''"
    by (simp_all add: initialFrame_getp)
  have neither: "compileFunction e functionName s = Inl (neitherError functionName)"
    if "\<not> truthy (getp fo ''handler'')" "\<not> truthy (getp fo ''image'')"
    using that decl h i
    by (simp add: compileFunction_def compileFunctionResource_def checkHandlerImage_def)
  have both: "compileFunction e functionName s = Inl (bothError functionName)"
    if "truthy (getp fo ''handler'')" "truthy (getp fo ''image'')"
    using that decl h i
    by (simp add: compileFunction_def compileFunctionResource_def checkHandlerImage_def)
  have one: "errorCode err \<notin> handlerImageCodes"
    if x: "truthy (getp fo ''handler'') \<noteq> truthy (getp fo ''image'')"
      and r: "compileFunction e functionName s = Inl err" for err
  proof -
    from x h i have c: "checkHandlerImage functionName ?f0 = Inr ?f0"
      by (auto simp: checkHandlerImage_def)
    from r decl have "laterError err"
      by (auto simp: compileFunction_def bind_Inl_iff
          dest: afterCheck_err [OF c] compileVersion_err compileFunctionUrl_err
            compileFunctionEventInvokeConfig_err)
    then show ?thesis by (simp add: laterError_def)
  qed
  have codes: "errorCode (neitherError functionName) \<in> handlerImageCodes"
    "errorCode (bothError functionName) \<in> handlerImageCodes"
    "errorCode (neitherError functionName) \<noteq> errorCode (bothError functionName)"
    by (simp_all add: errorCode_def neitherError_def bothError_def handlerImageCodes_def)
  have m1: "includes_str (errorMessage (neitherError functionName)) functionName"
    unfolding errorMessage_def neitherError_def error.case
    using includes_str_mid [of "''Either '' @ dq @ ''handler'' @ dq @ '' or '' @ dq @ ''image'' @ dq @
        '' property needs to be set on function '' @ dq" functionName dq]
    by simp
  have m2: "includes_str (errorMessage (bothError functionName)) functionName"
    unfolding errorMessage_def bothError_def error.case
    using includes_str_mid [of "''Either '' @ dq @ ''handler'' @ dq @ '' or '' @ dq @ ''image'' @ dq @
        '' property (not both) needs to be set on function '' @ dq" functionName "dq @ ''.''"]
    by simp
  from neither both one codes m1 m2 show ?thesis by blast
qed

text \<open>The three cases on a service with a function of each kind.\<close>

theorem handler_image_validation_witness:
  "getFunction validationService ''both''
     = Inr (JObj [(''handler'', JStr ''index.handler''), (''image'', JStr ''img'')])
   \<and> compileFunction exampleEnv ''both'' validationService = Inl (bothError ''both'')
   \<and> getFunction validationService ''none'' = Inr (JObj [(''name'', JStr ''svc-dev-none'')])
   \<and> compileFunction exampleEnv ''none'' validationService = Inl (neitherError ''none'')
   \<and> getFunction validationService ''one'' = Inr (JObj [(''handler'', JStr ''index.handler'')])
   \<and> compileFunction exampleEnv ''one'' validationService \<noteq> Inl (neitherError ''one'')
   \<and> compileFunction exampleEnv ''one'' validationService \<noteq> Inl (bothError ''one'')"
proof -
  note f = validationService_functions
  have b: "compileFunction exampleEnv ''both'' validationService = Inl (bothError ''both'')"
    using handler_image_validation [OF f(1), of exampleEnv] by (simp add: lookup_def)
  have n: "compileFunction exampleEnv ''none'' validationService = Inl (neitherError ''none'')"
    using handler_image_validation [OF f(2), of exampleEnv] by (simp add: lookup_def)
  have o: "compileFunction exampleEnv ''one'' validationService \<noteq> Inl (neitherError ''one'')"
    "compileFunction exampleEnv ''one'' validationService \<noteq> Inl (bothError ''one'')"
    using handler_image_validation [OF f(3), of exampleEnv] by (auto simp: lookup_def)
  from f b n o show ?thesis by simp
qed

text \<open>
  C7 (amended). For a function URL with CORS enabled, \<^verbatim>\<open>compileFunctionUrl\<close> inserts a URL
  resource whose \<^verbatim>\<open>Cors\<close> property always holds the six keys of lines 692-699, and
  every field of the configuration is compiled on its own. Each of the three fields that
  have a default (\<^verbatim>\<open>allowedOrigins\<close>, \<^verbatim>\<open>allowedHeaders\<close>, \<^verbatim>\<open>allowedMethods\<close>, defaults
  of lines 15-26): a list replaces the default by the list without its repeated
  elements; \<open>null\<close> leaves the key in place with the value \<open>undefined\<close> (the field is deleted
  from the working policy, the key of the property is still written); an absent field
  keeps the default. \<^verbatim>\<open>exposedResponseHeaders\<close> has no default: a list is de-duplicated,
  anything falsy gives \<open>undefined\<close>. \<^verbatim>\<open>allowCredentials\<close> gives \<open>true\<close> when truthy and
  \<open>undefined\<close> otherwise, \<^verbatim>\<open>maxAge\<close> is copied. De-duplication keeps the elements of the
  list, every primitive element once and every element that is an array or an object.
\<close>

theorem cors_override:
  assumes "getFunction s functionName = Inr fo"
      and "truthy (getp fo ''url'')"
      and "truthy (getp (getp fo ''url'') ''cors'')"
      and "getLambdaFnUrlPermissionLogicalId (nm e) functionName
             \<noteq> getLambdaFunctionUrlLogicalId (nm e) functionName"
  shows "\<exists>s' Cors.
           compileFunctionUrl e functionName s = Inr s'
         \<and> Cors = getProp (lookup (Resources s') (getLambdaFunctionUrlLogicalId (nm e) functionName))
                    ''Cors''
         \<and> list_all (hasp Cors) corsKeys
         \<and> overrides (getp (getp (getp fo ''url'') ''cors'') ''allowedOrigins'')
              (JArr [JStr ''*'']) (getp Cors ''AllowOrigins'')
         \<and> overrides (getp (getp (getp fo ''url'') ''cors'') ''allowedHeaders'')
              (JArr [JStr ''Content-Type'', JStr ''X-Amz-Date'', JStr ''Authorization'',
                     JStr ''X-Api-Key'', JStr ''X-Amz-Security-Token'', JStr ''X-Amzn-Trace-Id''])
              (getp Cors ''AllowHeaders'')
         \<and> overrides (getp (getp (getp fo ''url'') ''cors'') ''allowedMethods'')
              (JArr [JStr ''*'']) (getp Cors ''AllowMethods'')
         \<and> getp Cors ''ExposeHeaders''
             = (if truthy (getp (getp (getp fo ''url'') ''cors'') ''exposedResponseHeaders'')
                then JArr (uniq (arrayLike
                       (getp (getp (getp fo ''url'') ''cors'') ''exposedResponseHeaders'')))
                else JUndef)
         \<and> getp Cors ''AllowCredentials''
             = (if truthy (getp (getp (getp fo ''url'') ''cors'') ''allowCredentials'')
                then JBool True else JUndef)
         \<and> getp Cors ''MaxAge'' = getp (getp (getp fo ''url'') ''cors'') ''maxAge''
         \<and> (\<forall>xs. set (uniq xs) = set xs
                 \<and> distinct (filter (\<lambda>x. \<not> isObject x) (uniq xs))
                 \<and> filter isObject (uniq xs) = filter isObject xs)"
proof -
  from compileFunctionUrl_resource [OF assms(1,2,4)] obtain s' where
    s': "compileFunctionUrl e functionName s = Inr s'"
    and r: "lookup (Resources s') (getLambdaFunctionUrlLogicalId (nm e) functionName)
              = urlResourceOf e functionName fo"
    by blast
  have d: "lookup defaultCors ''allowedHeaders''
      = JArr [JStr ''Content-Type'', JStr ''X-Amz-Date'', JStr ''Authorization'',
              JStr ''X-Api-Key'', JStr ''X-Amz-Security-Token'', JStr ''X-Amzn-Trace-Id'']"
    by (simp add: defaultCors_def lookup_def)
  show ?thesis
    using s' r corsProperty_overrides [of "getp (getp fo ''url'') ''cors''"] d
      corsProperty_others [of "getp (getp fo ''url'') ''cors''"]
      corsProperty_keys [of "compileCors (getp (getp fo ''url'') ''cors'')"]
      uniq_objects uniq_primitives
    by (simp add: urlResourceOf_Cors [OF assms(3)])
qed

text \<open>
  C7, as stated, fails: with \<^verbatim>\<open>allowedOrigins: null\<close> the \<^verbatim>\<open>Cors\<close> property of the compiled
  URL resource still has the key \<^verbatim>\<open>AllowOrigins\<close>; its value is \<open>undefined\<close>.
\<close>

theorem cors_override_counterexample:
  "getp (getp (getp corsDefinition ''url'') ''cors'') ''allowedOrigins'' = JNull
   \<and> (\<exists>s' Cors.
        compileFunctionUrl exampleEnv ''web'' corsService = Inr s'
      \<and> Cors = getProp (lookup (Resources s') ''webLambdaFunctionUrl'') ''Cors''
      \<and> hasp Cors ''AllowOrigins''
      \<and> getp Cors ''AllowOrigins'' = JUndef)"
  by (simp add: corsService_def corsDefinition_def serviceOf_def emptyService_def
      exampleEnv_def exampleNaming_def exampleProvider_def exampleRuntime_def
      model_defs Let_def
      cong: bind_weak_cong let_weak_cong)

text \<open>On the service above: the origins undefined under their key, the two distinct
  headers, the default methods, the exposed header once, credentials and age as given.\<close>

theorem cors_override_witness:
  "\<exists>s' Cors.
      compileFunctionUrl exampleEnv ''web'' corsService = Inr s'
    \<and> Cors = getProp (lookup (Resources s') ''webLambdaFunctionUrl'') ''Cors''
    \<and> hasp Cors ''AllowOrigins''
    \<and> getp Cors ''AllowOrigins'' = JUndef
    \<and> getp Cors ''AllowHeaders'' = JArr [JStr ''X-A'', JStr ''X-B'']
    \<and> getp Cors ''AllowMethods'' = JArr [JStr ''*'']
    \<and> getp Cors ''ExposeHeaders'' = JArr [JStr ''X-C'']
    \<and> getp Cors ''AllowCredentials'' = JBool True
    \<and> getp Cors ''MaxAge'' = JNum 60"
proof -
  have n: "getLambdaFnUrlPermissionLogicalId (nm exampleEnv) ''web''
             \<noteq> getLambdaFunctionUrlLogicalId (nm exampleEnv) ''web''"
    by (simp add: exampleEnv_def exampleNaming_def)
  have i: "getLambdaFunctionUrlLogicalId (nm exampleEnv) ''web'' = ''webLambdaFunctionUrl''"
    by (simp add: exampleEnv_def exampleNaming_def)
  have u: "truthy (getp corsDefinition ''url'')"
    "truthy (getp (getp corsDefinition ''url'') ''cors'')"
    by (simp_all add: corsDefinition_def lookup_def)
  let ?c = "getp (getp corsDefinition ''url'') ''cors''"
  from cors_override [OF corsService_web u n] obtain s' Cors where
    a: "compileFunctionUrl exampleEnv ''web'' corsService = Inr s'"
    and b: "Cors = getProp (lookup (Resources s') ''webLambdaFunctionUrl'') ''Cors''"
    and k: "list_all (hasp Cors) corsKeys"
    and o: "overrides (getp ?c ''allowedOrigins'') (JArr [JStr ''*'']) (getp Cors ''AllowOrigins'')"
    and h: "overrides (getp ?c ''allowedHeaders'')
              (JArr [JStr ''Content-Type'', JStr ''X-Amz-Date'', JStr ''Authorization'',
                     JStr ''X-Api-Key'', JStr ''X-Amz-Security-Token'', JStr ''X-Amzn-Trace-Id''])
              (getp Cors ''AllowHeaders'')"
    and m: "overrides (getp ?c ''allowedMethods'') (JArr [JStr ''*'']) (getp Cors ''AllowMethods'')"
    and x: "getp Cors ''ExposeHeaders''
             = (if truthy (getp ?c ''exposedResponseHeaders'')
                then JArr (uniq (arrayLike (getp ?c ''exposedResponseHeaders''))) else JUndef)"
    and c: "getp Cors ''AllowCredentials''
             = (if truthy (getp ?c ''allowCredentials'') then JBool True else JUndef)"
    and g: "getp Cors ''MaxAge'' = getp ?c ''maxAge''"
    unfolding i by blast
  have 1: "hasp Cors ''AllowOrigins''" using k by (simp add: corsKeys_def)
  have 2: "getp Cors ''AllowOrigins'' = JUndef"
    using o by (simp add: overrides_def corsDefinition_def lookup_def)
  have 3: "getp Cors ''AllowHeaders'' = JArr [JStr ''X-A'', JStr ''X-B'']"
    using h by (simp add: overrides_def corsDefinition_def lookup_def sameValueZero_def)
  have 4: "getp Cors ''AllowMethods'' = JArr [JStr ''*'']"
    using m by (simp add: overrides_def corsDefinition_def lookup_def)
  have 5: "getp Cors ''ExposeHeaders'' = JArr [JStr ''X-C'']"
    using x by (simp add: corsDefinition_def lookup_def sameValueZero_def)
  have 6: "getp Cors ''AllowCredentials'' = JBool True"
    using c by (simp add: corsDefinition_def lookup_def)
  have 7: "getp Cors ''MaxAge'' = JNum 60"
    using g by (simp add: corsDefinition_def lookup_def)
  from a b 1 2 3 4 5 6 7 show ?thesis by blast
qed




text \<open>
  C10. When \<^verbatim>\<open>compileFunction\<close> returns, the compute resource it has put under the
  function's logical id carries \<^verbatim>\<open>ReservedConcurrentExecutions\<close> equal to 0 if the
  function's \<^verbatim>\<open>reservedConcurrency\<close> is the number 0, and has no such property if
  \<^verbatim>\<open>reservedConcurrency\<close> is unset. The logical ids of the resources of the function
  are taken to be distinct, as the naming collaborator promises.
\<close>

theorem reserved_concurrency_zero:
  assumes "getFunction s functionName = Inr fo"
      and "compileFunction e functionName s = Inr s'"
      and "distinctIds e functionName"
  shows "(getp fo ''reservedConcurrency'' = JNum 0 \<longrightarrow>
            hasProp (lookup (Resources s') (getLambdaLogicalId (nm e) functionName))
              ''ReservedConcurrentExecutions''
          \<and> getProp (lookup (Resources s') (getLambdaLogicalId (nm e) functionName))
              ''ReservedConcurrentExecutions'' = JNum 0)
       \<and> (getp fo ''reservedConcurrency'' = JUndef \<longrightarrow>
            \<not> hasProp (lookup (Resources s') (getLambdaLogicalId (nm e) functionName))
                ''ReservedConcurrentExecutions'')"
proof -
  from assms(2,1,3) obtain f f' where
    1: "compileFunctionResource e functionName (initialFrame s fo) = Inr f"
    and 2: "compileVersion e functionName f = Inr f'"
    and 3: "lookup (Resources s') (getLambdaLogicalId (nm e) functionName)
       = lookup (Resources (st f')) (getLambdaLogicalId (nm e) functionName)"
    by (rule compileFunction_final)
  note R = compileFunctionResource_result [OF 1]
  have "lookup (Resources (st f')) (getLambdaLogicalId (nm e) functionName) = functionResource f'
        \<and> keepsReserved (functionResource f) (functionResource f')"
  proof (cases "mintsVersion f")
    case True
    from True 2 R(10) assms(3) show ?thesis
      by (rule compileVersion_minted) simp
  next
    case False
    with 2 R(10) show ?thesis by (simp add: compileVersion_unminted)
  qed
  with 3 R(12) R(13) show ?thesis
    by (simp add: keepsReserved_def)
qed

text \<open>On the service above: \<open>hello\<close> gets the property with value 0, \<open>plain\<close> gets no
  such property.\<close>

theorem reserved_concurrency_zero_witness:
  "getFunction helloService ''hello'' = Inr helloDefinition
   \<and> getp helloDefinition ''reservedConcurrency'' = JNum 0
   \<and> distinctIds exampleEnv ''hello''
   \<and> (\<exists>s'. compileFunction exampleEnv ''hello'' helloService = Inr s'
         \<and> getProp (lookup (Resources s') ''helloLambdaFunction'')
              ''ReservedConcurrentExecutions'' = JNum 0)
   \<and> getFunction helloService ''plain'' = Inr plainDefinition
   \<and> getp plainDefinition ''reservedConcurrency'' = JUndef
   \<and> (\<exists>s'. compileFunction exampleEnv ''plain'' helloService = Inr s'
         \<and> \<not> hasProp (lookup (Resources s') ''plainLambdaFunction'')
                ''ReservedConcurrentExecutions'')"
proof -
  have i: "getLambdaLogicalId (nm exampleEnv) ''hello'' = ''helloLambdaFunction''"
    "getLambdaLogicalId (nm exampleEnv) ''plain'' = ''plainLambdaFunction''"
    by (simp_all add: exampleEnv_def exampleNaming_def)
  have r: "getp helloDefinition ''reservedConcurrency'' = JNum 0"
    "getp plainDefinition ''reservedConcurrency'' = JUndef"
    by (simp_all add: helloDefinition_def plainDefinition_def lookup_def)
  from hello_compiles obtain s1 where s1: "compileFunction exampleEnv ''hello'' helloService = Inr s1" ..
  from plain_compiles obtain s2 where s2: "compileFunction exampleEnv ''plain'' helloService = Inr s2" ..
  from reserved_concurrency_zero [OF helloService_functions(1) s1 exampleEnv_distinctIds(1)] r i
  have a: "getProp (lookup (Resources s1) ''helloLambdaFunction'')
              ''ReservedConcurrentExecutions'' = JNum 0"
    by simp
  from reserved_concurrency_zero [OF helloService_functions(2) s2 exampleEnv_distinctIds(2)] r i
  have b: "\<not> hasProp (lookup (Resources s2) ''plainLambdaFunction'')
                ''ReservedConcurrentExecutions''"
    by simp
  from a b s1 s2 r helloService_functions exampleEnv_distinctIds show ?thesis by blast
qed

text \<open>
  C2 (amended). For every function for which a version is minted, the version resource
  that \<^verbatim>\<open>compileFunction\<close> leaves in the resource graph, the only version resource it
  adds, carries \<^verbatim>\<open>DeletionPolicy: Retain\<close> exactly when versioning is enabled for the
  function (the function's \<^verbatim>\<open>versionFunction\<close>, else the provider's
  \<^verbatim>\<open>versionFunctions\<close>). When the version is minted only because provisioned
  concurrency or SnapStart is set while versioning is off, lines 585 and 610 delete the
  policy, and the version resource has none.
\<close>

theorem version_retention:
  assumes "getFunction s functionName = Inr fo"
      and "compileFunction e functionName s = Inr s'"
      and "distinctIds e functionName"
      and "versionCondition fo (provider s)"
  shows "\<exists>digest.
           getp (lookup (Resources s') (getLambdaVersionLogicalId (nm e) functionName digest))
             ''Type'' = JStr ''AWS::Lambda::Version''
         \<and> versionIds (Resources s')
             \<subseteq> insert (getLambdaVersionLogicalId (nm e) functionName digest)
                 (versionIds (Resources s))
         \<and> (truthy (versioningEnabled fo (provider s)) \<longrightarrow>
              getp (lookup (Resources s') (getLambdaVersionLogicalId (nm e) functionName digest))
                ''DeletionPolicy'' = JStr ''Retain'')
         \<and> (\<not> truthy (versioningEnabled fo (provider s)) \<longrightarrow>
              \<not> hasp (lookup (Resources s') (getLambdaVersionLogicalId (nm e) functionName digest))
                  ''DeletionPolicy'')"
  using assms by (rule minted_version_resource)

text \<open>Against the claim as stated: the function \<open>hello\<close> switches versioning off and asks
  for provisioned concurrency; its version resource is in the graph and has no
  \<^verbatim>\<open>DeletionPolicy\<close>.\<close>

theorem version_retention_counterexample:
  "\<exists>s' digest.
      compileFunction exampleEnv ''hello'' helloService = Inr s'
    \<and> getp (lookup (Resources s') (''hello'' @ ''LambdaVersion'' @ digest)) ''Type''
        = JStr ''AWS::Lambda::Version''
    \<and> \<not> hasp (lookup (Resources s') (''hello'' @ ''LambdaVersion'' @ digest)) ''DeletionPolicy''"
proof -
  from hello_compiles obtain s1 where s1: "compileFunction exampleEnv ''hello'' helloService = Inr s1" ..
  from minted_version_resource [OF helloService_functions(1) s1 exampleEnv_distinctIds(1)
      hello_versioning(1)] hello_versioning(2) s1
  show ?thesis by (auto simp: exampleEnv_versionId)
qed

text \<open>The amended claim on the same function.\<close>

theorem version_retention_witness:
  "getFunction helloService ''hello'' = Inr helloDefinition
   \<and> distinctIds exampleEnv ''hello''
   \<and> versionCondition helloDefinition (provider helloService)
   \<and> \<not> truthy (versioningEnabled helloDefinition (provider helloService))
   \<and> (\<exists>s' digest.
         compileFunction exampleEnv ''hello'' helloService = Inr s'
       \<and> versionIds (Resources s') \<subseteq> {''hello'' @ ''LambdaVersion'' @ digest}
       \<and> \<not> hasp (lookup (Resources s') (''hello'' @ ''LambdaVersion'' @ digest))
             ''DeletionPolicy'')"
proof -
  from hello_compiles obtain s1 where s1: "compileFunction exampleEnv ''hello'' helloService = Inr s1" ..
  from version_retention [OF helloService_functions(1) s1 exampleEnv_distinctIds(1)
      hello_versioning(1)] hello_versioning(2) s1
  have "\<exists>s' digest.
         compileFunction exampleEnv ''hello'' helloService = Inr s'
       \<and> versionIds (Resources s') \<subseteq> {''hello'' @ ''LambdaVersion'' @ digest}
       \<and> \<not> hasp (lookup (Resources s') (''hello'' @ ''LambdaVersion'' @ digest))
             ''DeletionPolicy''"
    by (auto simp: exampleEnv_versionId helloService_fresh)
  with helloService_functions(1) exampleEnv_distinctIds(1) hello_versioning show ?thesis
    by blast
qed

text \<open>
  C6. On a template that holds no version resource of the function yet,
  \<^verbatim>\<open>compileFunction\<close> leaves a version resource of the function in the resource graph
  if and only if versioning is enabled (the function's \<^verbatim>\<open>versionFunction\<close> when it is
  neither \<open>null\<close> nor \<open>undefined\<close>, else the provider's \<^verbatim>\<open>versionFunctions\<close>), or
  provisioned concurrency is set, or the SnapStart flag is set, each read as a truthy
  value; and it adds no version resource under any other id. The constructor switches
  the provider's \<^verbatim>\<open>versionFunctions\<close> on where an AWS service does not say.
\<close>

theorem version_minting_condition:
  assumes "getFunction s functionName = Inr fo"
      and "compileFunction e functionName s = Inr s'"
      and "distinctIds e functionName"
      and "\<forall>d. getLambdaVersionLogicalId (nm e) functionName d \<notin> versionIds (Resources s)"
  shows "(\<exists>d. getLambdaVersionLogicalId (nm e) functionName d \<in> versionIds (Resources s'))
           = (truthy (if nullish (getp fo ''versionFunction'')
                      then getp (provider s) ''versionFunctions''
                      else getp fo ''versionFunction'')
              \<or> truthy (getp fo ''provisionedConcurrency'')
              \<or> truthy (getp fo ''snapStart''))
       \<and> versionIds (Resources s')
           \<subseteq> versionIds (Resources s) \<union> range (getLambdaVersionLogicalId (nm e) functionName)
       \<and> (\<forall>s0. getp (provider s0) ''name'' = JStr ''aws''
                \<and> nullish (getp (provider s0) ''versionFunctions'')
              \<longrightarrow> getp (provider (constructor s0)) ''versionFunctions'' = JBool True)"
proof -
  let ?vid = "getLambdaVersionLogicalId (nm e) functionName"
  have v: "versionCondition fo (provider s)
           = (truthy (if nullish (getp fo ''versionFunction'')
                      then getp (provider s) ''versionFunctions''
                      else getp fo ''versionFunction'')
              \<or> truthy (getp fo ''provisionedConcurrency'')
              \<or> truthy (getp fo ''snapStart''))"
    by (simp add: versionCondition_def versioningEnabled_def)
  have "(\<exists>d. ?vid d \<in> versionIds (Resources s')) = versionCondition fo (provider s)
        \<and> versionIds (Resources s') \<subseteq> versionIds (Resources s) \<union> range ?vid"
  proof (cases "versionCondition fo (provider s)")
    case True
    from minted_version_resource [OF assms(1,2,3) True] obtain digest where
      t: "getp (lookup (Resources s') (?vid digest)) ''Type'' = JStr ''AWS::Lambda::Version''"
      and u: "versionIds (Resources s') \<subseteq> insert (?vid digest) (versionIds (Resources s))"
      by blast
    from t have "?vid digest \<in> versionIds (Resources s')" by (simp add: versionIds_def)
    then have "\<exists>d. ?vid d \<in> versionIds (Resources s')" ..
    moreover from u have "versionIds (Resources s') \<subseteq> versionIds (Resources s) \<union> range ?vid"
      by blast
    ultimately show ?thesis using True by simp
  next
    case False
    from assms(2,1,3) obtain f f' where
      1: "compileFunctionResource e functionName (initialFrame s fo) = Inr f"
      and 2: "compileVersion e functionName f = Inr f'"
      and 3: "lookup (Resources s') (getLambdaLogicalId (nm e) functionName)
         = lookup (Resources (st f')) (getLambdaLogicalId (nm e) functionName)"
      and 4: "\<forall>digest. lookup (Resources s') (getLambdaVersionLogicalId (nm e) functionName digest)
         = lookup (Resources (st f')) (getLambdaVersionLogicalId (nm e) functionName digest)"
      and 5: "versionIds (Resources s') \<subseteq> versionIds (Resources (st f'))"
      by (rule compileFunction_final)
    from False compileFunctionResource_versioning(2) [OF 1] have "\<not> mintsVersion f" by simp
    with 2 have "f' = f" by (simp add: compileVersion_unminted)
    with 5 compileFunctionResource_versionIds [OF 1 distinctIds_facts(13) [OF assms(3)]]
    have s: "versionIds (Resources s') \<subseteq> versionIds (Resources s)" by simp
    with assms(4) have "\<not> (\<exists>d. ?vid d \<in> versionIds (Resources s'))" by blast
    with s False show ?thesis by blast
  qed
  with v constructor_default show ?thesis by blast
qed

text \<open>On the service of \<open>hello\<close> and \<open>plain\<close>: \<open>hello\<close> asks for provisioned concurrency and
  gets a version, \<open>plain\<close> has versioning switched off and gets none.\<close>

theorem version_minting_condition_witness:
  "getFunction helloService ''hello'' = Inr helloDefinition
   \<and> distinctIds exampleEnv ''hello''
   \<and> versionIds (Resources helloService) = {}
   \<and> truthy (getp helloDefinition ''provisionedConcurrency'')
   \<and> (\<exists>s'. compileFunction exampleEnv ''hello'' helloService = Inr s'
         \<and> (\<exists>d. getLambdaVersionLogicalId (nm exampleEnv) ''hello'' d \<in> versionIds (Resources s')))
   \<and> getFunction helloService ''plain'' = Inr plainDefinition
   \<and> (\<exists>s'. compileFunction exampleEnv ''plain'' helloService = Inr s'
         \<and> versionIds (Resources s') = {})"
proof -
  from hello_compiles obtain s1 where s1: "compileFunction exampleEnv ''hello'' helloService = Inr s1" ..
  from plain_compiles obtain s2 where s2: "compileFunction exampleEnv ''plain'' helloService = Inr s2" ..
  have p: "truthy (getp helloDefinition ''provisionedConcurrency'')"
    by (simp add: helloDefinition_def lookup_def)
  have fresh: "\<forall>d. getLambdaVersionLogicalId (nm exampleEnv) n d \<notin> versionIds (Resources helloService)"
    for n
    using helloService_fresh by simp
  from version_minting_condition [OF helloService_functions(1) s1 exampleEnv_distinctIds(1) fresh] p
  have a: "\<exists>d. getLambdaVersionLogicalId (nm exampleEnv) ''hello'' d \<in> versionIds (Resources s1)"
    by simp
  from version_minting_condition [OF helloService_functions(2) s2 exampleEnv_distinctIds(2) fresh]
  have n: "\<not> (\<exists>d. getLambdaVersionLogicalId (nm exampleEnv) ''plain'' d \<in> versionIds (Resources s2))"
    and u: "versionIds (Resources s2)
              \<subseteq> versionIds (Resources helloService)
                \<union> range (getLambdaVersionLogicalId (nm exampleEnv) ''plain'')"
    using plain_versioning
    by (simp_all add: plainDefinition_def lookup_def nullish_def versionCondition_def
        versioningEnabled_def)
  from n u helloService_fresh have b: "versionIds (Resources s2) = {}" by blast
  from a b s1 s2 p helloService_functions exampleEnv_distinctIds(1) helloService_fresh
  show ?thesis by blast
qed

text \<open>
  C8. For every declared function with both provisioned concurrency and SnapStart set
  (truthy), \<^verbatim>\<open>compileFunction\<close> fails: it never returns a compiled state, so the two
  settings are never both applied. Whenever the compute resource builds and the version
  digest computes, that is, unless an earlier fatal check or an unreadable artifact stops
  the compilation first, the failure is the error of code
  \<^verbatim>\<open>FUNCTION_BOTH_PROVISIONED_CONCURRENCY_AND_SNAPSTART_ENABLED_ERROR\<close>, whose message names
  the function.
\<close>

theorem provisioned_concurrency_snapstart_conflict:
  assumes "getFunction s functionName = Inr fo"
      and "truthy (getp fo ''provisionedConcurrency'')"
      and "truthy (getp fo ''snapStart'')"
  shows "(\<exists>err. compileFunction e functionName s = Inl err)
       \<and> (\<forall>f cd. compileFunctionResource e functionName (initialFrame s fo) = Inr f
                 \<and> computeVersionDigest e (enforceHashUpdate e functionName f) = Inr cd
              \<longrightarrow> compileFunction e functionName s = Inl (conflictError functionName))
       \<and> errorCode (conflictError functionName)
           = ''FUNCTION_BOTH_PROVISIONED_CONCURRENCY_AND_SNAPSTART_ENABLED_ERROR''
       \<and> includes_str (errorMessage (conflictError functionName)) functionName"
proof -
  have k: "truthy (getp (functionObject f) ''provisionedConcurrency'')
           \<and> truthy (getp (functionObject f) ''snapStart'')"
    if "compileFunctionResource e functionName (initialFrame s fo) = Inr f" for f
    using compileFunctionResource_versioning(3,4) [OF that] assms(2,3) by simp
  have a: "\<exists>err. compileFunction e functionName s = Inl err"
  proof (cases "compileFunctionResource e functionName (initialFrame s fo)")
    case (Inl err)
    with assms(1) show ?thesis by (simp add: compileFunction_def)
  next
    case (Inr f)
    from k [OF Inr] compileVersion_conflict(1) [of f e functionName]
    obtain err where "compileVersion e functionName f = Inl err" by blast
    with Inr assms(1) show ?thesis by (simp add: compileFunction_def)
  qed
  have b: "compileFunction e functionName s = Inl (conflictError functionName)"
    if "compileFunctionResource e functionName (initialFrame s fo) = Inr f"
      "computeVersionDigest e (enforceHashUpdate e functionName f) = Inr cd" for f cd
    using compileVersion_conflict(2) [OF _ _ that(2)] k [OF that(1)] that(1) assms(1)
    by (simp add: compileFunction_def)
  have c: "errorCode (conflictError functionName)
           = ''FUNCTION_BOTH_PROVISIONED_CONCURRENCY_AND_SNAPSTART_ENABLED_ERROR''"
    by (simp add: errorCode_def conflictError_def)
  have m: "includes_str (errorMessage (conflictError functionName)) functionName"
    unfolding errorMessage_def conflictError_def error.case
    using includes_str_mid [of "''Functions with enabled SnapStart does not support provisioned concurrency. '' @
        ''Please remove at least one of the settings on function '' @ dq" functionName "dq @ ''.''"]
    by simp
  from a b c m show ?thesis by blast
qed

text \<open>The function above: its compute resource builds, its digest computes, and the
  compilation stops at the conflict.\<close>

theorem provisioned_concurrency_snapstart_conflict_witness:
  "getFunction conflictService ''snap'' = Inr snapDefinition
   \<and> truthy (getp snapDefinition ''provisionedConcurrency'')
   \<and> truthy (getp snapDefinition ''snapStart'')
   \<and> compileFunction exampleEnv ''snap'' conflictService = Inl (conflictError ''snap'')
   \<and> errorCode (conflictError ''snap'')
       = ''FUNCTION_BOTH_PROVISIONED_CONCURRENCY_AND_SNAPSTART_ENABLED_ERROR''"
proof -
  have t: "truthy (getp snapDefinition ''provisionedConcurrency'')"
    "truthy (getp snapDefinition ''snapStart'')"
    by (simp_all add: snapDefinition_def lookup_def)
  from snap_builds obtain f cd where
    b: "compileFunctionResource exampleEnv ''snap'' (initialFrame conflictService snapDefinition) = Inr f"
      "computeVersionDigest exampleEnv (enforceHashUpdate exampleEnv ''snap'' f) = Inr cd"
    by blast
  note T = provisioned_concurrency_snapstart_conflict [OF conflictService_snap t, of exampleEnv]
  from T b have c: "compileFunction exampleEnv ''snap'' conflictService = Inl (conflictError ''snap'')"
    by blast
  from T have e: "errorCode (conflictError ''snap'')
       = ''FUNCTION_BOTH_PROVISIONED_CONCURRENCY_AND_SNAPSTART_ENABLED_ERROR''"
    by blast
  from conflictService_snap t c e show ?thesis by blast
qed

end
